theory Spec2Isabelle
  imports Complex_Main "HOL-Library.Log_Nat"
begin

section \<open>Power-hint worker (HWCSession::PowerHalHintWorker)\<close>

text \<open>
  The worker of \<^verbatim>\<open>hwc_session.cpp\<close> talks to the power HAL extension through two binder
  calls, \<^verbatim>\<open>isModeSupported\<close> and \<^verbatim>\<open>setMode\<close>. The service is outside the repository, so
  it is a parameter of every function below: a record of answers that may depend on the
  calls made so far. Every call that reaches the service is appended to \<open>hal_calls\<close>.
\<close>

datatype PowerMode = PowerMode_Off | PowerMode_Doze | PowerMode_On | PowerMode_DozeSuspend

datatype binder_status = Ok | TransactionFailed | OtherException

datatype hal_call = IsModeSupported string | SetMode string bool

record PowerHalExt =
  available :: bool
  isModeSupported :: "hal_call list \<Rightarrow> string \<Rightarrow> binder_status \<times> bool"
  setMode :: "hal_call list \<Rightarrow> string \<Rightarrow> bool \<Rightarrow> binder_status"

record PowerHalHintWorker =
  mNeedUpdateRefreshRateHint :: bool
  mPrevRefreshRate :: int
  mPendingPrevRefreshRate :: int
  mRefreshRateHintSupportMap :: "int \<Rightarrow> bool option"
  mIdleHintIsEnabled :: bool
  mIdleHintDeadlineTime :: nat
  mIdleHintSupportIsChecked :: bool
  mIdleHintIsSupported :: bool
  mPowerModeState :: PowerMode
  mVsyncPeriod :: nat
  mPowerHalExtAidl :: bool
  hal_calls :: "hal_call list"

definition NO_ERROR :: int where "NO_ERROR = 0"
definition EINVAL :: int where "EINVAL = 22"
definition EOPNOTSUPP :: int where "EOPNOTSUPP = 95"
definition ENOTCONN :: int where "ENOTCONN = 107"

text \<open>The constructor \<^verbatim>\<open>PowerHalHintWorker()\<close>.\<close>

definition PowerHalHintWorker_init :: PowerHalHintWorker where
  "PowerHalHintWorker_init =
     \<lparr> mNeedUpdateRefreshRateHint = False, mPrevRefreshRate = 0, mPendingPrevRefreshRate = 0,
       mRefreshRateHintSupportMap = (\<lambda>_. None), mIdleHintIsEnabled = False,
       mIdleHintDeadlineTime = 0, mIdleHintSupportIsChecked = False,
       mIdleHintIsSupported = False, mPowerModeState = PowerMode_Off,
       mVsyncPeriod = 16666666, mPowerHalExtAidl = False, hal_calls = [] \<rparr>"

text \<open>\<^verbatim>\<open>std::to_string\<close> on an \<^verbatim>\<open>int\<close>: decimal digits, a minus sign when negative.\<close>

definition digit_char :: "nat \<Rightarrow> char" where
  "digit_char d = ''0123456789'' ! d"

function to_string_nat :: "nat \<Rightarrow> string" where
  "to_string_nat n =
     (if n < 10 then [digit_char n] else to_string_nat (n div 10) @ [digit_char (n mod 10)])"
  by pat_completeness auto
termination
  by (relation "measure id") auto

declare to_string_nat.simps [simp del]

definition to_string :: "int \<Rightarrow> string" where
  "to_string i = (if i < 0 then CHR ''-'' # to_string_nat (nat (- i)) else to_string_nat (nat i))"

definition refreshRateHintStr :: "int \<Rightarrow> string" where
  "refreshRateHintStr refreshRate = ''REFRESH_'' @ to_string refreshRate @ ''FPS''"

definition connectPowerHalExt :: "PowerHalExt \<Rightarrow> PowerHalHintWorker \<Rightarrow> int \<times> PowerHalHintWorker" where
  "connectPowerHalExt hal w =
     (if mPowerHalExtAidl w then (NO_ERROR, w)
      else if available hal then (NO_ERROR, w\<lparr>mPowerHalExtAidl := True\<rparr>)
      else (- EINVAL, w))"

definition checkPowerHalExtHintSupport ::
    "PowerHalExt \<Rightarrow> string \<Rightarrow> PowerHalHintWorker \<Rightarrow> int \<times> PowerHalHintWorker" where
  "checkPowerHalExtHintSupport hal mode w =
     (if mode = [] then (- EINVAL, w)
      else case connectPowerHalExt hal w of (rc, w1) \<Rightarrow>
        if rc \<noteq> NO_ERROR then (- EINVAL, w1)
        else case isModeSupported hal (hal_calls w1) mode of (ret, isSupported) \<Rightarrow>
          let w2 = w1\<lparr>hal_calls := hal_calls w1 @ [IsModeSupported mode]\<rparr> in
          if ret \<noteq> Ok then
            (if ret = TransactionFailed then (- ENOTCONN, w2\<lparr>mPowerHalExtAidl := False\<rparr>)
             else (- EINVAL, w2))
          else if \<not> isSupported then (- EOPNOTSUPP, w2)
          else (NO_ERROR, w2))"

definition sendPowerHalExtHint ::
    "PowerHalExt \<Rightarrow> string \<Rightarrow> bool \<Rightarrow> PowerHalHintWorker \<Rightarrow> int \<times> PowerHalHintWorker" where
  "sendPowerHalExtHint hal mode enabled w =
     (if mode = [] then (- EINVAL, w)
      else case connectPowerHalExt hal w of (rc, w1) \<Rightarrow>
        if rc \<noteq> NO_ERROR then (- EINVAL, w1)
        else
          let ret = setMode hal (hal_calls w1) mode enabled;
              w2 = w1\<lparr>hal_calls := hal_calls w1 @ [SetMode mode enabled]\<rparr> in
          if ret \<noteq> Ok then
            (if ret = TransactionFailed then (- ENOTCONN, w2\<lparr>mPowerHalExtAidl := False\<rparr>)
             else (- EINVAL, w2))
          else (NO_ERROR, w2))"

definition checkRefreshRateHintSupport ::
    "PowerHalExt \<Rightarrow> int \<Rightarrow> PowerHalHintWorker \<Rightarrow> int \<times> PowerHalHintWorker" where
  "checkRefreshRateHintSupport hal refreshRate w =
     (case mRefreshRateHintSupportMap w refreshRate of
        None \<Rightarrow>
          (case checkPowerHalExtHintSupport hal (refreshRateHintStr refreshRate) w of (ret, w1) \<Rightarrow>
             if ret = NO_ERROR \<or> ret = - EOPNOTSUPP then
               (ret, w1\<lparr>mRefreshRateHintSupportMap :=
                          (mRefreshRateHintSupportMap w1)(refreshRate \<mapsto> (ret = NO_ERROR))\<rparr>)
             else (ret, w1))
      | Some supported \<Rightarrow> (if \<not> supported then - EOPNOTSUPP else NO_ERROR, w))"

definition sendRefreshRateHint ::
    "PowerHalExt \<Rightarrow> int \<Rightarrow> bool \<Rightarrow> PowerHalHintWorker \<Rightarrow> int \<times> PowerHalHintWorker" where
  "sendRefreshRateHint hal refreshRate enabled w =
     (case sendPowerHalExtHint hal (refreshRateHintStr refreshRate) enabled w of (ret, w1) \<Rightarrow>
        if ret = - ENOTCONN then (ret, w1\<lparr>mPrevRefreshRate := 0, mPendingPrevRefreshRate := 0\<rparr>)
        else (ret, w1))"

subsection \<open>Single-precision arithmetic\<close>

text \<open>
  The refresh rate is computed in \<^verbatim>\<open>float\<close>: \<^verbatim>\<open>nsecsPerSec\<close> is a \<^verbatim>\<open>constexpr float\<close> and
  \<^verbatim>\<open>0.1f\<close> a \<^verbatim>\<open>float\<close> literal, so the conversion of \<^verbatim>\<open>vsyncPeriod\<close>, the quotient, the
  product, \<^verbatim>\<open>round\<close> (the \<^verbatim>\<open>float\<close> overload of \<^verbatim>\<open><cmath>\<close>) and the product by 10 are each
  rounded to IEEE 754 binary32, to nearest with ties to even. A \<^verbatim>\<open>float\<close> is modelled by
  the rational it denotes; \<open>float32 x\<close> is the binary32 value nearest to \<open>x\<close>, \<open>None\<close> when
  that is an infinity. \<open>float32_exponent x\<close> is the \<open>e\<close> with \<open>2^e \<le> |x| < 2^(e+1)\<close>; the
  spacing of binary32 values there is \<open>2^(e-23)\<close>, and \<open>2^-149\<close> below the normal range.
\<close>

definition rne :: "rat \<Rightarrow> int" where
  "rne x =
     (let f = \<lfloor>x\<rfloor>; r = x - of_int f in
      if r < 1 / 2 then f else if 1 / 2 < r then f + 1 else if even f then f else f + 1)"

definition pow2 :: "int \<Rightarrow> rat" where
  "pow2 e = (if 0 \<le> e then 2 ^ nat e else 1 / 2 ^ nat (- e))"

definition float32_exponent :: "rat \<Rightarrow> int" where
  "float32_exponent x =
     (if 1 \<le> \<bar>x\<bar> then bitlen \<lfloor>\<bar>x\<bar>\<rfloor> - 1 else - bitlen (\<lceil>1 / \<bar>x\<bar>\<rceil> - 1))"

definition float32 :: "rat \<Rightarrow> rat option" where
  "float32 x =
     (if x = 0 then Some 0
      else
        let e = float32_exponent x in
        if 127 < e then None
        else
          let ulp = pow2 (max (e - 23) (- 149));
              y = of_int (rne (x / ulp)) * ulp in
          if pow2 128 \<le> \<bar>y\<bar> then None else Some y)"

text \<open>\<^verbatim>\<open>round\<close>: to the nearest integer, halfway cases away from zero.\<close>

definition round_away :: "rat \<Rightarrow> int" where
  "round_away x = (if 0 \<le> x then \<lfloor>x + 1 / 2\<rfloor> else - \<lfloor>- x + 1 / 2\<rfloor>)"

text \<open>
  \<^verbatim>\<open>static_cast<int>(round(nsecsPerSec / vsyncPeriod * 0.1f) * 10)\<close> for a \<^verbatim>\<open>uint32_t\<close>
  \<open>vsyncPeriod\<close>. \<open>None\<close> is undefined behaviour: for \<open>vsyncPeriod = 0\<close> the quotient is an
  infinity, and the conversion of an infinity (or of a value outside the range of \<^verbatim>\<open>int\<close>)
  to \<^verbatim>\<open>int\<close> is undefined.
\<close>

definition refreshRateOf :: "nat \<Rightarrow> int option" where
  "refreshRateOf vsyncPeriod =
     (if vsyncPeriod = 0 then None
      else
        Option.bind (float32 (of_nat vsyncPeriod)) (\<lambda>period.
        Option.bind (float32 (1000000000 / period)) (\<lambda>quotient.
        Option.bind (float32 (1 / 10)) (\<lambda>tenth.
        Option.bind (float32 (quotient * tenth)) (\<lambda>product.
        Option.bind (float32 (of_int (round_away product) * 10)) (\<lambda>x.
          if - (2 ^ 31) \<le> x \<and> x < 2 ^ 31 then Some (if 0 \<le> x then \<lfloor>x\<rfloor> else \<lceil>x\<rceil>)
          else None))))))"

text \<open>
  \<^verbatim>\<open>updateRefreshRateHintInternal\<close>; \<open>None\<close> when the refresh rate is needed and its
  computation is undefined.
\<close>

definition updateRefreshRateHintInternal ::
    "PowerHalExt \<Rightarrow> PowerMode \<Rightarrow> nat \<Rightarrow> PowerHalHintWorker \<Rightarrow>
     (int \<times> PowerHalHintWorker) option" where
  "updateRefreshRateHintInternal hal powerMode vsyncPeriod w =
     (case (if mPendingPrevRefreshRate w \<noteq> 0 then
              (case sendRefreshRateHint hal (mPendingPrevRefreshRate w) False w of (ret, w1) \<Rightarrow>
                 if ret = NO_ERROR then (True, ret, w1\<lparr>mPendingPrevRefreshRate := 0\<rparr>)
                 else (False, ret, w1))
            else (True, NO_ERROR, w)) of
        (False, ret, w1) \<Rightarrow> Some (ret, w1)
      | (True, ret, w1) \<Rightarrow>
          if powerMode \<noteq> PowerMode_On then
            (if mPrevRefreshRate w1 \<noteq> 0 then
               (case sendRefreshRateHint hal (mPrevRefreshRate w1) False w1 of (ret2, w2) \<Rightarrow>
                  if ret2 = NO_ERROR then Some (ret2, w2\<lparr>mPrevRefreshRate := 0\<rparr>)
                  else Some (ret2, w2))
             else Some (ret, w1))
          else
            (case refreshRateOf vsyncPeriod of
               None \<Rightarrow> None
             | Some refreshRate \<Rightarrow>
            if mPrevRefreshRate w1 = refreshRate then Some (NO_ERROR, w1)
            else case checkRefreshRateHintSupport hal refreshRate w1 of (ret3, w3) \<Rightarrow>
              if ret3 \<noteq> NO_ERROR then Some (ret3, w3)
              else case sendRefreshRateHint hal refreshRate True w3 of (ret4, w4) \<Rightarrow>
                if ret4 \<noteq> NO_ERROR then Some (ret4, w4)
                else if mPrevRefreshRate w4 \<noteq> 0 then
                  (case sendRefreshRateHint hal (mPrevRefreshRate w4) False w4 of (ret5, w5) \<Rightarrow>
                     if ret5 \<noteq> NO_ERROR then
                       (if ret5 \<noteq> - ENOTCONN then
                          Some (ret5, w5\<lparr>mPendingPrevRefreshRate := mPrevRefreshRate w5,
                                         mPrevRefreshRate := refreshRate\<rparr>)
                        else Some (ret5, w5))
                     else Some (ret5, w5\<lparr>mPrevRefreshRate := refreshRate\<rparr>))
                else Some (ret4, w4\<lparr>mPrevRefreshRate := refreshRate\<rparr>)))"

text \<open>The \<^verbatim>\<open>setMode\<close> calls of a trace, as (hint name, enabled).\<close>

fun hint_calls :: "hal_call list \<Rightarrow> (string \<times> bool) list" where
  "hint_calls [] = []"
| "hint_calls (SetMode m e # cs) = (m, e) # hint_calls cs"
| "hint_calls (IsModeSupported m # cs) = hint_calls cs"

text \<open>A power service that is reachable, supports every hint and accepts every call.\<close>

definition hal_ok :: PowerHalExt where
  "hal_ok = \<lparr> available = True, isModeSupported = (\<lambda>_ _. (Ok, True)), setMode = (\<lambda>_ _ _. Ok) \<rparr>"

section \<open>Session layer (HWCSession): data\<close>

text \<open>
  \<^verbatim>\<open>HWC2::Error\<close>, \<^verbatim>\<open>HWC2::Connection\<close> and \<^verbatim>\<open>sdm::DisplayType\<close> as far as the
  session code names their values.
\<close>

datatype Error =
    Error_None | Error_BadConfig | Error_BadDisplay | Error_BadLayer | Error_BadParameter
  | Error_HasChanges | Error_NoResources | Error_NotValidated | Error_Unsupported

datatype Connection = Connected | Disconnected

datatype DisplayType = kBuiltIn | kPluggable | kVirtual | kDisplayTypeMax

text \<open>An entry of \<^verbatim>\<open>HWDisplaysInfo\<close>; the map is iterated in key order, here list order.\<close>

record HWDisplayInfo =
  display_id :: int
  display_type :: DisplayType
  is_connected :: bool
  is_primary :: bool

text \<open>\<^verbatim>\<open>HWCSession::DisplayMapInfo\<close> of \<^verbatim>\<open>hwc_session.h\<close> and its \<^verbatim>\<open>Reset()\<close>.\<close>

record DisplayMapInfo =
  client_id :: nat
  sdm_id :: int
  disp_type :: DisplayType
  test_pattern :: bool

definition DisplayMapInfo_init :: "nat \<Rightarrow> DisplayMapInfo" where
  "DisplayMapInfo_init kNum =
     \<lparr> client_id = kNum, sdm_id = - 1, disp_type = kDisplayTypeMax, test_pattern = False \<rparr>"

definition Reset :: "DisplayMapInfo \<Rightarrow> DisplayMapInfo" where
  "Reset m = m\<lparr>sdm_id := - 1, disp_type := kDisplayTypeMax, test_pattern := False\<rparr>"

text \<open>
  Modelled from the spec: the display object (\<^verbatim>\<open>HWCDisplay\<close>, \<^verbatim>\<open>hwc_display.h\<close>) is not
  under src. The spec gives it a validation state (Unvalidated, Validated, the SkipValidate
  fast path, and the cached internal validation), a power mode and an activation flag; the
  record keeps these, the layer table, the geometry-change mask and the pending-refresh mark
  that the session code reads or writes through one-line accessors, and \<open>internals\<close> for
  everything else the object holds.
\<close>

datatype DisplayValidateState = kNoValidate | kNormalValidate | kInternalValidate | kSkipValidate

record HWCDisplay =
  validate_state :: DisplayValidateState
  geometry_changes :: nat
  layer_map :: "nat \<Rightarrow> nat option"
  last_power_mode :: PowerMode
  active :: bool
  pending_refresh_mark :: bool
  internals :: nat

definition IsInternalValidateState :: "HWCDisplay \<Rightarrow> bool" where
  "IsInternalValidateState d = (validate_state d = kInternalValidate)"

definition IsSkipValidateState :: "HWCDisplay \<Rightarrow> bool" where
  "IsSkipValidateState d = (validate_state d = kSkipValidate)"

definition SetValidationState :: "DisplayValidateState \<Rightarrow> HWCDisplay \<Rightarrow> HWCDisplay" where
  "SetValidationState st d = d\<lparr>validate_state := st\<rparr>"

definition ResetValidation :: "HWCDisplay \<Rightarrow> HWCDisplay" where
  "ResetValidation d = d\<lparr>validate_state := kNoValidate\<rparr>"

definition GetGeometryChanges :: "HWCDisplay \<Rightarrow> nat" where
  "GetGeometryChanges d = geometry_changes d"

definition GetHWCLayer :: "HWCDisplay \<Rightarrow> nat \<Rightarrow> nat option" where
  "GetHWCLayer d layer = layer_map d layer"

definition GetLastPowerMode :: "HWCDisplay \<Rightarrow> PowerMode" where
  "GetLastPowerMode d = last_power_mode d"

definition SetPendingRefresh :: "HWCDisplay \<Rightarrow> HWCDisplay" where
  "SetPendingRefresh d = d\<lparr>pending_refresh_mark := True\<rparr>"

text \<open>The display classes whose \<^verbatim>\<open>Create\<close>/\<^verbatim>\<open>Destroy\<close> the session calls.\<close>

datatype DisplayClass =
    HWCDisplayBuiltIn | HWCDisplayPluggable | HWCDisplayPluggableTest | HWCDisplayVirtual
  | HWCDisplayDummy

text \<open>
  The collaborators of the session that are not under src are parameters: the constant
  \<^verbatim>\<open>HWCCallbacks::kNumDisplays\<close>, the hardware snapshot of \<^verbatim>\<open>GetDisplaysStatus\<close>
  (\<open>None\<close> when it reports an error), the display factories, and the methods of the
  display object that do real work. Each method maps the object to its result and its new
  state. \<open>Display_GetVsyncPeriod\<close> is \<^verbatim>\<open>GetDisplayAttribute(0, VsyncPeriod, &vsync_period)\<close>:
  the value written to \<^verbatim>\<open>vsync_period\<close>, \<open>None\<close> when the call leaves it alone.
\<close>

record Env =
  kNumDisplays :: nat
  GetDisplaysStatus :: "HWDisplayInfo list option"
  Display_Create :: "DisplayClass \<Rightarrow> nat \<Rightarrow> int \<Rightarrow> int \<times> HWCDisplay"
  Display_Validate :: "HWCDisplay \<Rightarrow> (Error \<times> nat \<times> nat) \<times> HWCDisplay"
  Display_GetValidateDisplayOutput :: "HWCDisplay \<Rightarrow> Error \<times> nat \<times> nat"
  Display_Present :: "HWCDisplay \<Rightarrow> (Error \<times> int option) \<times> HWCDisplay"
  Display_CanSkipValidate :: "HWCDisplay \<Rightarrow> bool"
  Display_HasClientComposition :: "HWCDisplay \<Rightarrow> bool"
  Display_SetPowerMode :: "PowerMode \<Rightarrow> HWCDisplay \<Rightarrow> Error \<times> HWCDisplay"
  Display_SetVsyncEnabled :: "HWCDisplay \<Rightarrow> Error \<times> HWCDisplay"
  Display_SetState :: "bool \<Rightarrow> HWCDisplay \<Rightarrow> int \<times> HWCDisplay"
  Display_GetHdrCapabilities :: "HWCDisplay \<Rightarrow> Error \<times> nat"
  Display_GetVsyncPeriod :: "HWCDisplay \<Rightarrow> int option"
  SetColorModeDetailEnhancer :: "HWCDisplay \<Rightarrow> HWCDisplay"
  CreateColorManager :: bool

text \<open>
  What the session does to its collaborators, in order: the sequence-lock macros on
  \<^verbatim>\<open>locker_[i]\<close>, the callbacks into the client, and the calls on display objects.
\<close>

datatype call =
    SeqEntry nat | SeqExit nat | SeqCancel nat
  | CbRefresh nat | CbHotplug nat Connection
  | DisplayCreate DisplayClass nat int | DisplayDestroy DisplayClass nat | DestroyCore
  | DisplayValidate nat | DisplayGetValidateOutput nat | DisplayPresent nat
  | DisplayActivate nat bool | DisplaySetPowerMode nat PowerMode | DisplaySetVsync nat
  | DisplaySetState nat bool | LayerMember nat nat
  | SignalIdle | SignalRefreshRate PowerMode nat

text \<open>
  The members of \<^verbatim>\<open>HWCSession\<close> (without the trailing underscore of the source names).
  \<open>hwc_display\<close> is the array of owning pointers, \<open>None\<close> for \<^verbatim>\<open>nullptr\<close>; only
  indices below \<open>kNumDisplays\<close> exist in the source. \<open>sequence_wait\<close> is the flag of
  each \<^verbatim>\<open>locker_[i]\<close>. \<open>callbacks_refresh\<close> and \<open>callbacks_hotplug\<close> say whether the
  client has registered that callback; \<open>callbacks_needs_refresh\<close> is the bit that
  \<^verbatim>\<open>callbacks_.NeedsRefresh\<close> reads.
\<close>

record HWCSession =
  hwc_display :: "nat \<Rightarrow> HWCDisplay option"
  is_hdr_display :: "nat \<Rightarrow> bool"
  map_info_primary :: DisplayMapInfo
  map_info_builtin :: "DisplayMapInfo list"
  map_info_pluggable :: "DisplayMapInfo list"
  map_info_virtual :: "DisplayMapInfo list"
  reset_panel :: bool
  primary_ready :: bool
  client_connected :: bool
  need_invalidate :: bool
  pluggable_is_primary :: bool
  null_display_active :: bool
  color_mgr :: bool
  hpd_bpp :: int
  hpd_pattern :: int
  pending_refresh :: "nat \<Rightarrow> bool"
  sequence_wait :: "nat \<Rightarrow> bool"
  callbacks_refresh :: bool
  callbacks_hotplug :: bool
  callbacks_needs_refresh :: "nat \<Rightarrow> bool"
  trace :: "call list"

text \<open>
  How a call ends: it returns; it waits on \<^verbatim>\<open>callbacks_lock_\<close> or on a sequence lock for
  a wake-up that only another thread can send (\<open>Blocked\<close>); it reaches \<^verbatim>\<open>abort()\<close>
  (\<open>Aborted\<close>, with the state at that point); or it dereferences a null display pointer
  (\<open>Fault\<close>, undefined behaviour in the source).
\<close>

datatype 'a outcome = Return 'a | Blocked | Aborted HWCSession | Fault

definition andThen :: "'a outcome \<Rightarrow> ('a \<Rightarrow> 'b outcome) \<Rightarrow> 'b outcome" where
  "andThen m f = (case m of Return x \<Rightarrow> f x | Blocked \<Rightarrow> Blocked
                  | Aborted s \<Rightarrow> Aborted s | Fault \<Rightarrow> Fault)"

definition log_call :: "call \<Rightarrow> HWCSession \<Rightarrow> HWCSession" where
  "log_call c s = s\<lparr>trace := trace s @ [c]\<rparr>"

definition set_display :: "nat \<Rightarrow> HWCDisplay option \<Rightarrow> HWCSession \<Rightarrow> HWCSession" where
  "set_display i d s = s\<lparr>hwc_display := (hwc_display s)(i := d)\<rparr>"

text \<open>
  Modelled from the spec: \<^verbatim>\<open>utils/locker.h\<close> is not under src. A sequence scope is entered
  on validate, left on present, and cancelling it resets the sequencing state.
\<close>

definition SEQUENCE_ENTRY_SCOPE_LOCK :: "nat \<Rightarrow> HWCSession \<Rightarrow> HWCSession" where
  "SEQUENCE_ENTRY_SCOPE_LOCK i s = log_call (SeqEntry i) (s\<lparr>sequence_wait := (sequence_wait s)(i := True)\<rparr>)"

definition SEQUENCE_EXIT_SCOPE_LOCK :: "nat \<Rightarrow> HWCSession \<Rightarrow> HWCSession" where
  "SEQUENCE_EXIT_SCOPE_LOCK i s = log_call (SeqExit i) (s\<lparr>sequence_wait := (sequence_wait s)(i := False)\<rparr>)"

definition SEQUENCE_CANCEL_SCOPE_LOCK :: "nat \<Rightarrow> HWCSession \<Rightarrow> HWCSession" where
  "SEQUENCE_CANCEL_SCOPE_LOCK i s = log_call (SeqCancel i) (s\<lparr>sequence_wait := (sequence_wait s)(i := False)\<rparr>)"

definition SEQUENCE_WAIT_SCOPE_LOCK :: "nat \<Rightarrow> HWCSession \<Rightarrow> HWCSession outcome" where
  "SEQUENCE_WAIT_SCOPE_LOCK i s = (if sequence_wait s i then Blocked else Return s)"

text \<open>
  Modelled from the spec: \<^verbatim>\<open>HWCCallbacks\<close> is not under src. A callback reaches the
  client when the client has registered it and reports "not yet ready" otherwise.
\<close>

definition callbacks_Refresh :: "nat \<Rightarrow> HWCSession \<Rightarrow> Error \<times> HWCSession" where
  "callbacks_Refresh display s =
     (if callbacks_refresh s then (Error_None, log_call (CbRefresh display) s)
      else (Error_NoResources, s))"

definition callbacks_Hotplug :: "nat \<Rightarrow> Connection \<Rightarrow> HWCSession \<Rightarrow> Error \<times> HWCSession" where
  "callbacks_Hotplug display state s =
     (if callbacks_hotplug s then (Error_None, log_call (CbHotplug display state) s)
      else (Error_NoResources, s))"

section \<open>Session layer (HWCSession): operations\<close>

text \<open>
  \<^verbatim>\<open>HWCSession::Refresh\<close>: retries \<^verbatim>\<open>callbacks_.Refresh\<close> after each wait on
  \<^verbatim>\<open>callbacks_lock_\<close>. Nothing in a single thread registers the callback meanwhile, so
  a refusal means the call waits.
\<close>

definition Refresh :: "nat \<Rightarrow> HWCSession \<Rightarrow> HWCSession outcome" where
  "Refresh display s =
     (case callbacks_Refresh display s of
        (err, s1) \<Rightarrow> if err \<noteq> Error_None then Blocked else Return s1)"

text \<open>
  \<^verbatim>\<open>HWCSession::HandlePendingRefresh\<close>. \<open>pending_refresh\<close> is the
  \<^verbatim>\<open>std::bitset<kNumDisplays>\<close>; the loop stops at the first set bit.
\<close>

definition HandlePendingRefresh :: "Env \<Rightarrow> HWCSession \<Rightarrow> HWCSession outcome" where
  "HandlePendingRefresh env s =
     (if list_all (\<lambda>i. \<not> pending_refresh s i) [0..<kNumDisplays env] then Return s
      else andThen
             (case find (pending_refresh s) [0..<kNumDisplays env] of
                Some i \<Rightarrow> Refresh i s
              | None \<Rightarrow> Return s)
             (\<lambda>s1. Return (s1\<lparr>pending_refresh := (\<lambda>_. False)\<rparr>)))"

subsection \<open>Registry initialisation\<close>

text \<open>
  The answers of the hardware core at start-up (\<open>None\<close> for an error) and the pool limits
  \<^verbatim>\<open>HWCCallbacks::kNumPluggable\<close>, \<^verbatim>\<open>kNumBuiltIn\<close>, \<^verbatim>\<open>kNumVirtual\<close>, none of them under
  src.
\<close>

record Core =
  CreateCore_ok :: bool
  GetFirstDisplayInterfaceType :: "DisplayType option"
  max_builtin_supported :: "int option"
  max_pluggable_supported :: "int option"
  max_virtual_supported :: "int option"
  kNumBuiltIn :: int
  kNumPluggable :: int
  kNumVirtual :: int
  vector_limit :: nat

text \<open>
  \<^verbatim>\<open>UINT32(x)\<close> of an \<^verbatim>\<open>int\<close>, and \<^verbatim>\<open>std::vector::resize\<close> with default-built slots.
  \<^verbatim>\<open>resize\<close> to more elements than the allocator provides (\<open>vector_limit\<close>, a parameter,
  at most \<^verbatim>\<open>max_size()\<close>) throws \<^verbatim>\<open>std::length_error\<close> or \<^verbatim>\<open>std::bad_alloc\<close>, which
  nothing catches: the result is \<open>None\<close> and the call never returns.
\<close>

definition UINT32 :: "int \<Rightarrow> nat" where
  "UINT32 x = nat (x mod 2 ^ 32)"

definition resize :: "nat \<Rightarrow> nat \<Rightarrow> 'a \<Rightarrow> 'a list \<Rightarrow> 'a list option" where
  "resize limit n dflt xs =
     (if limit < n then None else Some (take n xs @ replicate (n - length xs) dflt))"

text \<open>The loop \<^verbatim>\<open>for (auto &map_info : v) map_info.client_id = base_id++\<close>.\<close>

definition assign_client_ids :: "nat \<Rightarrow> DisplayMapInfo list \<Rightarrow> DisplayMapInfo list" where
  "assign_client_ids base_id v =
     map (\<lambda>(map_info, k). map_info\<lparr>client_id := base_id + k\<rparr>) (zip v [0..<length v])"

text \<open>
  \<^verbatim>\<open>InitSupportedDisplaySlots\<close>; \<^verbatim>\<open>qdutils::DISPLAY_PRIMARY\<close> is 0 and
  \<^verbatim>\<open>qdutils::DISPLAY_EXTERNAL\<close> is 1, as the comment at the head of the function says.
  \<open>init_slots\<close> is one resize followed by its loop. \<open>is_hdr_display\<close> is a function on
  indices, so of the final \<^verbatim>\<open>is_hdr_display_.resize(UINT32(base_id))\<close> only the possible
  failure is modelled.
\<close>

definition init_slots ::
    "Core \<Rightarrow> nat \<Rightarrow> int \<Rightarrow> nat \<Rightarrow> DisplayMapInfo list \<Rightarrow> DisplayMapInfo list option" where
  "init_slots core kNum count base_id v =
     map_option (assign_client_ids base_id)
       (resize (vector_limit core) (UINT32 count) (DisplayMapInfo_init kNum) v)"

definition InitSupportedDisplaySlots :: "Core \<Rightarrow> nat \<Rightarrow> HWCSession \<Rightarrow> HWCSession option" where
  "InitSupportedDisplaySlots core kNum s =
     (let s0 = s\<lparr>map_info_primary := (map_info_primary s)\<lparr>client_id := 0\<rparr>\<rparr> in
      if \<not> CreateCore_ok core then Some s0
      else case GetFirstDisplayInterfaceType core of
        None \<Rightarrow> Some (log_call DestroyCore s0)
      | Some hw_type \<Rightarrow>
         (case max_builtin_supported core of
            None \<Rightarrow> Some (log_call DestroyCore s0)
          | Some mb \<Rightarrow>
             (case max_pluggable_supported core of
                None \<Rightarrow> Some (log_call DestroyCore s0)
              | Some mp \<Rightarrow>
                 (case max_virtual_supported core of
                    None \<Rightarrow> Some (log_call DestroyCore s0)
                  | Some max_virtual \<Rightarrow>
                      let max_pluggable = (if hw_type = kPluggable then mp - 1 else mp);
                          max_builtin = (if hw_type = kPluggable then mb else mb - 1);
                          base_id = 1 in
                      case init_slots core kNum (min max_pluggable (kNumPluggable core)) base_id
                             (map_info_pluggable s0) of
                        None \<Rightarrow> None
                      | Some plug \<Rightarrow>
                          let base_id1 = base_id + length plug in
                          (case init_slots core kNum (min max_builtin (kNumBuiltIn core)) base_id1
                                  (map_info_builtin s0) of
                             None \<Rightarrow> None
                           | Some built \<Rightarrow>
                               let base_id2 = base_id1 + length built in
                               (case init_slots core kNum (min max_virtual (kNumVirtual core))
                                       base_id2 (map_info_virtual s0) of
                                  None \<Rightarrow> None
                                | Some virt \<Rightarrow>
                                    let base_id3 = base_id2 + length virt in
                                    if vector_limit core < UINT32 (int base_id3) then None
                                    else Some (s0\<lparr>map_info_pluggable := plug,
                                                  map_info_builtin := built,
                                                  map_info_virtual := virt\<rparr>)))))))"

subsection \<open>Slot lookup and the concurrency policy\<close>

datatype qd_display = DISPLAY_PRIMARY | DISPLAY_EXTERNAL | DISPLAY_VIRTUAL | DISPLAY_BUILTIN_2

definition GetDisplayIndex :: "qd_display \<Rightarrow> HWCSession \<Rightarrow> int" where
  "GetDisplayIndex dpy s =
     (case (case dpy of
              DISPLAY_PRIMARY \<Rightarrow> Some (map_info_primary s)
            | DISPLAY_EXTERNAL \<Rightarrow>
                (if map_info_pluggable s \<noteq> [] then Some (map_info_pluggable s ! 0) else None)
            | DISPLAY_VIRTUAL \<Rightarrow>
                (if map_info_virtual s \<noteq> [] then Some (map_info_virtual s ! 0) else None)
            | DISPLAY_BUILTIN_2 \<Rightarrow>
                (if map_info_builtin s \<noteq> [] then Some (map_info_builtin s ! 0) else None)) of
        None \<Rightarrow> - 1
      | Some map_info \<Rightarrow> int (client_id map_info))"

text \<open>The cast \<^verbatim>\<open>(hwc2_display_t)\<close> of an \<^verbatim>\<open>int\<close> to the unsigned 64-bit display id.\<close>

definition to_hwc2_display_t :: "int \<Rightarrow> nat" where
  "to_hwc2_display_t i = nat (i mod 2 ^ 64)"

definition GetNextBuiltinIndex :: "HWCSession \<Rightarrow> nat" where
  "GetNextBuiltinIndex s =
     (case find (\<lambda>map_info. hwc_display s (client_id map_info) \<noteq> None) (map_info_builtin s) of
        Some map_info \<Rightarrow> client_id map_info
      | None \<Rightarrow> 0)"

definition GetSecondBuiltinStatus :: "HWCSession \<Rightarrow> bool" where
  "GetSecondBuiltinStatus s =
     (if GetNextBuiltinIndex s = 0 then False
      else case hwc_display s (GetNextBuiltinIndex s) of
             Some d \<Rightarrow> GetLastPowerMode d \<noteq> PowerMode_Off
           | None \<Rightarrow> False)"

text \<open>
  \<^verbatim>\<open>HWCSession::ActivateDisplay\<close>. Modelled from the spec: \<^verbatim>\<open>HWCDisplay::ActivateDisplay\<close>
  is not under src; it sets the activation state of the display object.
\<close>

definition ActivateDisplay :: "nat \<Rightarrow> bool \<Rightarrow> HWCSession \<Rightarrow> HWCSession" where
  "ActivateDisplay disp enable s =
     (case hwc_display s disp of
        None \<Rightarrow> s
      | Some d \<Rightarrow> log_call (DisplayActivate disp enable) (set_display disp (Some (d\<lparr>active := enable\<rparr>)) s))"

definition NonBuiltinConcurrency :: "Env \<Rightarrow> nat \<Rightarrow> bool \<Rightarrow> HWCSession \<Rightarrow> HWCSession" where
  "NonBuiltinConcurrency env disp builtin_active s =
     (let vir_disp_idx = to_hwc2_display_t (GetDisplayIndex DISPLAY_VIRTUAL s);
          ext_disp_idx = to_hwc2_display_t (GetDisplayIndex DISPLAY_EXTERNAL s) in
      if disp \<noteq> ext_disp_idx \<and> disp \<noteq> vir_disp_idx then s
      else
        let display_created = (hwc_display s disp \<noteq> None);
            cocu_disp = (if disp = ext_disp_idx then vir_disp_idx else ext_disp_idx);
            cocu_disp_present = (cocu_disp < kNumDisplays env \<and> hwc_display s cocu_disp \<noteq> None) in
        if display_created then
          (if builtin_active \<or> cocu_disp_present then ActivateDisplay disp False s else s)
        else
          (if \<not> builtin_active \<and> cocu_disp_present then ActivateDisplay cocu_disp True s else s))"

definition HandleConcurrency :: "Env \<Rightarrow> nat \<Rightarrow> HWCSession \<Rightarrow> HWCSession" where
  "HandleConcurrency env disp s =
     (if \<not> primary_ready s then s
      else
        let vir_disp_idx = to_hwc2_display_t (GetDisplayIndex DISPLAY_VIRTUAL s);
            ext_disp_idx = to_hwc2_display_t (GetDisplayIndex DISPLAY_EXTERNAL s);
            vir_disp_present = (vir_disp_idx < kNumDisplays env \<and> hwc_display s vir_disp_idx \<noteq> None);
            ext_disp_present = (ext_disp_idx < kNumDisplays env \<and> hwc_display s ext_disp_idx \<noteq> None);
            sec_builtin_active = GetSecondBuiltinStatus s in
        if disp = GetNextBuiltinIndex s then
          (if sec_builtin_active then
             (let s1 = (if ext_disp_present then ActivateDisplay ext_disp_idx False s else s) in
              if vir_disp_present then ActivateDisplay vir_disp_idx False s1 else s1)
           else
             (if ext_disp_present then ActivateDisplay ext_disp_idx True s
              else if vir_disp_present then ActivateDisplay vir_disp_idx True s
              else s))
        else NonBuiltinConcurrency env disp sec_builtin_active s)"

subsection \<open>Destroying displays\<close>

definition HasHDRSupport :: "Env \<Rightarrow> HWCDisplay \<Rightarrow> bool" where
  "HasHDRSupport env d =
     (case Display_GetHdrCapabilities env d of
        (err, out_num_types) \<Rightarrow> if err \<noteq> Error_None then False else 0 < out_num_types)"

text \<open>
  The destroy functions take \<^verbatim>\<open>DisplayMapInfo *map_info\<close>. The model takes the pointed-to
  value and returns it as the call leaves it; the caller stores it back where the pointer
  pointed. \<^verbatim>\<open>HandleConcurrency\<close>, called in between, reads only \<open>client_id\<close> of the slot
  tables, which no destroy function writes.
\<close>

definition DestroyPluggableDisplay ::
    "Env \<Rightarrow> DisplayMapInfo \<Rightarrow> HWCSession \<Rightarrow> (DisplayMapInfo \<times> HWCSession) outcome" where
  "DestroyPluggableDisplay env map_info s =
     (let cid = client_id map_info;
          s1 = (if \<not> pluggable_is_primary s then snd (callbacks_Hotplug cid Disconnected s) else s) in
      andThen (Refresh 0 s1) (\<lambda>s2.
        case hwc_display s2 cid of
          None \<Rightarrow> Return (map_info, s2)
        | Some d \<Rightarrow>
            if pluggable_is_primary s2 then
              (case hwc_display s2 0 of
                 None \<Rightarrow> Fault
               | Some p \<Rightarrow>
                   Return (map_info,
                     log_call (DisplaySetState 0 False)
                       (set_display 0 (Some (snd (Display_SetState env False p))) s2)))
            else
              let s3 = s2\<lparr>is_hdr_display := (is_hdr_display s2)(cid := False)\<rparr>;
                  s4 = log_call (DisplayDestroy (if \<not> test_pattern map_info then HWCDisplayPluggable
                                            else HWCDisplayPluggableTest) cid) s3;
                  s5 = set_display cid None s4 in
              Return (Reset map_info, HandleConcurrency env cid s5)))"

definition DestroyNonPluggableDisplay ::
    "DisplayMapInfo \<Rightarrow> HWCSession \<Rightarrow> DisplayMapInfo \<times> HWCSession" where
  "DestroyNonPluggableDisplay map_info s =
     (let cid = client_id map_info in
      case hwc_display s cid of
        None \<Rightarrow> (map_info, s)
      | Some d \<Rightarrow>
          let s1 = s\<lparr>is_hdr_display := (is_hdr_display s)(cid := False)\<rparr>;
              s2 = log_call (DisplayDestroy (case disp_type map_info of
                                          kBuiltIn \<Rightarrow> HWCDisplayBuiltIn
                                        | _ \<Rightarrow> HWCDisplayVirtual) cid) s1;
              s3 = set_display cid None s2 in
          (Reset map_info, s3))"

definition DestroyDisplay ::
    "Env \<Rightarrow> DisplayMapInfo \<Rightarrow> HWCSession \<Rightarrow> (DisplayMapInfo \<times> HWCSession) outcome" where
  "DestroyDisplay env map_info s =
     (case disp_type map_info of
        kPluggable \<Rightarrow> DestroyPluggableDisplay env map_info s
      | _ \<Rightarrow> Return (DestroyNonPluggableDisplay map_info s))"

subsection \<open>Hotplug scan\<close>

text \<open>
  \<open>disconnect\<close> of \<^verbatim>\<open>HandleDisconnectedDisplays\<close>: true unless the snapshot has a connected
  entry with the slot's \<open>sdm_id\<close>.
\<close>

definition disconnected_now :: "HWDisplayInfo list \<Rightarrow> DisplayMapInfo \<Rightarrow> bool" where
  "disconnected_now infos map_info =
     (\<not> list_ex (\<lambda>info. display_id info = sdm_id map_info \<and> is_connected info) infos)"

fun HandleDisconnectedDisplays_slots ::
    "Env \<Rightarrow> HWDisplayInfo list \<Rightarrow> nat list \<Rightarrow> HWCSession \<Rightarrow> HWCSession outcome" where
  "HandleDisconnectedDisplays_slots env infos [] s = Return s"
| "HandleDisconnectedDisplays_slots env infos (i # rest) s =
     (if disconnected_now infos (map_info_pluggable s ! i) then
        andThen (DestroyDisplay env (map_info_pluggable s ! i) s) (\<lambda>(map_info, s1).
          HandleDisconnectedDisplays_slots env infos rest
            (s1\<lparr>map_info_pluggable := (map_info_pluggable s1)[i := map_info]\<rparr>))
      else HandleDisconnectedDisplays_slots env infos rest s)"

text \<open>
  \<^verbatim>\<open>HandleDisconnectedDisplays\<close>. For a pluggable primary the function works on a local
  copy of \<open>map_info_primary\<close>, so what the destroy call does to the copy is dropped.
\<close>

definition HandleDisconnectedDisplays ::
    "Env \<Rightarrow> HWDisplayInfo list \<Rightarrow> HWCSession \<Rightarrow> (int \<times> HWCSession) outcome" where
  "HandleDisconnectedDisplays env infos s =
     andThen
       (if pluggable_is_primary s \<and> disconnected_now infos (map_info_primary s) then
          andThen (DestroyDisplay env (map_info_primary s) s) (\<lambda>(map_info, s1). Return s1)
        else Return s)
       (\<lambda>s1. andThen
          (HandleDisconnectedDisplays_slots env infos [0..<length (map_info_pluggable s1)] s1)
          (\<lambda>s2. Return (0, s2)))"

text \<open>
  The head of the loop body of \<^verbatim>\<open>HandleConnectedDisplays\<close>, run for every entry when the
  primary is pluggable. \<open>Some status\<close> is the early \<^verbatim>\<open>return status\<close>.
\<close>

definition HandleConnectedDisplays_primary ::
    "Env \<Rightarrow> HWDisplayInfo \<Rightarrow> HWCSession \<Rightarrow> (int option \<times> HWCSession) outcome" where
  "HandleConnectedDisplays_primary env info s =
     (let cid = client_id (map_info_primary s) in
      case (case hwc_display s cid of
              Some d \<Rightarrow>
                if is_primary info \<and> display_type info = kPluggable \<and> is_connected info then
                  (case Display_SetState env True d of
                     (status, d1) \<Rightarrow>
                       let s1 = log_call (DisplaySetState cid True) (set_display cid (Some d1) s) in
                       if status \<noteq> 0 then (Some status, s1)
                       else (None, s1\<lparr>is_hdr_display :=
                                       (is_hdr_display s1)(cid := HasHDRSupport env d1)\<rparr>))
                else (None, s)
            | None \<Rightarrow> (None, s)) of
        (Some status, s1) \<Rightarrow> Return (Some status, s1)
      | (None, s1) \<Rightarrow>
          (case hwc_display s1 0 of
             None \<Rightarrow> Fault
           | Some p \<Rightarrow>
               andThen (Refresh 0 (set_display 0 (Some (ResetValidation p)) s1))
                 (\<lambda>s2. Return (None, s2))))"

text \<open>
  The inner loop over \<open>map_info_pluggable\<close>: occupied slots are skipped, the first free one
  gets the display, and the loop ends there. \<open>Inl status\<close> is the early return on a failed
  \<^verbatim>\<open>Create\<close>, \<open>Inr\<close> the client id of the new display, if any.
\<close>

definition HandleConnectedDisplays_slot ::
    "Env \<Rightarrow> HWDisplayInfo \<Rightarrow> HWCSession \<Rightarrow> (int + nat option) \<times> HWCSession" where
  "HandleConnectedDisplays_slot env info s =
     (case find (\<lambda>i. hwc_display s (client_id (map_info_pluggable s ! i)) = None)
                [0..<length (map_info_pluggable s)] of
        None \<Rightarrow> (Inr None, s)
      | Some i \<Rightarrow>
          let map_info = map_info_pluggable s ! i;
              cid = client_id map_info;
              tp = (0 < hpd_bpp s \<and> 0 < hpd_pattern s);
              s1 = s\<lparr>map_info_pluggable := (map_info_pluggable s)[i := map_info\<lparr>test_pattern := tp\<rparr>]\<rparr>;
              cls = (if \<not> tp then HWCDisplayPluggable else HWCDisplayPluggableTest) in
          case Display_Create env cls cid (display_id info) of
            (status, d) \<Rightarrow>
              if status \<noteq> 0 then (Inl status, log_call (DisplayCreate cls cid (display_id info)) s1)
              else
                let s2 = log_call (DisplayCreate cls cid (display_id info)) (set_display cid (Some d) s1);
                    s3 = s2\<lparr>is_hdr_display := (is_hdr_display s2)(cid := HasHDRSupport env d)\<rparr>;
                    s4 = s3\<lparr>map_info_pluggable :=
                             (map_info_pluggable s3)[i := (map_info_pluggable s3 ! i)
                                \<lparr>disp_type := display_type info, sdm_id := display_id info\<rparr>]\<rparr> in
                (Inr (Some cid), HandleConcurrency env cid s4))"

fun HandleConnectedDisplays_scan ::
    "Env \<Rightarrow> HWDisplayInfo list \<Rightarrow> nat list \<Rightarrow> HWCSession \<Rightarrow>
     ((int + nat list) \<times> HWCSession) outcome" where
  "HandleConnectedDisplays_scan env [] pending_hotplugs s = Return (Inr pending_hotplugs, s)"
| "HandleConnectedDisplays_scan env (info # rest) pending_hotplugs s =
     andThen
       (if pluggable_is_primary s then HandleConnectedDisplays_primary env info s
        else Return (None, s))
       (\<lambda>(early, s1).
          case early of
            Some status \<Rightarrow> Return (Inl status, s1)
          | None \<Rightarrow>
              if \<not> pluggable_is_primary s1 \<and>
                 (is_primary info \<or> display_type info \<noteq> kPluggable \<or> \<not> is_connected info)
              then HandleConnectedDisplays_scan env rest pending_hotplugs s1
              else
                (case HandleConnectedDisplays_slot env info s1 of
                   (Inl status, s2) \<Rightarrow> Return (Inl status, s2)
                 | (Inr None, s2) \<Rightarrow> HandleConnectedDisplays_scan env rest pending_hotplugs s2
                 | (Inr (Some cid), s2) \<Rightarrow>
                     HandleConnectedDisplays_scan env rest (pending_hotplugs @ [cid]) s2))"

fun HandleConnectedDisplays_notify :: "Env \<Rightarrow> nat list \<Rightarrow> HWCSession \<Rightarrow> HWCSession" where
  "HandleConnectedDisplays_notify env [] s = s"
| "HandleConnectedDisplays_notify env (cid # rest) s =
     HandleConnectedDisplays_notify env rest
       (HandleConcurrency env cid (snd (callbacks_Hotplug cid Connected s)))"

text \<open>
  \<^verbatim>\<open>HandleConnectedDisplays\<close>. The \<^verbatim>\<open>usleep\<close> under \<open>delay_hotplug\<close> changes no state.
\<close>

definition HandleConnectedDisplays ::
    "Env \<Rightarrow> HWDisplayInfo list \<Rightarrow> bool \<Rightarrow> HWCSession \<Rightarrow> (int \<times> HWCSession) outcome" where
  "HandleConnectedDisplays env infos delay_hotplug s =
     andThen (HandleConnectedDisplays_scan env infos [] s) (\<lambda>(r, s1).
       case r of
         Inl status \<Rightarrow> Return (status, s1)
       | Inr pending_hotplugs \<Rightarrow>
           if pending_hotplugs = [] then Return (0, s1)
           else
             (case hwc_display s1 0 of
                None \<Rightarrow> Fault
              | Some p \<Rightarrow>
                  andThen (Refresh 0 (set_display 0 (Some (ResetValidation p)) s1))
                    (\<lambda>s2. Return (0, HandleConnectedDisplays_notify env pending_hotplugs s2))))"

definition CreatePluggableDisplays ::
    "Env \<Rightarrow> bool \<Rightarrow> HWCSession \<Rightarrow> (int \<times> HWCSession) outcome" where
  "CreatePluggableDisplays env delay_hotplug s =
     (if \<not> primary_ready s then Return (0, s)
      else if null_display_active s then
        Aborted (log_call DestroyCore (log_call (DisplayDestroy HWCDisplayDummy 0) s))
      else
        case GetDisplaysStatus env of
          None \<Rightarrow> Return (- EINVAL, s)
        | Some hw_displays_info \<Rightarrow>
            andThen (HandleDisconnectedDisplays env hw_displays_info s) (\<lambda>(status, s1).
              if status \<noteq> 0 then Return (status, s1)
              else
                andThen (HandleConnectedDisplays env hw_displays_info delay_hotplug s1)
                  (\<lambda>(status2, s2).
                     if status2 \<noteq> 0 then Return (status2, s2) else Return (0, s2))))"

subsection \<open>Creating the primary, builtin and virtual displays\<close>

definition CreatePrimaryDisplay :: "Env \<Rightarrow> HWCSession \<Rightarrow> int \<times> HWCSession" where
  "CreatePrimaryDisplay env s =
     (case GetDisplaysStatus env of
        None \<Rightarrow> (1, s)
      | Some hw_displays_info \<Rightarrow>
          (case find is_primary hw_displays_info of
             None \<Rightarrow> (1, s)
           | Some info \<Rightarrow>
               let cid = client_id (map_info_primary s) in
               case (if \<not> is_connected info \<and> display_type info = kPluggable then
                       Some (HWCDisplayDummy,
                             s\<lparr>pluggable_is_primary := True, null_display_active := True\<rparr>)
                     else if display_type info = kBuiltIn then Some (HWCDisplayBuiltIn, s)
                     else if is_connected info \<and> display_type info = kPluggable then
                       Some (HWCDisplayPluggable, s\<lparr>pluggable_is_primary := True\<rparr>)
                     else None) of
                 None \<Rightarrow> (1, s)
               | Some (cls, s1) \<Rightarrow>
                   (case Display_Create env cls cid (display_id info) of
                      (status, d) \<Rightarrow>
                        if status = 0 then
                          (let s2 = log_call (DisplayCreate cls cid (display_id info))
                                      (set_display 0 (Some d) s1);
                               s3 = s2\<lparr>is_hdr_display :=
                                         (is_hdr_display s2)(cid := HasHDRSupport env d)\<rparr>;
                               s4 = s3\<lparr>map_info_primary := (map_info_primary s3)
                                         \<lparr>disp_type := display_type info,
                                          sdm_id := display_id info\<rparr>\<rparr> in
                           (status, s4\<lparr>color_mgr := CreateColorManager env\<rparr>))
                        else (status, log_call (DisplayCreate cls cid (display_id info)) s1))))"

text \<open>
  \<^verbatim>\<open>HandleBuiltInDisplays\<close>. \<open>idx\<close> is the local \<^verbatim>\<open>size_t client_id\<close>, the index into
  \<open>map_info_builtin\<close>; the loop body increments it twice after a successful \<^verbatim>\<open>Create\<close>.
\<close>

fun HandleBuiltInDisplays_loop ::
    "Env \<Rightarrow> HWDisplayInfo list \<Rightarrow> nat \<Rightarrow> HWCSession \<Rightarrow> HWCSession" where
  "HandleBuiltInDisplays_loop env [] idx s = s"
| "HandleBuiltInDisplays_loop env (info # rest) idx s =
     (if is_primary info \<or> display_type info \<noteq> kBuiltIn \<or> \<not> is_connected info then
        HandleBuiltInDisplays_loop env rest idx s
      else if length (map_info_builtin s) \<le> idx then s
      else
        let map_info = map_info_builtin s ! idx;
            cid = client_id map_info in
        case Display_Create env HWCDisplayBuiltIn cid (display_id info) of
          (status, d) \<Rightarrow>
            if status \<noteq> 0 then log_call (DisplayCreate HWCDisplayBuiltIn cid (display_id info)) s
            else
              let s1 = log_call (DisplayCreate HWCDisplayBuiltIn cid (display_id info))
                         (set_display cid (Some d) s);
                  idx1 = idx + 1;
                  s2 = s1\<lparr>map_info_builtin := (map_info_builtin s1)[idx := map_info
                            \<lparr>disp_type := display_type info, sdm_id := display_id info\<rparr>]\<rparr>;
                  idx2 = idx1 + 1 in
              HandleBuiltInDisplays_loop env rest idx2 s2)"

definition HandleBuiltInDisplays :: "Env \<Rightarrow> HWCSession \<Rightarrow> HWCSession" where
  "HandleBuiltInDisplays env s =
     (case GetDisplaysStatus env of
        None \<Rightarrow> s
      | Some hw_displays_info \<Rightarrow> HandleBuiltInDisplays_loop env hw_displays_info 0 s)"

text \<open>
  \<^verbatim>\<open>CreateVirtualDisplayObj\<close>: for every virtual entry of the snapshot, the first free
  virtual slot. \<open>Inl err\<close> is the early return on a failed \<^verbatim>\<open>Create\<close>; \<open>Inr\<close> carries the
  last value written to \<^verbatim>\<open>*out_display_id\<close>, if any.
\<close>

fun CreateVirtualDisplayObj_scan ::
    "Env \<Rightarrow> HWDisplayInfo list \<Rightarrow> nat option \<Rightarrow> HWCSession \<Rightarrow> (Error + nat option) \<times> HWCSession"
  where
  "CreateVirtualDisplayObj_scan env [] out s = (Inr out, s)"
| "CreateVirtualDisplayObj_scan env (info # rest) out s =
     (if display_type info \<noteq> kVirtual then CreateVirtualDisplayObj_scan env rest out s
      else
        case find (\<lambda>i. hwc_display s (client_id (map_info_virtual s ! i)) = None)
                  [0..<length (map_info_virtual s)] of
          None \<Rightarrow> CreateVirtualDisplayObj_scan env rest out s
        | Some i \<Rightarrow>
            let cid = client_id (map_info_virtual s ! i) in
            case Display_Create env HWCDisplayVirtual cid (display_id info) of
              (status, d) \<Rightarrow>
                if status \<noteq> 0 then
                  (Inl Error_BadDisplay, log_call (DisplayCreate HWCDisplayVirtual cid (display_id info)) s)
                else
                  let s1 = log_call (DisplayCreate HWCDisplayVirtual cid (display_id info))
                             (set_display cid (Some d) s);
                      s2 = s1\<lparr>is_hdr_display := (is_hdr_display s1)(cid := HasHDRSupport env d)\<rparr>;
                      s3 = s2\<lparr>map_info_virtual := (map_info_virtual s2)[i := (map_info_virtual s2 ! i)
                                \<lparr>disp_type := display_type info, sdm_id := display_id info\<rparr>]\<rparr> in
                  CreateVirtualDisplayObj_scan env rest (Some cid) s3)"

definition CreateVirtualDisplayObj ::
    "Env \<Rightarrow> HWCSession \<Rightarrow> ((Error \<times> nat option) \<times> HWCSession) outcome" where
  "CreateVirtualDisplayObj env s =
     (if \<not> client_connected s then Return ((Error_BadDisplay, None), s)
      else
        case GetDisplaysStatus env of
          None \<Rightarrow> Return ((Error_BadDisplay, None), s)
        | Some hw_displays_info \<Rightarrow>
            (case CreateVirtualDisplayObj_scan env hw_displays_info None s of
               (Inl err, s1) \<Rightarrow> Return ((err, None), s1)
             | (Inr out, s1) \<Rightarrow>
                 andThen (SEQUENCE_WAIT_SCOPE_LOCK 0 s1) (\<lambda>s2.
                   case hwc_display s2 0 of
                     None \<Rightarrow> Fault
                   | Some p \<Rightarrow>
                       Return ((Error_None, out), set_display 0 (Some (ResetValidation p)) s2))))"

subsection \<open>Validate and present\<close>

text \<open>
  \<^verbatim>\<open>Validate_call\<close> below is \<^verbatim>\<open>hwc_display->Validate(out_num_types, out_num_requests)\<close>
  on the object in the slot.
\<close>

definition ResetPanel :: "Env \<Rightarrow> HWCSession \<Rightarrow> HWCSession outcome" where
  "ResetPanel env s =
     (case hwc_display s 0 of
        None \<Rightarrow> Fault
      | Some d \<Rightarrow>
          let d1 = snd (Display_SetPowerMode env PowerMode_Off d);
              mode = GetLastPowerMode d1;
              d2 = snd (Display_SetPowerMode env mode d1);
              d3 = snd (Display_SetVsyncEnabled env d2);
              s1 = log_call (DisplaySetVsync 0)
                     (log_call (DisplaySetPowerMode 0 mode)
                        (log_call (DisplaySetPowerMode 0 PowerMode_Off) (set_display 0 (Some d3) s))) in
          Return (s1\<lparr>reset_panel := False\<rparr>))"

text \<open>
  The block of \<^verbatim>\<open>ValidateDisplayInternal\<close> under \<^verbatim>\<open>if (display == HWC_DISPLAY_PRIMARY)\<close>.
\<close>

definition ValidateDisplayInternal_primary :: "Env \<Rightarrow> nat \<Rightarrow> HWCSession \<Rightarrow> HWCSession outcome" where
  "ValidateDisplayInternal_primary env display s =
     andThen (if reset_panel s then ResetPanel env s else Return s) (\<lambda>s1.
       andThen (if need_invalidate s1 then
                  andThen (Refresh display s1) (\<lambda>s2. Return (s2\<lparr>need_invalidate := False\<rparr>))
                else Return s1) (\<lambda>s2.
         if color_mgr s2 then
           (case hwc_display s2 display of
              None \<Rightarrow> Fault
            | Some d \<Rightarrow> Return (set_display display (Some (SetColorModeDetailEnhancer env d)) s2))
         else Return s2))"

definition Validate_call ::
    "Env \<Rightarrow> nat \<Rightarrow> HWCSession \<Rightarrow> ((Error \<times> nat \<times> nat) \<times> HWCSession) outcome" where
  "Validate_call env display s =
     (case hwc_display s display of
        None \<Rightarrow> Fault
      | Some d \<Rightarrow>
          (case Display_Validate env d of
             (res, d1) \<Rightarrow> Return (res, log_call (DisplayValidate display) (set_display display (Some d1) s))))"

definition ValidateDisplayInternal ::
    "Env \<Rightarrow> nat \<Rightarrow> HWCSession \<Rightarrow> ((Error \<times> nat \<times> nat) \<times> HWCSession) outcome" where
  "ValidateDisplayInternal env display s =
     (case hwc_display s display of
        None \<Rightarrow> Fault
      | Some hwc_disp \<Rightarrow>
          if IsInternalValidateState hwc_disp then
            Return (Display_GetValidateDisplayOutput env hwc_disp,
                    log_call (DisplayGetValidateOutput display) s)
          else
            andThen
              (if display = 0 then ValidateDisplayInternal_primary env display s else Return s)
              (Validate_call env display))"

text \<open>\<^verbatim>\<open>hwc_display->Present(out_retire_fence)\<close> on the object in the slot.\<close>

definition Present_call ::
    "Env \<Rightarrow> nat \<Rightarrow> HWCSession \<Rightarrow> ((Error \<times> int option) \<times> HWCSession) outcome" where
  "Present_call env display s =
     (case hwc_display s display of
        None \<Rightarrow> Fault
      | Some d \<Rightarrow>
          (case Display_Present env d of
             (res, d1) \<Rightarrow> Return (res, log_call (DisplayPresent display) (set_display display (Some d1) s))))"

definition PresentDisplayInternal ::
    "Env \<Rightarrow> nat \<Rightarrow> HWCSession \<Rightarrow> ((Error \<times> int option) \<times> HWCSession) outcome" where
  "PresentDisplayInternal env display s =
     (case hwc_display s display of
        None \<Rightarrow> Fault
      | Some hwc_disp \<Rightarrow>
          if IsSkipValidateState hwc_disp \<and> \<not> Display_CanSkipValidate env hwc_disp then
            andThen (ValidateDisplayInternal env display s) (\<lambda>((error, out_num), s1).
              case hwc_display s1 display of
                None \<Rightarrow> Fault
              | Some d1 \<Rightarrow>
                  if error \<noteq> Error_None \<or> Display_HasClientComposition env d1 then
                    Return ((Error_NotValidated, None),
                            set_display display (Some (SetValidationState kInternalValidate d1)) s1)
                  else Present_call env display s1)
          else Present_call env display s)"

text \<open>
  \<^verbatim>\<open>HWCSession::ValidateDisplay\<close>. \<open>device\<close> says whether the device pointer is non-null.
  The second component of the result is what was written to \<^verbatim>\<open>out_num_types\<close> and
  \<^verbatim>\<open>out_num_requests\<close>, if anything.
\<close>

definition ValidateDisplay ::
    "Env \<Rightarrow> bool \<Rightarrow> nat \<Rightarrow> HWCSession \<Rightarrow> ((Error \<times> (nat \<times> nat) option) \<times> HWCSession) outcome"
  where
  "ValidateDisplay env device display s =
     (if \<not> device then Return ((Error_BadParameter, None), s)
      else if kNumDisplays env \<le> display then Return ((Error_BadDisplay, None), s)
      else
        andThen
          (let s1 = SEQUENCE_ENTRY_SCOPE_LOCK display s in
           case hwc_display s1 display of
             None \<Rightarrow> Return ((Error_BadDisplay, None), s1)
           | Some d \<Rightarrow>
               andThen (ValidateDisplayInternal env display s1)
                 (\<lambda>((status, out_num), s2). Return ((status, Some out_num), s2)))
          (\<lambda>((status, out), s2).
             if status \<noteq> Error_None \<and> status \<noteq> Error_HasChanges then
               Return ((status, out), SEQUENCE_CANCEL_SCOPE_LOCK display s2)
             else Return ((status, out), s2)))"

text \<open>
  Two blocks of \<^verbatim>\<open>HWCSession::PresentDisplay\<close>: the part of the locked scope that follows
  the pointer checks (\<open>s1\<close> is the state after \<^verbatim>\<open>SEQUENCE_EXIT_SCOPE_LOCK\<close>), and the
  block under the comment "Handle pending builtin/pluggable display connections".
\<close>

definition PresentDisplay_locked ::
    "Env \<Rightarrow> nat \<Rightarrow> HWCSession \<Rightarrow> ((Error \<times> int option) \<times> HWCSession) outcome" where
  "PresentDisplay_locked env display s1 =
     (case hwc_display s1 display of
        None \<Rightarrow> Return ((Error_BadDisplay, None), s1)
      | Some d \<Rightarrow>
          let s2 = (if callbacks_needs_refresh s1 display then
                      (set_display display (Some (SetPendingRefresh d)) s1)
                        \<lparr>callbacks_needs_refresh := (callbacks_needs_refresh s1)(display := False)\<rparr>
                    else s1) in
          andThen (PresentDisplayInternal env display s2)
            (\<lambda>(res, s3). Return (res, log_call SignalIdle s3)))"

definition PresentDisplay_connections :: "Env \<Rightarrow> nat \<Rightarrow> HWCSession \<Rightarrow> HWCSession outcome" where
  "PresentDisplay_connections env display s5 =
     (if \<not> primary_ready s5 \<and> display = 0 then
        (let s6 = s5\<lparr>primary_ready := True\<rparr> in
         if \<not> pluggable_is_primary s6 then
           andThen (CreatePluggableDisplays env False s6) (\<lambda>(rc, s7). Return s7)
         else Return s6)
      else Return s5)"

text \<open>
  \<^verbatim>\<open>HWCSession::PresentDisplay\<close>. \<open>device\<close> and \<open>out_retire_fence\<close> say whether the two
  pointers are non-null; the second component of the result is the fence written, if any.
\<close>

definition PresentDisplay ::
    "Env \<Rightarrow> bool \<Rightarrow> nat \<Rightarrow> bool \<Rightarrow> HWCSession \<Rightarrow> ((Error \<times> int option) \<times> HWCSession) outcome"
  where
  "PresentDisplay env device display out_retire_fence s =
     (if kNumDisplays env \<le> display then Return ((Error_BadDisplay, None), s)
      else
        let s1 = SEQUENCE_EXIT_SCOPE_LOCK display s in
        if \<not> device then Return ((Error_BadDisplay, None), s1)
        else if \<not> out_retire_fence then Return ((Error_BadParameter, None), s1)
        else
          andThen (PresentDisplay_locked env display s1)
            (\<lambda>((status, fence), s4).
               let s5 = (if status \<noteq> Error_None \<and> status \<noteq> Error_NotValidated
                         then SEQUENCE_CANCEL_SCOPE_LOCK display s4 else s4) in
               andThen (PresentDisplay_connections env display s5)
                 (\<lambda>s8. andThen (HandlePendingRefresh env s8)
                          (\<lambda>s9. Return ((status, fence), s9)))))"

subsection \<open>Layer calls and power mode\<close>

text \<open>
  \<^verbatim>\<open>HWCSession::CallLayerFunction\<close> of \<^verbatim>\<open>hwc_session.h\<close>. \<open>member\<close> is the layer's member
  function with its arguments applied: given the layer handle it acts on the display object
  that owns the layer and gives the status.
\<close>

definition CallLayerFunction ::
    "Env \<Rightarrow> bool \<Rightarrow> nat \<Rightarrow> nat \<Rightarrow> (nat \<Rightarrow> HWCDisplay \<Rightarrow> Error \<times> HWCDisplay) \<Rightarrow> HWCSession \<Rightarrow>
     Error \<times> HWCSession" where
  "CallLayerFunction env device display layer member s =
     (if \<not> device then (Error_BadParameter, s)
      else if kNumDisplays env \<le> display then (Error_BadDisplay, s)
      else
        case hwc_display s display of
          None \<Rightarrow> (Error_BadDisplay, s)
        | Some d \<Rightarrow>
            (case GetHWCLayer d layer of
               None \<Rightarrow> (Error_BadLayer, s)
             | Some hwc_layer \<Rightarrow>
                 (case member layer d of
                    (status, d1) \<Rightarrow>
                      let d2 = (if GetGeometryChanges d1 \<noteq> 0 then ResetValidation d1 else d1) in
                      (status, log_call (LayerMember display layer) (set_display display (Some d2) s)))))"

text \<open>
  \<^verbatim>\<open>HWCSession::GetDozeSupport\<close> (the value written to \<^verbatim>\<open>*out_support\<close>) and
  \<^verbatim>\<open>HWCSession::SetPowerMode\<close>. \<open>int_mode\<close> is the raw \<^verbatim>\<open>int32_t\<close>; the HWC2 values are
  0 Off, 1 Doze, 2 On, 3 DozeSuspend.
\<close>

definition GetDozeSupport :: "nat \<Rightarrow> HWCSession \<Rightarrow> bool" where
  "GetDozeSupport display s = (display = 0 \<or> display = GetNextBuiltinIndex s)"

definition PowerMode_of_int :: "int \<Rightarrow> PowerMode" where
  "PowerMode_of_int m =
     (if m = 0 then PowerMode_Off else if m = 1 then PowerMode_Doze
      else if m = 2 then PowerMode_On else PowerMode_DozeSuspend)"

text \<open>
  \<^verbatim>\<open>GetVsyncPeriod\<close> and \<^verbatim>\<open>updateRefreshRateHint\<close>. \<^verbatim>\<open>uint_t\<close> is \<^verbatim>\<open>unsigned int\<close>; the
  power mode is read through the primary's pointer without a null check.
\<close>

definition GetVsyncPeriod :: "Env \<Rightarrow> nat \<Rightarrow> HWCSession \<Rightarrow> int" where
  "GetVsyncPeriod env disp s =
     (let vsync_period = 1000000000 div 60 in
      case hwc_display s disp of
        None \<Rightarrow> vsync_period
      | Some d \<Rightarrow> (case Display_GetVsyncPeriod env d of None \<Rightarrow> vsync_period | Some v \<Rightarrow> v))"

definition updateRefreshRateHint :: "Env \<Rightarrow> HWCSession \<Rightarrow> HWCSession outcome" where
  "updateRefreshRateHint env s =
     (let mVsyncPeriod = UINT32 (GetVsyncPeriod env 0 s) in
      case hwc_display s 0 of
        None \<Rightarrow> Fault
      | Some p \<Rightarrow>
          if mVsyncPeriod \<noteq> 0
          then Return (log_call (SignalRefreshRate (GetLastPowerMode p) mVsyncPeriod) s)
          else Return s)"

definition SetPowerMode ::
    "Env \<Rightarrow> bool \<Rightarrow> nat \<Rightarrow> int \<Rightarrow> HWCSession \<Rightarrow> (Error \<times> HWCSession) outcome" where
  "SetPowerMode env device display int_mode s =
     (if kNumDisplays env \<le> display then Return (Error_BadDisplay, s)
      else if \<not> device \<or> int_mode < 0 \<or> 3 < int_mode then Return (Error_BadParameter, s)
      else
        let mode = PowerMode_of_int int_mode in
        if \<not> GetDozeSupport display s \<and> (mode = PowerMode_Doze \<or> mode = PowerMode_DozeSuspend)
        then Return (Error_Unsupported, s)
        else
          case hwc_display s display of
            None \<Rightarrow> Return (Error_BadDisplay, s)
          | Some d \<Rightarrow>
              (case Display_SetPowerMode env mode d of
                 (error, d1) \<Rightarrow>
                   let s1 = log_call (DisplaySetPowerMode display mode) (set_display display (Some d1) s) in
                   if error \<noteq> Error_None then Return (error, s1)
                   else
                     let s2 = HandleConcurrency env display s1 in
                     andThen
                       (if mode = PowerMode_Doze then
                          andThen (Refresh display s2) (\<lambda>s3.
                            Return (s3\<lparr>pending_refresh := (pending_refresh s3)(display := True)\<rparr>))
                        else Return (s2\<lparr>pending_refresh := (pending_refresh s2)(display := False)\<rparr>))
                       (\<lambda>s4. andThen (updateRefreshRateHint env s4) (\<lambda>s5. Return (Error_None, s5)))))"

section \<open>Display-object behaviour from the spec, sample collaborators and states\<close>

text \<open>
  Modelled from the spec: \<^verbatim>\<open>HWCDisplay::Validate\<close> and \<^verbatim>\<open>HWCDisplay::Present\<close> are not
  under src. In the spec a display goes from Unvalidated to Validated when its own validation
  succeeds, and a present attempted without a valid preceding validation gives
  \<open>NotValidated\<close>. \<open>strategy\<close> stands for the composition engine (status and the two
  counts for the current layers), \<open>commit\<close> for the present of a validated display.
\<close>

definition HWCDisplay_Validate ::
    "(HWCDisplay \<Rightarrow> Error \<times> nat \<times> nat) \<Rightarrow> HWCDisplay \<Rightarrow> (Error \<times> nat \<times> nat) \<times> HWCDisplay" where
  "HWCDisplay_Validate strategy d =
     (case strategy d of
        (err, out_num) \<Rightarrow>
          if err = Error_None \<or> err = Error_HasChanges
          then ((err, out_num), d\<lparr>validate_state := kNormalValidate\<rparr>)
          else ((err, out_num), d))"

definition HWCDisplay_Present ::
    "(HWCDisplay \<Rightarrow> (Error \<times> int option) \<times> HWCDisplay) \<Rightarrow> HWCDisplay \<Rightarrow>
     (Error \<times> int option) \<times> HWCDisplay" where
  "HWCDisplay_Present commit d =
     (if validate_state d = kNoValidate then ((Error_NotValidated, None), d) else commit d)"

text \<open>A display object as a factory hands it out: unvalidated, no layers, powered off.\<close>

definition fresh_display :: HWCDisplay where
  "fresh_display =
     \<lparr> validate_state = kNoValidate, geometry_changes = 0, layer_map = (\<lambda>_. None),
       last_power_mode = PowerMode_Off, active = True, pending_refresh_mark = False,
       internals = 0 \<rparr>"

text \<open>
  Sample collaborators: thirteen display slots, factories that always succeed, a composition
  engine that asks for no changes, a power-mode call that records the mode.
\<close>

definition sample_env :: Env where
  "sample_env =
     \<lparr> kNumDisplays = 13,
       GetDisplaysStatus = None,
       Display_Create = (\<lambda>cls cid sdm. (0, fresh_display)),
       Display_Validate = HWCDisplay_Validate (\<lambda>d. (Error_None, 0, 0)),
       Display_GetValidateDisplayOutput = (\<lambda>d. (Error_None, 0, 0)),
       Display_Present =
         HWCDisplay_Present (\<lambda>d. ((Error_None, Some 0), d\<lparr>validate_state := kSkipValidate\<rparr>)),
       Display_CanSkipValidate = (\<lambda>d. geometry_changes d = 0),
       Display_HasClientComposition = (\<lambda>d. internals d \<noteq> 0),
       Display_SetPowerMode = (\<lambda>mode d. (Error_None, d\<lparr>last_power_mode := mode\<rparr>)),
       Display_SetVsyncEnabled = (\<lambda>d. (Error_None, d)),
       Display_SetState = (\<lambda>b d. (0, d)),
       Display_GetHdrCapabilities = (\<lambda>d. (Error_None, 0)),
       Display_GetVsyncPeriod = (\<lambda>d. Some 16666666),
       SetColorModeDetailEnhancer = (\<lambda>d. d),
       CreateColorManager = True \<rparr>"

text \<open>
  A session after \<^verbatim>\<open>InitSupportedDisplaySlots\<close> on hardware with a builtin primary: the
  primary is slot 0, pluggable slots 1 and 2, builtin slots 3, 4 and 5, virtual slot 6; no
  display object yet, the client has registered its callbacks.
\<close>

definition slot :: "nat \<Rightarrow> DisplayMapInfo" where
  "slot cid = (DisplayMapInfo_init 13)\<lparr>client_id := cid\<rparr>"

definition sample_session :: HWCSession where
  "sample_session =
     \<lparr> hwc_display = (\<lambda>_. None), is_hdr_display = (\<lambda>_. False),
       map_info_primary = slot 0, map_info_builtin = [slot 3, slot 4, slot 5],
       map_info_pluggable = [slot 1, slot 2], map_info_virtual = [slot 6],
       reset_panel = False, primary_ready = True, client_connected = True,
       need_invalidate = False, pluggable_is_primary = False, null_display_active = False,
       color_mgr = False, hpd_bpp = 0, hpd_pattern = 0, pending_refresh = (\<lambda>_. False),
       sequence_wait = (\<lambda>_. False), callbacks_refresh = True, callbacks_hotplug = True,
       callbacks_needs_refresh = (\<lambda>_. False), trace = [] \<rparr>"

text \<open>
  A worker that hinted 60 Hz, and whose earlier attempt to disable the 120 Hz hint failed.
\<close>

definition worker_pending_120 :: PowerHalHintWorker where
  "worker_pending_120 =
     PowerHalHintWorker_init\<lparr>mPrevRefreshRate := 60, mPendingPrevRefreshRate := 120,
                             mPowerModeState := PowerMode_On\<rparr>"

text \<open>The sample session with the primary connected and refreshes pending for slots 3 and 6.\<close>

definition session_pending :: HWCSession where
  "session_pending =
     sample_session\<lparr>hwc_display := (\<lambda>_. None)(0 := Some fresh_display),
                    pending_refresh := (\<lambda>i. i = 3 \<or> i = 6)\<rparr>"

text \<open>
  A display in the SkipValidate state that owns layer 7, a session with it in slot 0, and a
  layer call that changes the geometry.
\<close>

definition display_with_layer :: HWCDisplay where
  "display_with_layer =
     fresh_display\<lparr>validate_state := kSkipValidate, layer_map := (\<lambda>_. None)(7 := Some 0)\<rparr>"

definition session_layer :: HWCSession where
  "session_layer = sample_session\<lparr>hwc_display := (\<lambda>_. None)(0 := Some display_with_layer)\<rparr>"

definition move_layer :: "nat \<Rightarrow> HWCDisplay \<Rightarrow> Error \<times> HWCDisplay" where
  "move_layer layer d = (Error_None, d\<lparr>geometry_changes := 1\<rparr>)"

text \<open>
  The sample session with the primary connected and a pluggable test-pattern display with
  hardware id 5 in the first pluggable slot.
\<close>

definition ext_slot :: DisplayMapInfo where
  "ext_slot = (slot 1)\<lparr>sdm_id := 5, disp_type := kPluggable, test_pattern := True\<rparr>"

definition session_ext :: HWCSession where
  "session_ext =
     sample_session\<lparr>hwc_display := (\<lambda>_. None)(0 := Some fresh_display, 1 := Some fresh_display),
                    map_info_pluggable := [ext_slot, slot 2]\<rparr>"

text \<open>
  Hardware with a builtin primary (id 0) and two more connected builtin panels (ids 1 and 2),
  and the session at client registration: the primary connected, the three builtin slots free.
\<close>

definition hw_three_builtin :: "HWDisplayInfo list" where
  "hw_three_builtin =
     [\<lparr> display_id = 0, display_type = kBuiltIn, is_connected = True, is_primary = True \<rparr>,
      \<lparr> display_id = 1, display_type = kBuiltIn, is_connected = True, is_primary = False \<rparr>,
      \<lparr> display_id = 2, display_type = kBuiltIn, is_connected = True, is_primary = False \<rparr>]"

definition env_three_builtin :: Env where
  "env_three_builtin = sample_env\<lparr>GetDisplaysStatus := Some hw_three_builtin\<rparr>"

definition session_registration :: HWCSession where
  "session_registration =
     sample_session\<lparr>hwc_display := (\<lambda>_. None)(0 := Some fresh_display),
                    client_connected := False\<rparr>"

text \<open>
  A session with the primary, a second builtin panel in slot 3 that is powered off, a
  pluggable display in slot 1 that the policy has deactivated, and an active virtual
  display in slot 6.
\<close>

definition session_ext_virtual :: HWCSession where
  "session_ext_virtual =
     sample_session\<lparr>hwc_display := (\<lambda>_. None)
        (0 := Some (fresh_display\<lparr>last_power_mode := PowerMode_On\<rparr>),
         3 := Some fresh_display,
         1 := Some (fresh_display\<lparr>active := False\<rparr>),
         6 := Some fresh_display)\<rparr>"

text \<open>The activation flag of the display in a slot (\<open>None\<close> for a free slot).\<close>

definition active_at :: "HWCSession \<Rightarrow> nat \<Rightarrow> bool option" where
  "active_at s i = map_option active (hwc_display s i)"

text \<open>The same session on a device with two builtin slots only.\<close>

definition session_registration_two :: HWCSession where
  "session_registration_two = session_registration\<lparr>map_info_builtin := [slot 3, slot 4]\<rparr>"

text \<open>
  Event scenarios for the concurrency policy. \<open>env_hw b infos\<close> is the sample environment
  with hardware snapshot \<open>infos\<close> and factories whose new display objects have the
  activation flag \<open>b\<close>. The hardware has a builtin primary, a pluggable display with id 5
  and a virtual display interface with id 9 (\<open>hw_ext\<close> also has a second builtin panel).
  Each scenario is a run of entry points: \<^verbatim>\<open>CreateVirtualDisplay\<close> (the object, then the
  policy for slot 6), a hotplug scan that finds the pluggable display connected, one that
  finds it disconnected, one that finds it connected again, and a \<^verbatim>\<open>SetPowerMode\<close>: Off
  for the second builtin panel, which is already off (\<open>policy_scenario\<close>), or On for the
  primary on hardware without a second panel (\<open>policy_scenario_primary\<close>).
\<close>

definition hw_entry :: "int \<Rightarrow> DisplayType \<Rightarrow> bool \<Rightarrow> bool \<Rightarrow> HWDisplayInfo" where
  "hw_entry i t c p = \<lparr> display_id = i, display_type = t, is_connected = c, is_primary = p \<rparr>"

definition env_hw :: "bool \<Rightarrow> HWDisplayInfo list \<Rightarrow> Env" where
  "env_hw b infos =
     sample_env\<lparr>GetDisplaysStatus := Some infos,
                Display_Create := (\<lambda>cls cid sdm. (0, fresh_display\<lparr>active := b\<rparr>))\<rparr>"

definition hw_ext :: "bool \<Rightarrow> HWDisplayInfo list" where
  "hw_ext is_conn =
     [hw_entry 0 kBuiltIn True True, hw_entry 1 kBuiltIn True False,
      hw_entry 5 kPluggable is_conn False, hw_entry 9 kVirtual False False]"

definition session_two_builtin :: HWCSession where
  "session_two_builtin =
     sample_session\<lparr>hwc_display := (\<lambda>_. None)
        (0 := Some (fresh_display\<lparr>last_power_mode := PowerMode_On\<rparr>), 3 := Some fresh_display)\<rparr>"

definition policy_scenario :: "bool \<Rightarrow> ((Error \<times> HWCSession) outcome)" where
  "policy_scenario b =
     andThen (CreateVirtualDisplayObj (env_hw b (hw_ext False)) session_two_builtin) (\<lambda>(r1, s1).
     andThen (CreatePluggableDisplays (env_hw b (hw_ext True)) True
                (HandleConcurrency (env_hw b (hw_ext False)) 6 s1)) (\<lambda>(r2, s2).
     andThen (CreatePluggableDisplays (env_hw b (hw_ext False)) True s2) (\<lambda>(r3, s3).
     andThen (CreatePluggableDisplays (env_hw b (hw_ext True)) True s3) (\<lambda>(r4, s4).
     SetPowerMode (env_hw b (hw_ext True)) True 3 0 s4))))"

definition hw_primary_ext :: "bool \<Rightarrow> HWDisplayInfo list" where
  "hw_primary_ext is_conn =
     [hw_entry 0 kBuiltIn True True, hw_entry 5 kPluggable is_conn False,
      hw_entry 9 kVirtual False False]"

definition session_primary_on :: HWCSession where
  "session_primary_on =
     sample_session\<lparr>hwc_display := (\<lambda>_. None)
        (0 := Some (fresh_display\<lparr>last_power_mode := PowerMode_On\<rparr>))\<rparr>"

definition policy_scenario_primary :: "bool \<Rightarrow> ((Error \<times> HWCSession) outcome)" where
  "policy_scenario_primary b =
     andThen (CreateVirtualDisplayObj (env_hw b (hw_primary_ext False)) session_primary_on)
       (\<lambda>(r1, s1).
     andThen (CreatePluggableDisplays (env_hw b (hw_primary_ext True)) True
                (HandleConcurrency (env_hw b (hw_primary_ext False)) 6 s1)) (\<lambda>(r2, s2).
     andThen (CreatePluggableDisplays (env_hw b (hw_primary_ext False)) True s2) (\<lambda>(r3, s3).
     andThen (CreatePluggableDisplays (env_hw b (hw_primary_ext True)) True s3) (\<lambda>(r4, s4).
     SetPowerMode (env_hw b (hw_primary_ext True)) True 0 2 s4))))"

text \<open>
  A device whose primary display is pluggable and disconnected at boot, and the session
  before the primary display is created. \<open>boot_then_hotplug\<close> creates the primary display,
  presents the first frame on it and then runs a hotplug scan.
\<close>

definition hw_primary_pluggable :: "HWDisplayInfo list" where
  "hw_primary_pluggable = [hw_entry 0 kPluggable False True]"

definition session_boot :: HWCSession where
  "session_boot = sample_session\<lparr>primary_ready := False\<rparr>"

definition boot_then_hotplug :: "(int \<times> HWCSession) outcome" where
  "boot_then_hotplug =
     andThen (PresentDisplay (env_hw False hw_primary_pluggable) True 0 True
                (snd (CreatePrimaryDisplay (env_hw False hw_primary_pluggable) session_boot)))
       (\<lambda>(r, s). CreatePluggableDisplays (env_hw False hw_primary_pluggable) True s)"

text \<open>
  A display in the SkipValidate state whose geometry has changed and whose layers need client
  composition, and a display on which an implicit validation has run; each in slot 0 of
  the sample session.
\<close>

definition display_client_composition :: HWCDisplay where
  "display_client_composition =
     fresh_display\<lparr>validate_state := kSkipValidate, geometry_changes := 1, internals := 1\<rparr>"

definition session_client_composition :: HWCSession where
  "session_client_composition =
     sample_session\<lparr>hwc_display := (\<lambda>_. None)(0 := Some display_client_composition)\<rparr>"

definition display_internal :: HWCDisplay where
  "display_internal = fresh_display\<lparr>validate_state := kInternalValidate\<rparr>"

definition session_internal :: HWCSession where
  "session_internal = sample_session\<lparr>hwc_display := (\<lambda>_. None)(0 := Some display_internal)\<rparr>"

text \<open>Two \<^verbatim>\<open>ValidateDisplay\<close> calls in a row on the primary of \<open>session_pending\<close>.\<close>

definition validate_twice :: "((Error \<times> (nat \<times> nat) option) \<times> HWCSession) outcome" where
  "validate_twice =
     andThen (ValidateDisplay sample_env True 0 session_pending)
       (\<lambda>(r1, s1). ValidateDisplay sample_env True 0 s1)"

text \<open>
  A hardware core with a builtin primary, four builtin, two pluggable and one virtual display
  interface, pools of four slots per category and room for 1024 elements in a vector; and one
  whose two maxima for builtin displays count nothing but the primary's interface less one.
\<close>

definition sample_core :: Core where
  "sample_core =
     \<lparr> CreateCore_ok = True, GetFirstDisplayInterfaceType = Some kBuiltIn,
       max_builtin_supported = Some 4, max_pluggable_supported = Some 2,
       max_virtual_supported = Some 1, kNumBuiltIn = 4, kNumPluggable = 4, kNumVirtual = 4,
       vector_limit = 1024 \<rparr>"

definition core_no_builtin :: Core where
  "core_no_builtin = sample_core\<lparr>max_builtin_supported := Some 0\<rparr>"

text \<open>\<open>session_ext\<close> while the primary is a pluggable display.\<close>

definition session_ext_primary_pluggable :: HWCSession where
  "session_ext_primary_pluggable = session_ext\<lparr>pluggable_is_primary := True\<rparr>"

text \<open>
  The session before the first present: the primary display object is new and the primary
  is not ready yet. \<open>first_present\<close> is that present on hardware whose pluggable display is
  connected.
\<close>

definition session_first :: HWCSession where
  "session_first =
     sample_session\<lparr>hwc_display := (\<lambda>_. None)(0 := Some fresh_display),
                    primary_ready := False\<rparr>"

definition first_present :: "((Error \<times> int option) \<times> HWCSession) outcome" where
  "first_present = PresentDisplay (env_hw True (hw_primary_ext True)) True 0 True session_first"

text \<open>
  A display in the SkipValidate state whose geometry has changed and whose layers need no
  client composition, in slot 0 of the sample session.
\<close>

definition display_device_composition :: HWCDisplay where
  "display_device_composition =
     fresh_display\<lparr>validate_state := kSkipValidate, geometry_changes := 1\<rparr>"

definition session_device_composition :: HWCSession where
  "session_device_composition =
     sample_session\<lparr>hwc_display := (\<lambda>_. None)(0 := Some display_device_composition)\<rparr>"

text \<open>What a call returned, if it returned.\<close>

definition returned :: "'a outcome \<Rightarrow> 'a option" where
  "returned m = (case m of Return x \<Rightarrow> Some x | _ \<Rightarrow> None)"

section \<open>What the internal steps leave alone\<close>

definition is_seq :: "call \<Rightarrow> bool" where
  "is_seq c = (case c of SeqEntry i \<Rightarrow> True | SeqExit i \<Rightarrow> True | SeqCancel i \<Rightarrow> True | _ \<Rightarrow> False)"

definition client_ids :: "HWCSession \<Rightarrow> nat \<times> nat list \<times> nat list \<times> nat list" where
  "client_ids s =
     (client_id (map_info_primary s), map client_id (map_info_builtin s),
      map client_id (map_info_pluggable s), map client_id (map_info_virtual s))"

text \<open>
  \<open>quiet s s'\<close>: from \<open>s\<close> to \<open>s'\<close> no sequence lock was touched, no slot changed its
  \<open>client_id\<close>, the registered callbacks, the pending-refresh bits and the policy flags are
  the same, and the trace grew by calls that are not sequence-lock operations.
\<close>

definition quiet :: "HWCSession \<Rightarrow> HWCSession \<Rightarrow> bool" where
  "quiet s s' \<longleftrightarrow>
     sequence_wait s' = sequence_wait s \<and> client_ids s' = client_ids s \<and>
     callbacks_refresh s' = callbacks_refresh s \<and> callbacks_hotplug s' = callbacks_hotplug s \<and>
     pending_refresh s' = pending_refresh s \<and> primary_ready s' = primary_ready s \<and>
     pluggable_is_primary s' = pluggable_is_primary s \<and>
     null_display_active s' = null_display_active s \<and>
     (\<exists>ext. trace s' = trace s @ ext \<and> list_all (\<lambda>c. \<not> is_seq c) ext)"

definition quiet_st :: "HWCSession \<Rightarrow> HWCSession outcome \<Rightarrow> bool" where
  "quiet_st s m = (case m of Return s' \<Rightarrow> quiet s s' | Aborted s' \<Rightarrow> quiet s s' | _ \<Rightarrow> True)"

definition quiet_outcome :: "HWCSession \<Rightarrow> ('a \<times> HWCSession) outcome \<Rightarrow> bool" where
  "quiet_outcome s m =
     (case m of Return (x, s') \<Rightarrow> quiet s s' | Aborted s' \<Rightarrow> quiet s s' | _ \<Rightarrow> True)"

text \<open>
  The state in which \<^verbatim>\<open>PresentDisplay\<close> calls \<^verbatim>\<open>PresentDisplayInternal\<close> on an occupied
  slot: the sequence scope is left, and a refresh that the callbacks asked for is marked on
  the display object. \<open>PresentDisplay_exit\<close> is the state after that call: the idle signal,
  then the cancel for a status other than None and NotValidated.
\<close>

definition PresentDisplay_entry :: "nat \<Rightarrow> HWCSession \<Rightarrow> HWCSession" where
  "PresentDisplay_entry display s =
     (let s1 = SEQUENCE_EXIT_SCOPE_LOCK display s in
      case hwc_display s1 display of
        None \<Rightarrow> s1
      | Some d \<Rightarrow>
          if callbacks_needs_refresh s1 display then
            (set_display display (Some (SetPendingRefresh d)) s1)
              \<lparr>callbacks_needs_refresh := (callbacks_needs_refresh s1)(display := False)\<rparr>
          else s1)"

definition PresentDisplay_exit :: "nat \<Rightarrow> Error \<Rightarrow> HWCSession \<Rightarrow> HWCSession" where
  "PresentDisplay_exit display status s3 =
     (if status \<noteq> Error_None \<and> status \<noteq> Error_NotValidated
      then SEQUENCE_CANCEL_SCOPE_LOCK display (log_call SignalIdle s3) else log_call SignalIdle s3)"

text \<open>
  \<open>calm s s'\<close>: the part of \<open>quiet\<close> that also holds across \<^verbatim>\<open>HandlePendingRefresh\<close>,
  which clears the pending bits: the sequence locks, the client ids and the sequence-lock
  calls of the trace are the same.
\<close>

definition calm :: "HWCSession \<Rightarrow> HWCSession \<Rightarrow> bool" where
  "calm s s' \<longleftrightarrow>
     sequence_wait s' = sequence_wait s \<and> client_ids s' = client_ids s \<and>
     filter is_seq (trace s') = filter is_seq (trace s)"

text \<open>An outcome that is the end of the process by \<^verbatim>\<open>abort()\<close>.\<close>

definition aborts :: "'a outcome \<Rightarrow> bool" where
  "aborts m = (case m of Aborted s \<Rightarrow> True | _ \<Rightarrow> False)"

text \<open>
  The calls of the trace that validate, read the cached validation output of, or present a
  display object.
\<close>

definition is_compose :: "call \<Rightarrow> bool" where
  "is_compose c =
     (case c of DisplayValidate i \<Rightarrow> True | DisplayGetValidateOutput i \<Rightarrow> True
              | DisplayPresent i \<Rightarrow> True | _ \<Rightarrow> False)"

text \<open>
  The state in which a hotplug scan without a pluggable primary runs to its end: the refresh
  callback is registered, the primary slot is occupied by a real display, and no pluggable
  slot has the primary's client id.
\<close>

definition hotplug_ready :: "HWCSession \<Rightarrow> bool" where
  "hotplug_ready s \<longleftrightarrow>
     callbacks_refresh s \<and> \<not> pluggable_is_primary s \<and> \<not> null_display_active s \<and>
     hwc_display s 0 \<noteq> None \<and> 0 \<notin> set (map client_id (map_info_pluggable s))"

text \<open>
  The states in which \<^verbatim>\<open>PresentDisplay\<close> on an occupied slot returns: the refresh callback
  is registered; and when the call is the first present on the primary, which runs the
  pending hotplug scan unless the primary is pluggable, no dummy display is active and no
  pluggable slot has the primary's client id.
\<close>

definition present_ready :: "nat \<Rightarrow> HWCSession \<Rightarrow> bool" where
  "present_ready display s \<longleftrightarrow>
     callbacks_refresh s \<and>
     (primary_ready s \<or> display \<noteq> 0 \<or> pluggable_is_primary s \<or>
      (\<not> null_display_active s \<and> 0 \<notin> set (map client_id (map_info_pluggable s))))"

section \<open>The power-hint worker: proofs\<close>

subsection \<open>Facts about the hint calls\<close>

lemma refreshRateHintStr_nonempty: "refreshRateHintStr r \<noteq> []"
  by (simp add: refreshRateHintStr_def)

lemma hint_calls_append: "hint_calls (xs @ ys) = hint_calls xs @ hint_calls ys"
  by (induction xs rule: hint_calls.induct) auto

lemma sendRefreshRateHint_accepted:
  assumes "\<forall>h m e. setMode hal h m e = Ok" and "mPowerHalExtAidl w \<or> available hal"
  shows "sendRefreshRateHint hal r e w =
     (NO_ERROR, w\<lparr>mPowerHalExtAidl := True,
                  hal_calls := hal_calls w @ [SetMode (refreshRateHintStr r) e]\<rparr>)"
  using assms
  by (auto simp: sendRefreshRateHint_def sendPowerHalExtHint_def connectPowerHalExt_def
      refreshRateHintStr_nonempty NO_ERROR_def ENOTCONN_def EINVAL_def Let_def)

lemma checkRefreshRateHintSupport_cached:
  assumes "mRefreshRateHintSupportMap w r = Some True"
  shows "checkRefreshRateHintSupport hal r w = (NO_ERROR, w)"
  using assms by (simp add: checkRefreshRateHintSupport_def)

lemma checkRefreshRateHintSupport_fresh:
  assumes "mRefreshRateHintSupportMap w r = None" and "mPowerHalExtAidl w \<or> available hal"
    and "\<forall>h. isModeSupported hal h (refreshRateHintStr r) = (Ok, True)"
  shows "checkRefreshRateHintSupport hal r w =
      (NO_ERROR, w\<lparr>mPowerHalExtAidl := True,
                   hal_calls := hal_calls w @ [IsModeSupported (refreshRateHintStr r)],
                   mRefreshRateHintSupportMap := (mRefreshRateHintSupportMap w)(r \<mapsto> True)\<rparr>)"
  using assms
  by (auto simp: checkRefreshRateHintSupport_def checkPowerHalExtHintSupport_def
      connectPowerHalExt_def refreshRateHintStr_nonempty NO_ERROR_def ENOTCONN_def EINVAL_def
      EOPNOTSUPP_def Let_def)

lemma switch_to_new_rate:
  assumes acc: "\<forall>h m e. setMode hal h m e = Ok"
    and conn: "mPowerHalExtAidl w \<or> available hal"
    and rate: "refreshRateOf v = Some r"
    and new: "r \<noteq> mPrevRefreshRate w"
    and sup: "mRefreshRateHintSupportMap w r = Some True \<or>
              (mRefreshRateHintSupportMap w r = None \<and>
               (\<forall>h. isModeSupported hal h (refreshRateHintStr r) = (Ok, True)))"
  shows "\<exists>w'. updateRefreshRateHintInternal hal PowerMode_On v w = Some (NO_ERROR, w') \<and>
        mPrevRefreshRate w' = r \<and> mPendingPrevRefreshRate w' = 0 \<and>
        hint_calls (hal_calls w') = hint_calls (hal_calls w) @
           (if mPendingPrevRefreshRate w \<noteq> 0
            then [(refreshRateHintStr (mPendingPrevRefreshRate w), False)] else []) @
           [(refreshRateHintStr r, True)] @
           (if mPrevRefreshRate w \<noteq> 0
            then [(refreshRateHintStr (mPrevRefreshRate w), False)] else [])"
proof -
  from sup show ?thesis
  proof
    assume c: "mRefreshRateHintSupportMap w r = Some True"
    show ?thesis
      using acc conn rate new c
      by (simp add: updateRefreshRateHintInternal_def sendRefreshRateHint_accepted
          checkRefreshRateHintSupport_cached Let_def hint_calls_append NO_ERROR_def)
  next
    assume c: "mRefreshRateHintSupportMap w r = None \<and>
               (\<forall>h. isModeSupported hal h (refreshRateHintStr r) = (Ok, True))"
    show ?thesis
      using acc conn rate new c
      by (simp add: updateRefreshRateHintInternal_def sendRefreshRateHint_accepted
          checkRefreshRateHintSupport_fresh Let_def hint_calls_append NO_ERROR_def)
  qed
qed

lemma same_rate_no_call:
  assumes "refreshRateOf v = Some (mPrevRefreshRate w)" "mPendingPrevRefreshRate w = 0"
  shows "updateRefreshRateHintInternal hal PowerMode_On v w = Some (NO_ERROR, w)"
  using assms by (simp add: updateRefreshRateHintInternal_def)

lemma undefined_rate:
  assumes "refreshRateOf v = None" "mPendingPrevRefreshRate w = 0"
  shows "updateRefreshRateHintInternal hal PowerMode_On v w = None"
  using assms by (simp add: updateRefreshRateHintInternal_def)

subsection \<open>Single precision\<close>

text \<open>\<open>float32_exponent\<close> is the binary exponent of its argument.\<close>

lemma float32_exponent_large:
  assumes "1 \<le> \<bar>x\<bar>"
  shows "pow2 (float32_exponent x) \<le> \<bar>x\<bar> \<and> \<bar>x\<bar> < pow2 (float32_exponent x + 1)"
proof -
  let ?n = "\<lfloor>\<bar>x\<bar>\<rfloor>"
  have n: "0 < ?n" using assms by simp
  have b: "2 ^ nat (bitlen ?n - 1) \<le> ?n" "?n < 2 ^ nat (bitlen ?n)"
    using bitlen_bounds [OF n] by simp_all
  have bl: "0 < bitlen ?n"
  proof (rule ccontr)
    assume "\<not> 0 < bitlen ?n"
    then have "nat (bitlen ?n) = 0" by simp
    then have "?n < 1" using b(2) by simp
    then show False using n by simp
  qed
  have "(2::rat) ^ nat (bitlen ?n - 1) = of_int (2 ^ nat (bitlen ?n - 1))" by simp
  also have "\<dots> \<le> of_int ?n" using b(1) by (simp only: of_int_le_iff)
  also have "\<dots> \<le> \<bar>x\<bar>" by simp
  finally have lo: "(2::rat) ^ nat (bitlen ?n - 1) \<le> \<bar>x\<bar>" .
  have n1: "?n + 1 \<le> 2 ^ nat (bitlen ?n)" using b(2) by simp
  have "\<bar>x\<bar> < of_int (?n + 1)" by linarith
  also have "(of_int (?n + 1) :: rat) \<le> of_int (2 ^ nat (bitlen ?n))"
    using n1 by (simp only: of_int_le_iff)
  also have "(of_int (2 ^ nat (bitlen ?n)) :: rat) = 2 ^ nat (bitlen ?n)" by simp
  finally have hi: "\<bar>x\<bar> < (2::rat) ^ nat (bitlen ?n)" .
  show ?thesis
    using lo hi bl assms by (simp add: float32_exponent_def pow2_def)
qed

lemma float32_exponent_small:
  assumes "x \<noteq> 0" "\<bar>x\<bar> < 1"
  shows "pow2 (float32_exponent x) \<le> \<bar>x\<bar> \<and> \<bar>x\<bar> < pow2 (float32_exponent x + 1)"
proof -
  let ?y = "1 / \<bar>x\<bar>"
  let ?c = "\<lceil>?y\<rceil>"
  let ?m = "bitlen (?c - 1)"
  have x0: "0 < \<bar>x\<bar>" using assms(1) by simp
  have y1: "1 < ?y" using assms x0 by (simp add: field_simps)
  then have c2: "2 \<le> ?c" by linarith
  then have c1: "0 < ?c - 1" by simp
  have b: "2 ^ nat (?m - 1) \<le> ?c - 1" "?c - 1 < 2 ^ nat ?m"
    using bitlen_bounds [OF c1] by simp_all
  have m1: "0 < ?m"
  proof (rule ccontr)
    assume "\<not> 0 < ?m"
    then have "nat ?m = 0" by simp
    then have "?c - 1 < 1" using b(2) by simp
    then show False using c1 by simp
  qed
  have "(2::rat) ^ nat (?m - 1) = of_int (2 ^ nat (?m - 1))" by simp
  also have "\<dots> \<le> of_int (?c - 1)" using b(1) by (simp only: of_int_le_iff)
  also have "(of_int (?c - 1) :: rat) < ?y" by linarith
  finally have lo: "(2::rat) ^ nat (?m - 1) < ?y" .
  have cm: "?c \<le> 2 ^ nat ?m" using b(2) by simp
  have "?y \<le> of_int ?c" by linarith
  also have "(of_int ?c :: rat) \<le> of_int (2 ^ nat ?m)" using cm by (simp only: of_int_le_iff)
  also have "(of_int (2 ^ nat ?m) :: rat) = 2 ^ nat ?m" by simp
  finally have hi: "?y \<le> (2::rat) ^ nat ?m" .
  have p: "(0::rat) < 2 ^ nat ?m" "(0::rat) < 2 ^ nat (?m - 1)" by simp_all
  have A: "1 / 2 ^ nat ?m \<le> \<bar>x\<bar>"
    using hi x0 p by (simp add: field_simps)
  have B: "\<bar>x\<bar> < 1 / 2 ^ nat (?m - 1)"
    using lo x0 p by (simp add: field_simps)
  have e: "float32_exponent x = - ?m" using assms by (simp add: float32_exponent_def)
  have "pow2 (- ?m) = 1 / 2 ^ nat ?m" using m1 by (simp add: pow2_def)
  moreover have "pow2 (- ?m + 1) = 1 / 2 ^ nat (?m - 1)"
  proof (cases "?m = 1")
    case True
    then show ?thesis by (simp add: pow2_def)
  next
    case False
    then have "1 < ?m" using m1 by simp
    moreover have "nat (- (- ?m + 1)) = nat (?m - 1)" by simp
    ultimately show ?thesis by (simp add: pow2_def)
  qed
  ultimately show ?thesis using A B e by simp
qed

lemma float32_exponent_bounds:
  assumes "x \<noteq> 0"
  shows "pow2 (float32_exponent x) \<le> \<bar>x\<bar> \<and> \<bar>x\<bar> < pow2 (float32_exponent x + 1)"
  using assms float32_exponent_large [of x] float32_exponent_small [of x]
  by (cases "1 \<le> \<bar>x\<bar>") auto

text \<open>
  Some binary32 values: \<^verbatim>\<open>0.1f\<close> and \<^verbatim>\<open>1.0f / 3\<close> (bit patterns 3DCCCCCD and 3EAAAAAB),
  the ties above \<open>2^24\<close>, and the overflow to infinity.
\<close>

lemma float32_samples:
  "float32 (1 / 3) = Some (11184811 / 33554432)"
  "float32 16777217 = Some 16777216" "float32 16777219 = Some 16777220"
  "float32 (2 ^ 128) = None"
  by code_simp+

subsection \<open>Refresh rates of some vsync periods\<close>

lemma float32_tenth: "float32 (1 / 10) = Some (13421773 / 134217728)"
  by code_simp

lemma refreshRateOf_steps:
  assumes "v \<noteq> 0" "float32 (of_nat v) = Some p" "float32 (1000000000 / p) = Some q"
    "float32 (q * (13421773 / 134217728)) = Some t"
    "float32 (of_int (round_away t) * 10) = Some (of_int r)"
    "- (2 ^ 31) \<le> r" "r < 2 ^ 31" "0 \<le> r"
  shows "refreshRateOf v = Some r"
proof -
  have "- (2 ^ 31) \<le> (of_int r :: rat)" "(of_int r :: rat) < 2 ^ 31" "0 \<le> (of_int r :: rat)"
    using assms(6-8) by simp_all
  then show ?thesis
    using assms(1-5) float32_tenth by (simp add: refreshRateOf_def)
qed

lemma refreshRateOf_60: "refreshRateOf 16666666 = Some 60"
proof (rule refreshRateOf_steps)
  show "(16666666::nat) \<noteq> 0" by simp
  have "float32 16666666 = Some 16666666" by code_simp
  then show "float32 (of_nat 16666666) = Some 16666666" by simp
  show "float32 (1000000000 / 16666666) = Some (15728641 / 262144)" by code_simp
  show "float32 (15728641 / 262144 * (13421773 / 134217728)) = Some (12582913 / 2097152)" by code_simp
  have "round_away (12582913 / 2097152) = 6" by code_simp
  moreover have "float32 60 = Some 60" by code_simp
  ultimately show "float32 (of_int (round_away (12582913 / 2097152)) * 10) = Some (of_int 60)" by simp
  show "- (2 ^ 31) \<le> (60::int)" "(60::int) < 2 ^ 31" "0 \<le> (60::int)" by simp_all
qed

lemma refreshRateOf_90: "refreshRateOf 11111111 = Some 90"
proof (rule refreshRateOf_steps)
  show "(11111111::nat) \<noteq> 0" by simp
  have "float32 11111111 = Some 11111111" by code_simp
  then show "float32 (of_nat 11111111) = Some 11111111" by simp
  show "float32 (1000000000 / 11111111) = Some (90)" by code_simp
  show "float32 (90 * (13421773 / 134217728)) = Some (9)" by code_simp
  have "round_away (9) = 9" by code_simp
  moreover have "float32 90 = Some 90" by code_simp
  ultimately show "float32 (of_int (round_away (9)) * 10) = Some (of_int 90)" by simp
  show "- (2 ^ 31) \<le> (90::int)" "(90::int) < 2 ^ 31" "0 \<le> (90::int)" by simp_all
qed

text \<open>
  A period between those of 75 Hz and 80 Hz: the quotient \<open>74.99999625...\<close> rounds to the
  \<^verbatim>\<open>float\<close> 75, the product to 7.5, and \<^verbatim>\<open>round\<close> takes the halfway case up.
\<close>

lemma refreshRateOf_13333334: "refreshRateOf 13333334 = Some 80"
proof (rule refreshRateOf_steps)
  show "(13333334::nat) \<noteq> 0" by simp
  have "float32 13333334 = Some 13333334" by code_simp
  then show "float32 (of_nat 13333334) = Some 13333334" by simp
  show "float32 (1000000000 / 13333334) = Some (75)" by code_simp
  show "float32 (75 * (13421773 / 134217728)) = Some (15 / 2)" by code_simp
  have "round_away (15 / 2) = 8" by code_simp
  moreover have "float32 80 = Some 80" by code_simp
  ultimately show "float32 (of_int (round_away (15 / 2)) * 10) = Some (of_int 80)" by simp
  show "- (2 ^ 31) \<le> (80::int)" "(80::int) < 2 ^ 31" "0 \<le> (80::int)" by simp_all
qed

lemma refreshRateOf_0: "refreshRateOf 0 = None"
  by (simp add: refreshRateOf_def)

lemmas worker_eval =
  updateRefreshRateHintInternal_def sendRefreshRateHint_def sendPowerHalExtHint_def
  checkRefreshRateHintSupport_def checkPowerHalExtHintSupport_def connectPowerHalExt_def
  hal_ok_def PowerHalHintWorker_init_def refreshRateOf_60 refreshRateOf_90 refreshRateHintStr_def
  to_string_def to_string_nat.simps digit_char_def NO_ERROR_def ENOTCONN_def EINVAL_def
  EOPNOTSUPP_def Let_def

lemma signals_60_90_60:
  "map_option (\<lambda>(ret, w). hint_calls (hal_calls w))
     (Option.bind (updateRefreshRateHintInternal hal_ok PowerMode_On 16666666
                     PowerHalHintWorker_init) (\<lambda>(r1, w1).
      Option.bind (updateRefreshRateHintInternal hal_ok PowerMode_On 11111111 w1) (\<lambda>(r2, w2).
        updateRefreshRateHintInternal hal_ok PowerMode_On 16666666 w2))) =
   Some [(''REFRESH_60FPS'', True), (''REFRESH_90FPS'', True), (''REFRESH_60FPS'', False),
         (''REFRESH_60FPS'', True), (''REFRESH_90FPS'', False)]"
  by (simp add: worker_eval)

text \<open>
  C6. While the display is on, a switch to a new, supported refresh rate whose calls the
  power service accepts emits: the disable of a pending failed-to-disable hint (if one is
  recorded), then the enable of the new rate, then the disable of the previous rate (if
  there is one); the new rate becomes the previous one and nothing stays pending. The new
  rate is the one the worker computes from the vsync period in single precision; when it
  equals the previous rate and nothing is pending, no call is made. For the vsync periods
  of 60, 90 and 60 Hz handled one after the other from the initial worker, the
  \<^verbatim>\<open>setMode\<close> calls are enable(60), enable(90), disable(60), enable(60), disable(90).
\<close>

theorem refresh_rate_hint_ordering:
  "(\<forall>(hal::PowerHalExt) (w::PowerHalHintWorker) v r.
      (\<forall>h m e. setMode hal h m e = Ok) \<longrightarrow>
      (mPowerHalExtAidl w \<or> available hal) \<longrightarrow>
      refreshRateOf v = Some r \<longrightarrow>
      r \<noteq> mPrevRefreshRate w \<longrightarrow>
      (mRefreshRateHintSupportMap w r = Some True \<or>
       (mRefreshRateHintSupportMap w r = None \<and>
        (\<forall>h. isModeSupported hal h (refreshRateHintStr r) = (Ok, True)))) \<longrightarrow>
      (\<exists>w'. updateRefreshRateHintInternal hal PowerMode_On v w = Some (NO_ERROR, w') \<and>
         mPrevRefreshRate w' = r \<and> mPendingPrevRefreshRate w' = 0 \<and>
         hint_calls (hal_calls w') = hint_calls (hal_calls w) @
           (if mPendingPrevRefreshRate w \<noteq> 0
            then [(refreshRateHintStr (mPendingPrevRefreshRate w), False)] else []) @
           [(refreshRateHintStr r, True)] @
           (if mPrevRefreshRate w \<noteq> 0
            then [(refreshRateHintStr (mPrevRefreshRate w), False)] else []))) \<and>
   (\<forall>(hal::PowerHalExt) (w::PowerHalHintWorker) v.
      refreshRateOf v = Some (mPrevRefreshRate w) \<longrightarrow> mPendingPrevRefreshRate w = 0 \<longrightarrow>
      updateRefreshRateHintInternal hal PowerMode_On v w = Some (NO_ERROR, w)) \<and>
   refreshRateOf 16666666 = Some 60 \<and> refreshRateOf 11111111 = Some 90 \<and>
   map_option (\<lambda>(ret, w). hint_calls (hal_calls w))
     (Option.bind (updateRefreshRateHintInternal hal_ok PowerMode_On 16666666
                     PowerHalHintWorker_init) (\<lambda>(r1, w1).
      Option.bind (updateRefreshRateHintInternal hal_ok PowerMode_On 11111111 w1) (\<lambda>(r2, w2).
        updateRefreshRateHintInternal hal_ok PowerMode_On 16666666 w2))) =
   Some [(''REFRESH_60FPS'', True), (''REFRESH_90FPS'', True), (''REFRESH_60FPS'', False),
         (''REFRESH_60FPS'', True), (''REFRESH_90FPS'', False)]"
proof (intro conjI allI impI)
  fix hal :: PowerHalExt and w :: PowerHalHintWorker and v r
  assume "\<forall>h m e. setMode hal h m e = Ok" and "mPowerHalExtAidl w \<or> available hal"
    and "refreshRateOf v = Some r" and "r \<noteq> mPrevRefreshRate w"
    and "mRefreshRateHintSupportMap w r = Some True \<or>
       (mRefreshRateHintSupportMap w r = None \<and>
        (\<forall>h. isModeSupported hal h (refreshRateHintStr r) = (Ok, True)))"
  then show "\<exists>w'. updateRefreshRateHintInternal hal PowerMode_On v w = Some (NO_ERROR, w') \<and>
         mPrevRefreshRate w' = r \<and> mPendingPrevRefreshRate w' = 0 \<and>
         hint_calls (hal_calls w') = hint_calls (hal_calls w) @
           (if mPendingPrevRefreshRate w \<noteq> 0
            then [(refreshRateHintStr (mPendingPrevRefreshRate w), False)] else []) @
           [(refreshRateHintStr r, True)] @
           (if mPrevRefreshRate w \<noteq> 0
            then [(refreshRateHintStr (mPrevRefreshRate w), False)] else [])"
    by (rule switch_to_new_rate)
next
  fix hal :: PowerHalExt and w :: PowerHalHintWorker and v
  assume "refreshRateOf v = Some (mPrevRefreshRate w)" "mPendingPrevRefreshRate w = 0"
  then show "updateRefreshRateHintInternal hal PowerMode_On v w = Some (NO_ERROR, w)"
    by (rule same_rate_no_call)
next
  show "refreshRateOf 16666666 = Some 60" by (rule refreshRateOf_60)
  show "refreshRateOf 11111111 = Some 90" by (rule refreshRateOf_90)
  show "map_option (\<lambda>(ret, w). hint_calls (hal_calls w))
     (Option.bind (updateRefreshRateHintInternal hal_ok PowerMode_On 16666666
                     PowerHalHintWorker_init) (\<lambda>(r1, w1).
      Option.bind (updateRefreshRateHintInternal hal_ok PowerMode_On 11111111 w1) (\<lambda>(r2, w2).
        updateRefreshRateHintInternal hal_ok PowerMode_On 16666666 w2))) =
   Some [(''REFRESH_60FPS'', True), (''REFRESH_90FPS'', True), (''REFRESH_60FPS'', False),
         (''REFRESH_60FPS'', True), (''REFRESH_90FPS'', False)]"
    by (rule signals_60_90_60)
qed

theorem refresh_rate_hint_ordering_witness:
  "available hal_ok \<and> refreshRateOf 11111111 = Some 90 \<and>
   90 \<noteq> mPrevRefreshRate worker_pending_120 \<and>
   mRefreshRateHintSupportMap worker_pending_120 90 = None \<and>
   mPendingPrevRefreshRate worker_pending_120 = 120 \<and>
   map_option (\<lambda>(ret, w). (ret, hint_calls (hal_calls w)))
     (updateRefreshRateHintInternal hal_ok PowerMode_On 11111111 worker_pending_120) =
   Some (0, [(''REFRESH_120FPS'', False), (''REFRESH_90FPS'', True), (''REFRESH_60FPS'', False)])"
proof -
  have a: "\<forall>h m e. setMode hal_ok h m e = Ok" by (simp add: hal_ok_def)
  have b: "mPowerHalExtAidl worker_pending_120 \<or> available hal_ok" by (simp add: hal_ok_def)
  have c: "90 \<noteq> mPrevRefreshRate worker_pending_120"
    by (simp add: worker_pending_120_def PowerHalHintWorker_init_def)
  have d: "mRefreshRateHintSupportMap worker_pending_120 90 = Some True \<or>
       (mRefreshRateHintSupportMap worker_pending_120 90 = None \<and>
        (\<forall>h. isModeSupported hal_ok h (refreshRateHintStr 90) = (Ok, True)))"
    by (simp add: worker_pending_120_def PowerHalHintWorker_init_def hal_ok_def)
  have e: "refreshRateHintStr 120 = ''REFRESH_120FPS''" "refreshRateHintStr 90 = ''REFRESH_90FPS''"
    "refreshRateHintStr 60 = ''REFRESH_60FPS''"
    by (simp_all add: refreshRateHintStr_def to_string_def to_string_nat.simps digit_char_def)
  from refresh_rate_hint_ordering [THEN conjunct1, THEN spec, THEN spec, THEN spec, THEN spec,
      THEN mp, THEN mp, THEN mp, THEN mp, THEN mp, OF a b refreshRateOf_90 c d]
  show ?thesis
    using e refreshRateOf_90
    by (auto simp: worker_pending_120_def PowerHalHintWorker_init_def hal_ok_def NO_ERROR_def)
qed

section \<open>Basic facts about the session operations\<close>

lemma andThen_simps [simp]:
  "andThen (Return x) f = f x" "andThen Blocked f = Blocked"
  "andThen (Aborted s) f = Aborted s" "andThen Fault f = Fault"
  by (simp_all add: andThen_def)

lemma andThen_Return_iff:
  "andThen m f = Return y \<longleftrightarrow> (\<exists>x. m = Return x \<and> f x = Return y)"
  by (cases m) simp_all

lemma Refresh_registered:
  "callbacks_refresh s \<Longrightarrow> Refresh display s = Return (log_call (CbRefresh display) s)"
  by (simp add: Refresh_def callbacks_Refresh_def)

lemma Refresh_Return_iff:
  "Refresh display s = Return s' \<longleftrightarrow> callbacks_refresh s \<and> s' = log_call (CbRefresh display) s"
  by (auto simp: Refresh_def callbacks_Refresh_def)

lemma find_least:
  assumes "i < n" "P i" "\<forall>j<i. \<not> P j"
  shows "find P [0..<n] = Some i"
  unfolding find_Some_iff
  using assms by (intro exI[of _ i]) auto

lemma HandlePendingRefresh_serves_lowest:
  assumes "callbacks_refresh s" "i < kNumDisplays env" "pending_refresh s i"
    "\<forall>j<i. \<not> pending_refresh s j"
  shows "HandlePendingRefresh env s = Return ((log_call (CbRefresh i) s)\<lparr>pending_refresh := (\<lambda>_. False)\<rparr>)"
proof -
  have "\<not> list_all (\<lambda>i. \<not> pending_refresh s i) [0..<kNumDisplays env]"
    using assms(2,3) by (auto simp: list_all_iff)
  moreover have "find (pending_refresh s) [0..<kNumDisplays env] = Some i"
    using assms by (intro find_least) auto
  ultimately show ?thesis
    using assms(1) by (simp add: HandlePendingRefresh_def Refresh_registered)
qed

lemma HandlePendingRefresh_none:
  assumes "\<forall>j<kNumDisplays env. \<not> pending_refresh s j"
  shows "HandlePendingRefresh env s = Return s"
  using assms by (simp add: HandlePendingRefresh_def list_all_iff)

lemma quiet_refl [simp]: "quiet s s"
  by (simp add: quiet_def)

lemma quiet_trans: "quiet s s1 \<Longrightarrow> quiet s1 s2 \<Longrightarrow> quiet s s2"
  by (auto simp: quiet_def)

lemma quiet_log_call: "\<not> is_seq c \<Longrightarrow> quiet s (log_call c s)"
  by (simp add: quiet_def log_call_def client_ids_def)

lemma quiet_set_display: "quiet s (set_display i d s)"
  by (simp add: quiet_def set_display_def client_ids_def)

lemma quiet_log_call': "\<not> is_seq c \<Longrightarrow> quiet s s1 \<Longrightarrow> quiet s (log_call c s1)"
  by (blast intro: quiet_trans quiet_log_call)

lemma quiet_set_display': "quiet s s1 \<Longrightarrow> quiet s (set_display i d s1)"
  by (blast intro: quiet_trans quiet_set_display)

lemma quiet_hdr: "quiet s s1 \<Longrightarrow> quiet s (s1\<lparr>is_hdr_display := h\<rparr>)"
  by (simp add: quiet_def client_ids_def)

lemma quiet_st_bind:
  assumes "quiet_st s m" "\<And>s1. m = Return s1 \<Longrightarrow> quiet s s1 \<Longrightarrow> quiet_outcome s (f s1)"
  shows "quiet_outcome s (andThen m f)"
  using assms by (cases m) (auto simp: quiet_st_def quiet_outcome_def)

lemma quiet_st_bind_st:
  assumes "quiet_st s m" "\<And>s1. m = Return s1 \<Longrightarrow> quiet s s1 \<Longrightarrow> quiet_st s (f s1)"
  shows "quiet_st s (andThen m f)"
  using assms by (cases m) (auto simp: quiet_st_def)

lemma quiet_outcome_bind:
  assumes "quiet_outcome s m"
    "\<And>x s1. m = Return (x, s1) \<Longrightarrow> quiet s s1 \<Longrightarrow> quiet_outcome s (f (x, s1))"
  shows "quiet_outcome s (andThen m f)"
  using assms by (cases m) (auto simp: quiet_outcome_def)

lemma quiet_outcome_bind_st:
  assumes "quiet_outcome s m"
    "\<And>x s1. m = Return (x, s1) \<Longrightarrow> quiet s s1 \<Longrightarrow> quiet_st s (f (x, s1))"
  shows "quiet_st s (andThen m f)"
  using assms by (cases m) (auto simp: quiet_outcome_def quiet_st_def)

lemma quiet_outcome_Return [simp]: "quiet_outcome s (Return (x, s')) = quiet s s'"
  by (simp add: quiet_outcome_def)

lemma quiet_st_Return [simp]: "quiet_st s (Return s') = quiet s s'"
  by (simp add: quiet_st_def)

lemma quiet_outcome_other [simp]: "quiet_outcome s Blocked" "quiet_outcome s Fault"
  "quiet_outcome s (Aborted s') = quiet s s'"
  by (simp_all add: quiet_outcome_def)

lemma quiet_st_other [simp]: "quiet_st s Blocked" "quiet_st s Fault"
  "quiet_st s (Aborted s') = quiet s s'"
  by (simp_all add: quiet_st_def)

lemma quiet_outcome_weaken: "quiet s s0 \<Longrightarrow> quiet_outcome s0 m \<Longrightarrow> quiet_outcome s m"
  by (cases m) (auto simp: quiet_outcome_def intro: quiet_trans)

lemma quiet_st_weaken: "quiet s s0 \<Longrightarrow> quiet_st s0 m \<Longrightarrow> quiet_st s m"
  by (cases m) (auto simp: quiet_st_def intro: quiet_trans)

lemma is_seq_simps [simp]:
  "is_seq (SeqEntry i)" "is_seq (SeqExit i)" "is_seq (SeqCancel i)"
  "\<not> is_seq (CbRefresh i)" "\<not> is_seq (CbHotplug i c)" "\<not> is_seq (DisplayCreate cls i sd)"
  "\<not> is_seq (DisplayDestroy cls i)" "\<not> is_seq DestroyCore" "\<not> is_seq (DisplayValidate i)"
  "\<not> is_seq (DisplayGetValidateOutput i)" "\<not> is_seq (DisplayPresent i)"
  "\<not> is_seq (DisplayActivate i b)" "\<not> is_seq (DisplaySetPowerMode i m)"
  "\<not> is_seq (DisplaySetVsync i)" "\<not> is_seq (DisplaySetState i b)" "\<not> is_seq (LayerMember i j)"
  "\<not> is_seq SignalIdle" "\<not> is_seq (SignalRefreshRate m v)"
  by (simp_all add: is_seq_def)

lemma quiet_Refresh: "quiet_st s (Refresh i s)"
  by (auto simp: Refresh_def callbacks_Refresh_def quiet_log_call)

lemma quiet_callbacks_Hotplug: "quiet s (snd (callbacks_Hotplug i c s))"
  by (auto simp: callbacks_Hotplug_def quiet_log_call)

lemma quiet_ActivateDisplay: "quiet s (ActivateDisplay i b s)"
  by (auto simp: ActivateDisplay_def quiet_log_call' quiet_set_display split: option.splits)

lemma quiet_NonBuiltinConcurrency: "quiet s (NonBuiltinConcurrency env i b s)"
  by (simp add: NonBuiltinConcurrency_def Let_def quiet_ActivateDisplay)

lemma quiet_HandleConcurrency: "quiet s (HandleConcurrency env i s)"
  by (auto simp: HandleConcurrency_def Let_def quiet_ActivateDisplay quiet_NonBuiltinConcurrency
      intro: quiet_trans [OF quiet_ActivateDisplay quiet_ActivateDisplay])

lemma quiet_HandleConcurrency': "quiet s s1 \<Longrightarrow> quiet s (HandleConcurrency env i s1)"
  by (blast intro: quiet_trans quiet_HandleConcurrency)

lemma client_id_Reset [simp]: "client_id (Reset m) = client_id m"
  by (simp add: Reset_def)

lemma quiet_DestroyNonPluggableDisplay: "quiet s (snd (DestroyNonPluggableDisplay m s))"
  by (auto simp: DestroyNonPluggableDisplay_def Let_def quiet_hdr quiet_log_call' quiet_set_display'
      split: option.splits)

lemma client_id_DestroyNonPluggableDisplay [simp]:
  "client_id (fst (DestroyNonPluggableDisplay m s)) = client_id m"
  by (auto simp: DestroyNonPluggableDisplay_def Let_def split: option.splits)

lemma quiet_DestroyPluggableDisplay: "quiet_outcome s (DestroyPluggableDisplay env m s)"
  unfolding DestroyPluggableDisplay_def Let_def
  apply (rule quiet_st_bind)
   apply (rule quiet_st_weaken [OF _ quiet_Refresh])
   apply (simp add: quiet_callbacks_Hotplug)
  apply (auto split: option.splits
      intro!: quiet_HandleConcurrency' quiet_set_display' quiet_log_call' quiet_hdr)
  done

lemma client_id_DestroyPluggableDisplay:
  "DestroyPluggableDisplay env m s = Return (m', s') \<Longrightarrow> client_id m' = client_id m"
  by (auto simp: DestroyPluggableDisplay_def Let_def andThen_Return_iff
      split: option.splits if_splits)

lemma quiet_DestroyDisplay: "quiet_outcome s (DestroyDisplay env m s)"
proof (cases "disp_type m = kPluggable")
  case True
  then show ?thesis by (simp add: DestroyDisplay_def quiet_DestroyPluggableDisplay)
next
  case False
  then have "DestroyDisplay env m s = Return (DestroyNonPluggableDisplay m s)"
    by (cases "disp_type m") (simp_all add: DestroyDisplay_def)
  then show ?thesis
    using quiet_DestroyNonPluggableDisplay [of s m]
    by (cases "DestroyNonPluggableDisplay m s") simp
qed

lemma client_id_DestroyDisplay:
  assumes "DestroyDisplay env m s = Return (m', s')"
  shows "client_id m' = client_id m"
proof (cases "disp_type m = kPluggable")
  case True
  then show ?thesis
    using assms by (simp add: DestroyDisplay_def client_id_DestroyPluggableDisplay)
next
  case False
  then have "DestroyDisplay env m s = Return (DestroyNonPluggableDisplay m s)"
    by (cases "disp_type m") (simp_all add: DestroyDisplay_def)
  then have "m' = fst (DestroyNonPluggableDisplay m s)" using assms by (metis fst_conv outcome.inject(1))
  then show ?thesis by simp
qed

lemma map_client_id_update:
  "client_id m' = client_id (xs ! i) \<Longrightarrow> map client_id (xs[i := m']) = map client_id xs"
  by (metis list_update_id map_update)

lemma quiet_pluggable_update:
  "quiet s s1 \<Longrightarrow> client_id m' = client_id (map_info_pluggable s1 ! i) \<Longrightarrow>
   quiet s (s1\<lparr>map_info_pluggable := (map_info_pluggable s1)[i := m']\<rparr>)"
  by (simp add: quiet_def client_ids_def map_client_id_update)

lemma quiet_builtin_update:
  "quiet s s1 \<Longrightarrow> client_id m' = client_id (map_info_builtin s1 ! i) \<Longrightarrow>
   quiet s (s1\<lparr>map_info_builtin := (map_info_builtin s1)[i := m']\<rparr>)"
  by (simp add: quiet_def client_ids_def map_client_id_update)

lemma quiet_virtual_update:
  "quiet s s1 \<Longrightarrow> client_id m' = client_id (map_info_virtual s1 ! i) \<Longrightarrow>
   quiet s (s1\<lparr>map_info_virtual := (map_info_virtual s1)[i := m']\<rparr>)"
  by (simp add: quiet_def client_ids_def map_client_id_update)

lemma map_eq_nth_client_id:
  assumes "map client_id xs = map client_id ys" "i < length ys"
  shows "client_id (xs ! i) = client_id (ys ! i)"
proof -
  have "length xs = length ys" using assms(1) by (metis length_map)
  then show ?thesis using assms by (metis nth_map)
qed

lemma quiet_pluggable_store:
  assumes "quiet s s1" "client_id m' = client_id (map_info_pluggable s ! i)"
  shows "quiet s (s1\<lparr>map_info_pluggable := (map_info_pluggable s1)[i := m']\<rparr>)"
proof (cases "i < length (map_info_pluggable s1)")
  case True
  have eq: "map client_id (map_info_pluggable s1) = map client_id (map_info_pluggable s)"
    using assms(1) by (simp add: quiet_def client_ids_def)
  then have "length (map_info_pluggable s1) = length (map_info_pluggable s)" by (metis length_map)
  with True eq have "client_id (map_info_pluggable s1 ! i) = client_id (map_info_pluggable s ! i)"
    by (intro map_eq_nth_client_id) auto
  then show ?thesis using assms by (intro quiet_pluggable_update) auto
next
  case False
  then have "(map_info_pluggable s1)[i := m'] = map_info_pluggable s1"
    by (simp add: list_update_beyond)
  then show ?thesis using assms(1) by (simp add: quiet_def client_ids_def)
qed

lemma quiet_HandleDisconnectedDisplays_slots:
  "quiet_st s (HandleDisconnectedDisplays_slots env infos idxs s)"
proof (induction idxs arbitrary: s)
  case Nil
  then show ?case by simp
next
  case (Cons i rest)
  show ?case
  proof (cases "disconnected_now infos (map_info_pluggable s ! i)")
    case False
    then show ?thesis using Cons.IH by simp
  next
    case True
    have "quiet_st s (andThen (DestroyDisplay env (map_info_pluggable s ! i) s) (\<lambda>(map_info, s1).
          HandleDisconnectedDisplays_slots env infos rest
            (s1\<lparr>map_info_pluggable := (map_info_pluggable s1)[i := map_info]\<rparr>)))"
    proof (rule quiet_outcome_bind_st [OF quiet_DestroyDisplay])
      fix x s1
      assume r: "DestroyDisplay env (map_info_pluggable s ! i) s = Return (x, s1)" and q: "quiet s s1"
      have "client_id x = client_id (map_info_pluggable s ! i)"
        using r by (rule client_id_DestroyDisplay)
      then have "quiet s (s1\<lparr>map_info_pluggable := (map_info_pluggable s1)[i := x]\<rparr>)"
        using q by (intro quiet_pluggable_store)
      then show "quiet_st s (case (x, s1) of (map_info, s1) \<Rightarrow>
          HandleDisconnectedDisplays_slots env infos rest
            (s1\<lparr>map_info_pluggable := (map_info_pluggable s1)[i := map_info]\<rparr>))"
        using Cons.IH by (auto intro: quiet_st_weaken)
    qed
    then show ?thesis using True by simp
  qed
qed

lemma quiet_HandleDisconnectedDisplays: "quiet_outcome s (HandleDisconnectedDisplays env infos s)"
  unfolding HandleDisconnectedDisplays_def
proof (rule quiet_st_bind)
  show "quiet_st s (if pluggable_is_primary s \<and> disconnected_now infos (map_info_primary s)
       then andThen (DestroyDisplay env (map_info_primary s) s) (\<lambda>(map_info, s1). Return s1)
       else Return s)"
    by (auto intro!: quiet_outcome_bind_st [OF quiet_DestroyDisplay])
next
  fix s1 assume q: "quiet s s1"
  show "quiet_outcome s (andThen
          (HandleDisconnectedDisplays_slots env infos [0..<length (map_info_pluggable s1)] s1)
          (\<lambda>s2. Return (0, s2)))"
    by (rule quiet_st_bind [OF quiet_st_weaken [OF q quiet_HandleDisconnectedDisplays_slots]]) simp
qed

lemma log_call_fields [simp]:
  "hwc_display (log_call c s) = hwc_display s"
  "is_hdr_display (log_call c s) = is_hdr_display s"
  "map_info_primary (log_call c s) = map_info_primary s"
  "map_info_builtin (log_call c s) = map_info_builtin s"
  "map_info_pluggable (log_call c s) = map_info_pluggable s"
  "map_info_virtual (log_call c s) = map_info_virtual s"
  "reset_panel (log_call c s) = reset_panel s"
  "primary_ready (log_call c s) = primary_ready s"
  "client_connected (log_call c s) = client_connected s"
  "need_invalidate (log_call c s) = need_invalidate s"
  "pluggable_is_primary (log_call c s) = pluggable_is_primary s"
  "null_display_active (log_call c s) = null_display_active s"
  "color_mgr (log_call c s) = color_mgr s"
  "hpd_bpp (log_call c s) = hpd_bpp s"
  "hpd_pattern (log_call c s) = hpd_pattern s"
  "pending_refresh (log_call c s) = pending_refresh s"
  "sequence_wait (log_call c s) = sequence_wait s"
  "callbacks_refresh (log_call c s) = callbacks_refresh s"
  "callbacks_hotplug (log_call c s) = callbacks_hotplug s"
  "callbacks_needs_refresh (log_call c s) = callbacks_needs_refresh s"
  "trace (log_call c s) = trace s @ [c]"
  by (simp_all add: log_call_def)

lemma set_display_fields [simp]:
  "hwc_display (set_display i d s) = (hwc_display s)(i := d)"
  "is_hdr_display (set_display i d s) = is_hdr_display s"
  "map_info_primary (set_display i d s) = map_info_primary s"
  "map_info_builtin (set_display i d s) = map_info_builtin s"
  "map_info_pluggable (set_display i d s) = map_info_pluggable s"
  "map_info_virtual (set_display i d s) = map_info_virtual s"
  "reset_panel (set_display i d s) = reset_panel s"
  "primary_ready (set_display i d s) = primary_ready s"
  "client_connected (set_display i d s) = client_connected s"
  "need_invalidate (set_display i d s) = need_invalidate s"
  "pluggable_is_primary (set_display i d s) = pluggable_is_primary s"
  "null_display_active (set_display i d s) = null_display_active s"
  "color_mgr (set_display i d s) = color_mgr s"
  "hpd_bpp (set_display i d s) = hpd_bpp s"
  "hpd_pattern (set_display i d s) = hpd_pattern s"
  "pending_refresh (set_display i d s) = pending_refresh s"
  "sequence_wait (set_display i d s) = sequence_wait s"
  "callbacks_refresh (set_display i d s) = callbacks_refresh s"
  "callbacks_hotplug (set_display i d s) = callbacks_hotplug s"
  "callbacks_needs_refresh (set_display i d s) = callbacks_needs_refresh s"
  "trace (set_display i d s) = trace s"
  by (simp_all add: set_display_def)


lemma quiet_HandleConnectedDisplays_primary:
  "quiet_outcome s (HandleConnectedDisplays_primary env info s)"
  unfolding HandleConnectedDisplays_primary_def Let_def
  by (auto split: option.splits prod.splits if_splits
      intro!: quiet_st_bind [OF quiet_st_weaken [OF _ quiet_Refresh]]
              quiet_set_display' quiet_log_call' quiet_hdr)

lemma quiet_HandleConnectedDisplays_slot:
  "quiet s (snd (HandleConnectedDisplays_slot env info s))"
proof (cases "find (\<lambda>i. hwc_display s (client_id (map_info_pluggable s ! i)) = None)
                [0..<length (map_info_pluggable s)]")
  case None
  then show ?thesis by (simp add: HandleConnectedDisplays_slot_def)
next
  case (Some i)
  define map_info where "map_info = map_info_pluggable s ! i"
  define cid where "cid = client_id map_info"
  define tp where "tp = (0 < hpd_bpp s \<and> 0 < hpd_pattern s)"
  define s1 where
    "s1 = s\<lparr>map_info_pluggable := (map_info_pluggable s)[i := map_info\<lparr>test_pattern := tp\<rparr>]\<rparr>"
  define cls where "cls = (if \<not> tp then HWCDisplayPluggable else HWCDisplayPluggableTest)"
  obtain status d where cr: "Display_Create env cls cid (display_id info) = (status, d)"
    by (cases "Display_Create env cls cid (display_id info)")
  define s2 where "s2 = log_call (DisplayCreate cls cid (display_id info)) (set_display cid (Some d) s1)"
  define s3 where "s3 = s2\<lparr>is_hdr_display := (is_hdr_display s2)(cid := HasHDRSupport env d)\<rparr>"
  define s4 where "s4 = s3\<lparr>map_info_pluggable :=
                             (map_info_pluggable s3)[i := (map_info_pluggable s3 ! i)
                                \<lparr>disp_type := display_type info, sdm_id := display_id info\<rparr>]\<rparr>"
  have q1: "quiet s s1"
    unfolding s1_def by (rule quiet_pluggable_update) (simp_all add: map_info_def)
  have q2: "quiet s s2"
    unfolding s2_def by (intro quiet_log_call' quiet_set_display' q1) simp
  have q3: "quiet s s3" unfolding s3_def by (rule quiet_hdr [OF q2])
  have q4: "quiet s s4" unfolding s4_def by (rule quiet_pluggable_update [OF q3]) simp
  have res: "HandleConnectedDisplays_slot env info s =
      (if status \<noteq> 0 then (Inl status, log_call (DisplayCreate cls cid (display_id info)) s1)
       else (Inr (Some cid), HandleConcurrency env cid s4))"
    using Some cr
    unfolding HandleConnectedDisplays_slot_def s4_def s3_def s2_def s1_def cls_def tp_def cid_def
      map_info_def
    by (simp add: Let_def)
  show ?thesis
    unfolding res using q1 q4 by (auto intro!: quiet_log_call' quiet_HandleConcurrency')
qed

lemma quiet_HandleConnectedDisplays_scan:
  "quiet_outcome s (HandleConnectedDisplays_scan env infos pending s)"
proof (induction infos arbitrary: pending s)
  case Nil
  then show ?case by simp
next
  case (Cons info rest)
  have head: "quiet_outcome s (if pluggable_is_primary s
        then HandleConnectedDisplays_primary env info s else Return (None, s))"
    by (simp add: quiet_HandleConnectedDisplays_primary)
  show ?case
    unfolding HandleConnectedDisplays_scan.simps
  proof (rule quiet_outcome_bind [OF head])
    fix early s1
    assume q: "quiet s s1"
    have slot: "quiet s1 (snd (HandleConnectedDisplays_slot env info s1))"
      by (rule quiet_HandleConnectedDisplays_slot)
    show "quiet_outcome s (case (early, s1) of (early, s1) \<Rightarrow>
          case early of
            Some status \<Rightarrow> Return (Inl status, s1)
          | None \<Rightarrow>
              if \<not> pluggable_is_primary s1 \<and>
                 (is_primary info \<or> display_type info \<noteq> kPluggable \<or> \<not> is_connected info)
              then HandleConnectedDisplays_scan env rest pending s1
              else
                (case HandleConnectedDisplays_slot env info s1 of
                   (Inl status, s2) \<Rightarrow> Return (Inl status, s2)
                 | (Inr None, s2) \<Rightarrow> HandleConnectedDisplays_scan env rest pending s2
                 | (Inr (Some cid), s2) \<Rightarrow>
                     HandleConnectedDisplays_scan env rest (pending @ [cid]) s2))"
      using q slot Cons.IH
      by (auto split: option.splits prod.splits sum.splits
          intro: quiet_outcome_weaken quiet_trans)
  qed
qed

lemma quiet_HandleConnectedDisplays_notify:
  "quiet s (HandleConnectedDisplays_notify env cids s)"
proof (induction cids arbitrary: s)
  case Nil
  then show ?case by simp
next
  case (Cons cid rest)
  have "quiet s (HandleConcurrency env cid (snd (callbacks_Hotplug cid Connected s)))"
    by (intro quiet_HandleConcurrency' quiet_callbacks_Hotplug)
  then show ?case using Cons.IH by (auto intro: quiet_trans)
qed

lemma quiet_HandleConnectedDisplays_notify':
  "quiet s s1 \<Longrightarrow> quiet s (HandleConnectedDisplays_notify env cids s1)"
  by (blast intro: quiet_trans quiet_HandleConnectedDisplays_notify)

lemma quiet_HandleConnectedDisplays:
  "quiet_outcome s (HandleConnectedDisplays env infos delay s)"
  unfolding HandleConnectedDisplays_def
proof (rule quiet_outcome_bind [OF quiet_HandleConnectedDisplays_scan])
  fix r s1
  assume q: "quiet s s1"
  show "quiet_outcome s (case (r, s1) of (r, s1) \<Rightarrow>
       case r of
         Inl status \<Rightarrow> Return (status, s1)
       | Inr pending_hotplugs \<Rightarrow>
           if pending_hotplugs = [] then Return (0, s1)
           else
             (case hwc_display s1 0 of
                None \<Rightarrow> Fault
              | Some p \<Rightarrow>
                  andThen (Refresh 0 (set_display 0 (Some (ResetValidation p)) s1))
                    (\<lambda>s2. Return (0, HandleConnectedDisplays_notify env pending_hotplugs s2))))"
    using q
    by (auto split: sum.splits option.splits
        intro!: quiet_st_bind [OF quiet_st_weaken [OF _ quiet_Refresh]] quiet_set_display'
        intro: quiet_HandleConnectedDisplays_notify')
qed

lemma quiet_CreatePluggableDisplays:
  "quiet_outcome s (CreatePluggableDisplays env delay s)"
  unfolding CreatePluggableDisplays_def
  by (auto split: option.splits intro!: quiet_log_call' quiet_log_call
      quiet_outcome_bind [OF quiet_HandleDisconnectedDisplays]
      quiet_outcome_bind [OF quiet_outcome_weaken [OF _ quiet_HandleConnectedDisplays]])


section \<open>Validate and present: what they leave alone, and that they return\<close>

lemma quiet_reset_panel: "quiet s s1 \<Longrightarrow> quiet s (s1\<lparr>reset_panel := b\<rparr>)"
  by (simp add: quiet_def client_ids_def)

lemma quiet_need_invalidate: "quiet s s1 \<Longrightarrow> quiet s (s1\<lparr>need_invalidate := b\<rparr>)"
  by (simp add: quiet_def client_ids_def)

lemma quiet_ResetPanel: "quiet_st s (ResetPanel env s)"
  by (auto simp: ResetPanel_def Let_def split: option.splits
      intro!: quiet_reset_panel quiet_log_call' quiet_set_display')

lemma ResetPanel_returns:
  assumes "hwc_display s 0 = Some d"
  shows "\<exists>s1 d1. ResetPanel env s = Return s1 \<and> hwc_display s1 0 = Some d1 \<and>
           (\<forall>i. i \<noteq> 0 \<longrightarrow> hwc_display s1 i = hwc_display s i) \<and>
           need_invalidate s1 = need_invalidate s \<and> color_mgr s1 = color_mgr s"
  using assms by (simp add: ResetPanel_def Let_def)

lemma quiet_ValidateDisplayInternal_primary:
  "quiet_st s (ValidateDisplayInternal_primary env display s)"
  unfolding ValidateDisplayInternal_primary_def
  by (auto split: option.splits
      intro!: quiet_st_bind_st [OF quiet_ResetPanel] quiet_st_bind_st
              quiet_st_weaken [OF _ quiet_Refresh] quiet_need_invalidate quiet_set_display')

lemma quiet_Validate_call: "quiet_outcome s (Validate_call env display s)"
  by (auto simp: Validate_call_def split: option.splits prod.splits
      intro!: quiet_log_call' quiet_set_display')

lemma quiet_ValidateDisplayInternal: "quiet_outcome s (ValidateDisplayInternal env display s)"
  unfolding ValidateDisplayInternal_def
  by (auto split: option.splits intro!: quiet_log_call
      quiet_st_bind [OF quiet_ValidateDisplayInternal_primary]
      quiet_outcome_weaken [OF _ quiet_Validate_call] quiet_Validate_call)

lemma quiet_Present_call: "quiet_outcome s (Present_call env display s)"
  by (auto simp: Present_call_def split: option.splits prod.splits
      intro!: quiet_log_call' quiet_set_display')

lemma quiet_PresentDisplayInternal: "quiet_outcome s (PresentDisplayInternal env display s)"
  unfolding PresentDisplayInternal_def
  by (auto split: option.splits prod.splits
      intro!: quiet_outcome_bind [OF quiet_ValidateDisplayInternal] quiet_set_display'
              quiet_outcome_weaken [OF _ quiet_Present_call] quiet_Present_call)

lemma ValidateDisplayInternal_primary_returns:
  assumes "hwc_display s 0 = Some d" "callbacks_refresh s \<or> \<not> need_invalidate s"
  shows "\<exists>s1 d1. ValidateDisplayInternal_primary env 0 s = Return s1 \<and> hwc_display s1 0 = Some d1"
proof -
  obtain s1 d1 where a: "(if reset_panel s then ResetPanel env s else Return s) = Return s1"
    "hwc_display s1 0 = Some d1" "need_invalidate s1 = need_invalidate s"
    using ResetPanel_returns [OF assms(1), of env] assms(1) by (cases "reset_panel s") auto
  have "quiet_st s (if reset_panel s then ResetPanel env s else Return s)"
    by (simp add: quiet_ResetPanel)
  then have cb: "callbacks_refresh s1 = callbacks_refresh s"
    using a(1) by (simp add: quiet_def)
  obtain s2 d2 where b: "(if need_invalidate s1 then
                  andThen (Refresh 0 s1) (\<lambda>s2. Return (s2\<lparr>need_invalidate := False\<rparr>))
                else Return s1) = Return s2" "hwc_display s2 0 = Some d2"
    using a(2,3) cb assms(2) by (cases "need_invalidate s1") (auto simp: Refresh_registered)
  show ?thesis
    unfolding ValidateDisplayInternal_primary_def using a(1) b by simp
qed

lemma ValidateDisplayInternal_returns:
  assumes "hwc_display s display = Some d"
    "callbacks_refresh s \<or> \<not> need_invalidate s \<or> display \<noteq> 0"
  shows "\<exists>res s1 d1. ValidateDisplayInternal env display s = Return (res, s1) \<and>
           hwc_display s1 display = Some d1"
proof (cases "IsInternalValidateState d")
  case True
  then have "ValidateDisplayInternal env display s =
      Return (Display_GetValidateDisplayOutput env d, log_call (DisplayGetValidateOutput display) s)"
    using assms(1) by (simp add: ValidateDisplayInternal_def)
  moreover have "hwc_display (log_call (DisplayGetValidateOutput display) s) display = Some d"
    using assms(1) by simp
  ultimately show ?thesis by blast
next
  case False
  obtain s1 d1 where a: "(if display = 0 then ValidateDisplayInternal_primary env display s
      else Return s) = Return s1" "hwc_display s1 display = Some d1"
    using ValidateDisplayInternal_primary_returns [of s d env] assms
    by (cases "display = 0") auto
  obtain res d2 where "Display_Validate env d1 = (res, d2)"
    by (cases "Display_Validate env d1")
  then show ?thesis
    unfolding ValidateDisplayInternal_def using assms(1) False a
    by (simp add: Validate_call_def) (metis prod_cases3)
qed

lemma Present_call_returns:
  assumes "hwc_display s display = Some d"
  shows "\<exists>r s1 d1. Present_call env display s = Return (r, s1) \<and> hwc_display s1 display = Some d1"
  using assms by (cases "Display_Present env d") (simp add: Present_call_def)

lemma PresentDisplayInternal_returns:
  assumes "hwc_display s display = Some d"
    "callbacks_refresh s \<or> \<not> need_invalidate s \<or> display \<noteq> 0"
  shows "\<exists>r s1 d1. PresentDisplayInternal env display s = Return (r, s1) \<and>
           hwc_display s1 display = Some d1"
proof (cases "IsSkipValidateState d \<and> \<not> Display_CanSkipValidate env d")
  case False
  then show ?thesis
    using assms(1) Present_call_returns [OF assms(1), of env]
    by (auto simp: PresentDisplayInternal_def)
next
  case True
  obtain res s1 d1 where v: "ValidateDisplayInternal env display s = Return (res, s1)"
    "hwc_display s1 display = Some d1"
    using ValidateDisplayInternal_returns [OF assms] by blast
  obtain error out_num where res: "res = (error, out_num)" by (cases res)
  show ?thesis
    using assms(1) True v res Present_call_returns [OF v(2), of env]
    by (auto simp: PresentDisplayInternal_def)
qed

lemma seq_fields [simp]:
  "hwc_display (SEQUENCE_EXIT_SCOPE_LOCK i s) = hwc_display s"
  "hwc_display (SEQUENCE_ENTRY_SCOPE_LOCK i s) = hwc_display s"
  "hwc_display (SEQUENCE_CANCEL_SCOPE_LOCK i s) = hwc_display s"
  "pending_refresh (SEQUENCE_EXIT_SCOPE_LOCK i s) = pending_refresh s"
  "pending_refresh (SEQUENCE_ENTRY_SCOPE_LOCK i s) = pending_refresh s"
  "pending_refresh (SEQUENCE_CANCEL_SCOPE_LOCK i s) = pending_refresh s"
  "callbacks_refresh (SEQUENCE_EXIT_SCOPE_LOCK i s) = callbacks_refresh s"
  "callbacks_refresh (SEQUENCE_ENTRY_SCOPE_LOCK i s) = callbacks_refresh s"
  "callbacks_refresh (SEQUENCE_CANCEL_SCOPE_LOCK i s) = callbacks_refresh s"
  "primary_ready (SEQUENCE_EXIT_SCOPE_LOCK i s) = primary_ready s"
  "primary_ready (SEQUENCE_ENTRY_SCOPE_LOCK i s) = primary_ready s"
  "primary_ready (SEQUENCE_CANCEL_SCOPE_LOCK i s) = primary_ready s"
  "need_invalidate (SEQUENCE_EXIT_SCOPE_LOCK i s) = need_invalidate s"
  "need_invalidate (SEQUENCE_ENTRY_SCOPE_LOCK i s) = need_invalidate s"
  "need_invalidate (SEQUENCE_CANCEL_SCOPE_LOCK i s) = need_invalidate s"
  "callbacks_needs_refresh (SEQUENCE_EXIT_SCOPE_LOCK i s) = callbacks_needs_refresh s"
  "trace (SEQUENCE_EXIT_SCOPE_LOCK i s) = trace s @ [SeqExit i]"
  "trace (SEQUENCE_ENTRY_SCOPE_LOCK i s) = trace s @ [SeqEntry i]"
  "trace (SEQUENCE_CANCEL_SCOPE_LOCK i s) = trace s @ [SeqCancel i]"
  "sequence_wait (SEQUENCE_EXIT_SCOPE_LOCK i s) = (sequence_wait s)(i := False)"
  "sequence_wait (SEQUENCE_ENTRY_SCOPE_LOCK i s) = (sequence_wait s)(i := True)"
  "sequence_wait (SEQUENCE_CANCEL_SCOPE_LOCK i s) = (sequence_wait s)(i := False)"
  by (simp_all add: SEQUENCE_EXIT_SCOPE_LOCK_def SEQUENCE_ENTRY_SCOPE_LOCK_def
      SEQUENCE_CANCEL_SCOPE_LOCK_def)

lemma PresentDisplay_entry_fields [simp]:
  "pending_refresh (PresentDisplay_entry display s) = pending_refresh s"
  "callbacks_refresh (PresentDisplay_entry display s) = callbacks_refresh s"
  "primary_ready (PresentDisplay_entry display s) = primary_ready s"
  "need_invalidate (PresentDisplay_entry display s) = need_invalidate s"
  "trace (PresentDisplay_entry display s) = trace s @ [SeqExit display]"
  "sequence_wait (PresentDisplay_entry display s) = (sequence_wait s)(display := False)"
  by (simp_all add: PresentDisplay_entry_def Let_def split: option.splits)

lemma PresentDisplay_entry_display:
  "hwc_display s display = Some d \<Longrightarrow>
   hwc_display (PresentDisplay_entry display s) display =
     Some (if callbacks_needs_refresh s display then SetPendingRefresh d else d)"
  by (simp add: PresentDisplay_entry_def Let_def)

lemma PresentDisplay_exit_fields [simp]:
  "pending_refresh (PresentDisplay_exit display status s) = pending_refresh s"
  "callbacks_refresh (PresentDisplay_exit display status s) = callbacks_refresh s"
  "primary_ready (PresentDisplay_exit display status s) = primary_ready s"
  "hwc_display (PresentDisplay_exit display status s) = hwc_display s"
  by (simp_all add: PresentDisplay_exit_def)

lemma PresentDisplay_shape:
  assumes k: "display < kNumDisplays env" and d: "hwc_display s display = Some d"
    and r: "primary_ready s \<or> display \<noteq> 0"
    and p: "PresentDisplayInternal env display (PresentDisplay_entry display s) =
              Return ((status, fence), s3)"
  shows "PresentDisplay env True display True s =
           andThen (HandlePendingRefresh env (PresentDisplay_exit display status s3))
             (\<lambda>s9. Return ((status, fence), s9))"
proof -
  have "quiet (PresentDisplay_entry display s) s3"
    using quiet_PresentDisplayInternal [of "PresentDisplay_entry display s" env display] p
    by simp
  then have pr: "primary_ready s3 = primary_ready s" by (simp add: quiet_def)
  show ?thesis
    using k d r p pr
    unfolding PresentDisplay_def
    by (auto simp: Let_def PresentDisplay_entry_def PresentDisplay_exit_def
        PresentDisplay_locked_def PresentDisplay_connections_def)
qed


section \<open>Slots, client ids and sequence locks across the operations\<close>

lemma quiet_client_ids: "quiet s s' \<Longrightarrow> client_ids s' = client_ids s"
  by (simp add: quiet_def)

lemma occupied_ActivateDisplay [simp]:
  "(hwc_display (ActivateDisplay i b s) j = None) = (hwc_display s j = None)"
  by (auto simp: ActivateDisplay_def split: option.splits)

lemma occupied_NonBuiltinConcurrency [simp]:
  "(hwc_display (NonBuiltinConcurrency env i b s) j = None) = (hwc_display s j = None)"
  by (simp add: NonBuiltinConcurrency_def Let_def)

lemma occupied_HandleConcurrency [simp]:
  "(hwc_display (HandleConcurrency env i s) j = None) = (hwc_display s j = None)"
  by (simp add: HandleConcurrency_def Let_def)

lemma DestroyNonPluggableDisplay_resets:
  "hwc_display s (client_id m) \<noteq> None \<Longrightarrow>
   fst (DestroyNonPluggableDisplay m s) = Reset m \<and>
   hwc_display (snd (DestroyNonPluggableDisplay m s)) (client_id m) = None"
  by (auto simp: DestroyNonPluggableDisplay_def Let_def)

lemma DestroyNonPluggableDisplay_unoccupied:
  "hwc_display s (client_id m) = None \<Longrightarrow> DestroyNonPluggableDisplay m s = (m, s)"
  by (simp add: DestroyNonPluggableDisplay_def Let_def)

lemma callbacks_Hotplug_display [simp]:
  "hwc_display (snd (callbacks_Hotplug i c s)) = hwc_display s"
  "pluggable_is_primary (snd (callbacks_Hotplug i c s)) = pluggable_is_primary s"
  "callbacks_refresh (snd (callbacks_Hotplug i c s)) = callbacks_refresh s"
  by (simp_all add: callbacks_Hotplug_def)

lemma DestroyPluggableDisplay_resets:
  assumes "hwc_display s (client_id m) \<noteq> None" "\<not> pluggable_is_primary s" "callbacks_refresh s"
  shows "\<exists>s'. DestroyPluggableDisplay env m s = Return (Reset m, s') \<and>
              hwc_display s' (client_id m) = None"
  using assms
  by (auto simp: DestroyPluggableDisplay_def Let_def Refresh_registered)

lemma DestroyPluggableDisplay_primary_kept:
  assumes "DestroyPluggableDisplay env m s = Return (m', s')" "pluggable_is_primary s"
  shows "m' = m \<and> (hwc_display s' (client_id m) = None) = (hwc_display s (client_id m) = None)"
  using assms
  by (auto simp: DestroyPluggableDisplay_def Let_def andThen_Return_iff Refresh_Return_iff
      split: option.splits if_splits)

lemma quiet_HandleBuiltInDisplays_loop: "quiet s (HandleBuiltInDisplays_loop env infos idx s)"
proof (induction infos arbitrary: idx s)
  case Nil
  then show ?case by simp
next
  case (Cons info rest)
  show ?case
  proof (cases "is_primary info \<or> display_type info \<noteq> kBuiltIn \<or> \<not> is_connected info")
    case True
    then show ?thesis using Cons.IH by simp
  next
    case False
    show ?thesis
    proof (cases "length (map_info_builtin s) \<le> idx")
      case True
      then show ?thesis using False by simp
    next
      case inrange: False
      define cid where "cid = client_id (map_info_builtin s ! idx)"
      obtain status d where cr: "Display_Create env HWCDisplayBuiltIn cid (display_id info) = (status, d)"
        by (cases "Display_Create env HWCDisplayBuiltIn cid (display_id info)")
      define s1 where "s1 = log_call (DisplayCreate HWCDisplayBuiltIn cid (display_id info))
                         (set_display cid (Some d) s)"
      define s2 where "s2 = s1\<lparr>map_info_builtin := (map_info_builtin s1)[idx := (map_info_builtin s ! idx)
                            \<lparr>disp_type := display_type info, sdm_id := display_id info\<rparr>]\<rparr>"
      have q1: "quiet s s1" unfolding s1_def by (intro quiet_log_call' quiet_set_display) simp
      have q2: "quiet s s2" unfolding s2_def
        by (rule quiet_builtin_update [OF q1]) (simp add: s1_def)
      have res: "HandleBuiltInDisplays_loop env (info # rest) idx s =
          (if status \<noteq> 0 then log_call (DisplayCreate HWCDisplayBuiltIn cid (display_id info)) s
           else HandleBuiltInDisplays_loop env rest (idx + 1 + 1) s2)"
        using False inrange cr unfolding s2_def s1_def cid_def by (simp add: Let_def)
      show ?thesis
        unfolding res using q2 Cons.IH [of s2 "idx + 1 + 1"]
        by (auto intro: quiet_trans quiet_log_call)
    qed
  qed
qed

lemma quiet_HandleBuiltInDisplays: "quiet s (HandleBuiltInDisplays env s)"
  by (simp add: HandleBuiltInDisplays_def quiet_HandleBuiltInDisplays_loop split: option.splits)

lemma client_ids_CreatePrimaryDisplay:
  "client_ids (snd (CreatePrimaryDisplay env s)) = client_ids s"
  by (auto simp: CreatePrimaryDisplay_def Let_def client_ids_def
      split: option.splits prod.splits)

lemma quiet_CreateVirtualDisplayObj_scan:
  "quiet s (snd (CreateVirtualDisplayObj_scan env infos out s))"
proof (induction infos arbitrary: out s)
  case Nil
  then show ?case by simp
next
  case (Cons info rest)
  show ?case
  proof (cases "display_type info \<noteq> kVirtual")
    case True
    then show ?thesis using Cons.IH by simp
  next
    case False
    show ?thesis
    proof (cases "find (\<lambda>i. hwc_display s (client_id (map_info_virtual s ! i)) = None)
                  [0..<length (map_info_virtual s)]")
      case None
      then show ?thesis using False Cons.IH by simp
    next
      case (Some i)
      define cid where "cid = client_id (map_info_virtual s ! i)"
      obtain status d where cr: "Display_Create env HWCDisplayVirtual cid (display_id info) = (status, d)"
        by (cases "Display_Create env HWCDisplayVirtual cid (display_id info)")
      define s1 where "s1 = log_call (DisplayCreate HWCDisplayVirtual cid (display_id info))
                             (set_display cid (Some d) s)"
      define s2 where "s2 = s1\<lparr>is_hdr_display := (is_hdr_display s1)(cid := HasHDRSupport env d)\<rparr>"
      define s3 where "s3 = s2\<lparr>map_info_virtual := (map_info_virtual s2)[i := (map_info_virtual s2 ! i)
                                \<lparr>disp_type := display_type info, sdm_id := display_id info\<rparr>]\<rparr>"
      have q1: "quiet s s1" unfolding s1_def by (intro quiet_log_call' quiet_set_display) simp
      have q2: "quiet s s2" unfolding s2_def by (rule quiet_hdr [OF q1])
      have q3: "quiet s s3" unfolding s3_def by (rule quiet_virtual_update [OF q2]) simp
      have res: "CreateVirtualDisplayObj_scan env (info # rest) out s =
          (if status \<noteq> 0 then
             (Inl Error_BadDisplay, log_call (DisplayCreate HWCDisplayVirtual cid (display_id info)) s)
           else CreateVirtualDisplayObj_scan env rest (Some cid) s3)"
        using False Some cr unfolding s3_def s2_def s1_def cid_def by (simp add: Let_def)
      show ?thesis
        unfolding res using q3 Cons.IH [of s3 "Some cid"]
        by (auto intro: quiet_trans quiet_log_call)
    qed
  qed
qed

lemma quiet_SEQUENCE_WAIT: "quiet_st s (SEQUENCE_WAIT_SCOPE_LOCK i s)"
  by (simp add: SEQUENCE_WAIT_SCOPE_LOCK_def)

lemma quiet_CreateVirtualDisplayObj: "quiet_outcome s (CreateVirtualDisplayObj env s)"
proof -
  have scan: "\<And>infos x s1. CreateVirtualDisplayObj_scan env infos None s = (x, s1) \<Longrightarrow> quiet s s1"
    using quiet_CreateVirtualDisplayObj_scan [of s env _ None] by (metis snd_conv)
  show ?thesis
    unfolding CreateVirtualDisplayObj_def
    by (auto split: option.splits prod.splits sum.splits dest!: scan
        intro!: quiet_st_bind [OF quiet_st_weaken [OF _ quiet_SEQUENCE_WAIT]] quiet_set_display')
qed

lemma calm_refl [simp]: "calm s s"
  by (simp add: calm_def)

lemma calm_trans: "calm s s1 \<Longrightarrow> calm s1 s2 \<Longrightarrow> calm s s2"
  by (simp add: calm_def)

lemma quiet_calm: "quiet s s' \<Longrightarrow> calm s s'"
  by (auto simp: quiet_def calm_def list_all_iff filter_empty_conv)

lemma calm_log_call: "\<not> is_seq c \<Longrightarrow> calm s (log_call c s)"
  by (simp add: calm_def client_ids_def)

lemma calm_HandlePendingRefresh:
  "HandlePendingRefresh env s = Return s' \<Longrightarrow> calm s s' \<and> hwc_display s' = hwc_display s"
  by (auto simp: HandlePendingRefresh_def andThen_Return_iff Refresh_Return_iff calm_def
      client_ids_def split: if_splits option.splits)

lemma HandlePendingRefresh_returns:
  "callbacks_refresh s \<Longrightarrow> \<exists>s'. HandlePendingRefresh env s = Return s'"
  by (auto simp: HandlePendingRefresh_def Refresh_registered split: option.splits)

lemma calm_SEQUENCE:
  "calm s s1 \<Longrightarrow> sequence_wait (SEQUENCE_CANCEL_SCOPE_LOCK i s1) = (sequence_wait s)(i := False)"
  "calm s s1 \<Longrightarrow> client_ids (SEQUENCE_CANCEL_SCOPE_LOCK i s1) = client_ids s"
  "calm s s1 \<Longrightarrow> filter is_seq (trace (SEQUENCE_CANCEL_SCOPE_LOCK i s1)) =
      filter is_seq (trace s) @ [SeqCancel i]"
  by (simp_all add: calm_def client_ids_def SEQUENCE_CANCEL_SCOPE_LOCK_def log_call_def)

lemma seq_client_ids [simp]:
  "client_ids (SEQUENCE_EXIT_SCOPE_LOCK i s) = client_ids s"
  "client_ids (SEQUENCE_ENTRY_SCOPE_LOCK i s) = client_ids s"
  "client_ids (SEQUENCE_CANCEL_SCOPE_LOCK i s) = client_ids s"
  "client_ids (log_call c s) = client_ids s"
  "client_ids (set_display j d s) = client_ids s"
  by (simp_all add: client_ids_def SEQUENCE_EXIT_SCOPE_LOCK_def SEQUENCE_ENTRY_SCOPE_LOCK_def
      SEQUENCE_CANCEL_SCOPE_LOCK_def)

text \<open>The three facts of a top-level call on slot \<open>i\<close>: lock flag, client ids, lock calls.\<close>

lemma ValidateDisplay_locks:
  assumes "ValidateDisplay env True display s = Return ((status, out), s')"
    and "display < kNumDisplays env"
  shows "sequence_wait s' =
           (sequence_wait s)(display := (status = Error_None \<or> status = Error_HasChanges)) \<and>
         client_ids s' = client_ids s \<and>
         filter is_seq (trace s') = filter is_seq (trace s) @ SeqEntry display #
           (if status \<noteq> Error_None \<and> status \<noteq> Error_HasChanges then [SeqCancel display] else [])"
proof -
  let ?e = "SEQUENCE_ENTRY_SCOPE_LOCK display s"
  let ?m = "case hwc_display ?e display of
        None \<Rightarrow> Return ((Error_BadDisplay, None), ?e)
      | Some d \<Rightarrow> andThen (ValidateDisplayInternal env display ?e)
                   (\<lambda>((status, out_num), s2). Return ((status, Some out_num), s2))"
  let ?f = "\<lambda>((status, out), s2).
             if status \<noteq> Error_None \<and> status \<noteq> Error_HasChanges then
               Return ((status, out), SEQUENCE_CANCEL_SCOPE_LOCK display s2)
             else Return ((status, out), s2)"
  have eq: "ValidateDisplay env True display s = andThen ?m ?f"
    using assms(2) by (simp add: ValidateDisplay_def Let_def)
  have "andThen ?m ?f = Return ((status, out), s')"
    unfolding eq [symmetric] by (rule assms(1))
  then have "\<exists>x. ?m = Return x \<and> ?f x = Return ((status, out), s')"
    by (rule iffD1 [OF andThen_Return_iff])
  then obtain x where mx: "?m = Return x" and fx: "?f x = Return ((status, out), s')"
    by blast
  obtain st ou s2 where x: "x = ((st, ou), s2)" by (metis prod.exhaust)
  have st: "st = status" "ou = out" and
    fin: "s' = (if status \<noteq> Error_None \<and> status \<noteq> Error_HasChanges
                    then SEQUENCE_CANCEL_SCOPE_LOCK display s2 else s2)"
    using fx unfolding x by (auto split: if_splits)
  have inner: "?m = Return ((status, out), s2)" using mx x st by simp
  have "quiet ?e s2"
  proof (cases "hwc_display ?e display")
    case None
    then show ?thesis using inner by simp
  next
    case (Some d)
    then obtain r where "ValidateDisplayInternal env display ?e = Return (r, s2)"
      using inner by (auto simp: andThen_Return_iff)
    then show ?thesis using quiet_ValidateDisplayInternal [of ?e env display] by simp
  qed
  then have c: "sequence_wait s2 = (sequence_wait s)(display := True)"
    "client_ids s2 = client_ids s"
    "filter is_seq (trace s2) = filter is_seq (trace s) @ [SeqEntry display]"
    using quiet_calm [of ?e s2] by (simp_all add: calm_def)
  show ?thesis
    unfolding fin using c by auto
qed

lemma ValidateDisplay_returns:
  assumes "callbacks_refresh s"
  shows "\<exists>res s'. ValidateDisplay env device display s = Return (res, s')"
proof (cases "device \<and> display < kNumDisplays env")
  case False
  then show ?thesis by (auto simp: ValidateDisplay_def)
next
  case True
  let ?e = "SEQUENCE_ENTRY_SCOPE_LOCK display s"
  show ?thesis
  proof (cases "hwc_display ?e display")
    case None
    then show ?thesis using True by (auto simp: ValidateDisplay_def Let_def)
  next
    case (Some d)
    obtain res s1 where "ValidateDisplayInternal env display ?e = Return (res, s1)"
      using ValidateDisplayInternal_returns [OF Some, of env] assms by auto
    then show ?thesis using True Some
      by (cases res) (auto simp: ValidateDisplay_def Let_def)
  qed
qed

lemma calm_PresentDisplay_locked:
  assumes "PresentDisplay_locked env display s1 = Return (res, s4)"
  shows "calm s1 s4"
proof (cases "hwc_display s1 display")
  case None
  then show ?thesis using assms by (simp add: PresentDisplay_locked_def)
next
  case (Some d)
  define s2 where "s2 = (if callbacks_needs_refresh s1 display then
                      (set_display display (Some (SetPendingRefresh d)) s1)
                        \<lparr>callbacks_needs_refresh := (callbacks_needs_refresh s1)(display := False)\<rparr>
                    else s1)"
  have c12: "calm s1 s2" by (simp add: s2_def calm_def client_ids_def)
  have "andThen (PresentDisplayInternal env display s2)
            (\<lambda>(res, s3). Return (res, log_call SignalIdle s3)) = Return (res, s4)"
    using assms Some by (simp add: PresentDisplay_locked_def s2_def Let_def)
  then have "\<exists>x. PresentDisplayInternal env display s2 = Return x \<and>
       (case x of (res, s3) \<Rightarrow> Return (res, log_call SignalIdle s3)) = Return (res, s4)"
    by (rule iffD1 [OF andThen_Return_iff])
  then obtain r s3 where p: "PresentDisplayInternal env display s2 = Return (r, s3)"
    and s4: "s4 = log_call SignalIdle s3"
    by (auto split: prod.splits)
  have "quiet s2 s3" using quiet_PresentDisplayInternal [of s2 env display] p by simp
  then have "calm s2 s3" by (rule quiet_calm)
  moreover have "calm s3 s4" unfolding s4 by (rule calm_log_call) simp
  ultimately show ?thesis using c12 by (blast intro: calm_trans)
qed

lemma calm_PresentDisplay_connections:
  assumes "PresentDisplay_connections env display s5 = Return s8"
  shows "calm s5 s8"
proof (cases "\<not> primary_ready s5 \<and> display = 0")
  case False
  then show ?thesis using assms by (auto simp: PresentDisplay_connections_def)
next
  case True
  define s6 where "s6 = s5\<lparr>primary_ready := True\<rparr>"
  have c: "calm s5 s6" by (simp add: s6_def calm_def client_ids_def)
  show ?thesis
  proof (cases "pluggable_is_primary s6")
    case True
    then show ?thesis using assms \<open>\<not> primary_ready s5 \<and> display = 0\<close> c
      by (simp add: PresentDisplay_connections_def s6_def Let_def)
  next
    case False
    then have "andThen (CreatePluggableDisplays env False s6) (\<lambda>(rc, s7). Return s7) = Return s8"
      using assms True by (simp add: PresentDisplay_connections_def s6_def Let_def)
    then have "\<exists>x. CreatePluggableDisplays env False s6 = Return x \<and>
        (case x of (rc, s7) \<Rightarrow> Return s7) = Return s8"
      by (rule iffD1 [OF andThen_Return_iff])
    then obtain rc where "CreatePluggableDisplays env False s6 = Return (rc, s8)"
      by (auto split: prod.splits)
    then have "quiet s6 s8" using quiet_CreatePluggableDisplays [of s6 env False] by simp
    then show ?thesis using c by (blast intro: calm_trans quiet_calm)
  qed
qed

lemma PresentDisplay_locks:
  assumes r: "PresentDisplay env device display out_retire_fence s = Return ((status, fence), s')"
    and k: "display < kNumDisplays env"
  shows "sequence_wait s' = (sequence_wait s)(display := False) \<and>
         client_ids s' = client_ids s \<and>
         filter is_seq (trace s') = filter is_seq (trace s) @ SeqExit display #
           (if device \<and> out_retire_fence \<and> status \<noteq> Error_None \<and> status \<noteq> Error_NotValidated
            then [SeqCancel display] else [])"
proof (cases "device \<and> out_retire_fence")
  case False
  then have "s' = SEQUENCE_EXIT_SCOPE_LOCK display s"
    using r k by (auto simp: PresentDisplay_def Let_def split: if_splits)
  then show ?thesis using False by auto
next
  case True
  let ?s1 = "SEQUENCE_EXIT_SCOPE_LOCK display s"
  let ?f = "\<lambda>((status, fence), s4).
               let s5 = (if status \<noteq> Error_None \<and> status \<noteq> Error_NotValidated
                         then SEQUENCE_CANCEL_SCOPE_LOCK display s4 else s4) in
               andThen (PresentDisplay_connections env display s5)
                 (\<lambda>s8. andThen (HandlePendingRefresh env s8)
                          (\<lambda>s9. Return ((status, fence), s9)))"
  have eq: "PresentDisplay env device display out_retire_fence s =
        andThen (PresentDisplay_locked env display ?s1) ?f"
    using True k by (simp add: PresentDisplay_def Let_def)
  have "andThen (PresentDisplay_locked env display ?s1) ?f = Return ((status, fence), s')"
    unfolding eq [symmetric] by (rule r)
  then have "\<exists>x. PresentDisplay_locked env display ?s1 = Return x \<and>
                 ?f x = Return ((status, fence), s')"
    by (rule iffD1 [OF andThen_Return_iff])
  then obtain x where lx: "PresentDisplay_locked env display ?s1 = Return x"
    and fx: "?f x = Return ((status, fence), s')" by blast
  obtain st fe s4 where x: "x = ((st, fe), s4)" by (metis prod.exhaust)
  define s5 where "s5 = (if st \<noteq> Error_None \<and> st \<noteq> Error_NotValidated
                         then SEQUENCE_CANCEL_SCOPE_LOCK display s4 else s4)"
  have "andThen (PresentDisplay_connections env display s5)
                 (\<lambda>s8. andThen (HandlePendingRefresh env s8)
                          (\<lambda>s9. Return ((st, fe), s9))) = Return ((status, fence), s')"
    using fx unfolding x s5_def by (simp add: Let_def)
  then have "\<exists>s8. PresentDisplay_connections env display s5 = Return s8 \<and>
       andThen (HandlePendingRefresh env s8) (\<lambda>s9. Return ((st, fe), s9)) =
         Return ((status, fence), s')"
    by (rule iffD1 [OF andThen_Return_iff])
  then obtain s8 where c8: "PresentDisplay_connections env display s5 = Return s8"
    and h: "andThen (HandlePendingRefresh env s8) (\<lambda>s9. Return ((st, fe), s9)) =
         Return ((status, fence), s')" by blast
  from h have "\<exists>s9. HandlePendingRefresh env s8 = Return s9 \<and>
       Return ((st, fe), s9) = Return ((status, fence), s')"
    by (rule iffD1 [OF andThen_Return_iff])
  then have h9: "HandlePendingRefresh env s8 = Return s'" and st: "st = status" by auto
  have c14: "calm ?s1 s4" using calm_PresentDisplay_locked lx x by simp
  have c58: "calm s5 s'"
    using calm_PresentDisplay_connections [OF c8] calm_HandlePendingRefresh [OF h9]
    by (blast intro: calm_trans)
  show ?thesis
  proof (cases "st \<noteq> Error_None \<and> st \<noteq> Error_NotValidated")
    case False
    then have "s5 = s4" by (auto simp: s5_def)
    then have "calm ?s1 s'" using c14 c58 by (blast intro: calm_trans)
    then show ?thesis using False st True by (simp add: calm_def)
  next
    case cancel: True
    then have s5: "s5 = SEQUENCE_CANCEL_SCOPE_LOCK display s4" by (simp add: s5_def)
    have "sequence_wait s5 = (sequence_wait ?s1)(display := False)"
      "client_ids s5 = client_ids ?s1"
      "filter is_seq (trace s5) = filter is_seq (trace ?s1) @ [SeqCancel display]"
      unfolding s5 using c14 by (rule calm_SEQUENCE)+
    then show ?thesis using c58 cancel st True by (simp add: calm_def)
  qed
qed

lemma PresentDisplay_connections_returns:
  "primary_ready s \<or> display \<noteq> 0 \<Longrightarrow> PresentDisplay_connections env display s = Return s"
  by (auto simp: PresentDisplay_connections_def)

lemma PresentDisplay_returns:
  assumes cb: "callbacks_refresh s" and r: "primary_ready s \<or> display \<noteq> 0"
  shows "\<exists>res s'. PresentDisplay env device display out_retire_fence s = Return (res, s')"
proof (cases "display < kNumDisplays env \<and> device \<and> out_retire_fence")
  case False
  then show ?thesis by (auto simp: PresentDisplay_def Let_def)
next
  case True
  let ?s1 = "SEQUENCE_EXIT_SCOPE_LOCK display s"
  have "\<exists>res s4. PresentDisplay_locked env display ?s1 = Return (res, s4) \<and>
          callbacks_refresh s4 \<and> primary_ready s4 = primary_ready s"
  proof (cases "hwc_display ?s1 display")
    case None
    then show ?thesis using cb by (simp add: PresentDisplay_locked_def)
  next
    case (Some d)
    define s2 where "s2 = (if callbacks_needs_refresh ?s1 display then
                      (set_display display (Some (SetPendingRefresh d)) ?s1)
                        \<lparr>callbacks_needs_refresh := (callbacks_needs_refresh ?s1)(display := False)\<rparr>
                    else ?s1)"
    have "\<exists>d2. hwc_display s2 display = Some d2" using Some by (auto simp: s2_def)
    then obtain d2 where d2: "hwc_display s2 display = Some d2" by blast
    have cb2: "callbacks_refresh s2" "primary_ready s2 = primary_ready s"
      using cb by (simp_all add: s2_def)
    obtain res s3 where p: "PresentDisplayInternal env display s2 = Return (res, s3)"
      using PresentDisplayInternal_returns [OF d2, of env] cb2 by auto
    have "quiet s2 s3" using quiet_PresentDisplayInternal [of s2 env display] p by simp
    then have "callbacks_refresh s3" "primary_ready s3 = primary_ready s"
      using cb2 by (simp_all add: quiet_def)
    moreover have "PresentDisplay_locked env display ?s1 = Return (res, log_call SignalIdle s3)"
      using Some p by (simp add: PresentDisplay_locked_def s2_def Let_def)
    ultimately show ?thesis by simp
  qed
  then obtain res s4 where l: "PresentDisplay_locked env display ?s1 = Return (res, s4)"
    and cb4: "callbacks_refresh s4" and pr4: "primary_ready s4 = primary_ready s" by blast
  obtain st fe where res: "res = (st, fe)" by (cases res)
  define s5 where "s5 = (if st \<noteq> Error_None \<and> st \<noteq> Error_NotValidated
                         then SEQUENCE_CANCEL_SCOPE_LOCK display s4 else s4)"
  have cb5: "callbacks_refresh s5" "primary_ready s5 \<or> display \<noteq> 0"
    using cb4 pr4 r by (auto simp: s5_def)
  obtain s9 where "HandlePendingRefresh env s5 = Return s9"
    using HandlePendingRefresh_returns [OF cb5(1)] by blast
  then have "PresentDisplay env device display out_retire_fence s = Return ((st, fe), s9)"
    using True l res PresentDisplay_connections_returns [OF cb5(2), of env]
    by (simp add: PresentDisplay_def Let_def s5_def)
  then show ?thesis by blast
qed


section \<open>Evaluating the sample states\<close>

lemmas sample_defs = sample_env_def sample_session_def slot_def DisplayMapInfo_init_def
  fresh_display_def

lemmas policy_eval =
  policy_scenario_def env_hw_def hw_ext_def hw_entry_def session_two_builtin_def sample_defs
  CreateVirtualDisplayObj_def SEQUENCE_WAIT_SCOPE_LOCK_def ResetValidation_def HasHDRSupport_def
  CreatePluggableDisplays_def HandleDisconnectedDisplays_def HandleConnectedDisplays_def
  HandleConnectedDisplays_slot_def disconnected_now_def DestroyDisplay_def
  DestroyPluggableDisplay_def DestroyNonPluggableDisplay_def Reset_def
  HandleConcurrency_def NonBuiltinConcurrency_def GetSecondBuiltinStatus_def
  GetNextBuiltinIndex_def GetDisplayIndex_def to_hwc2_display_t_def ActivateDisplay_def
  GetLastPowerMode_def SetPowerMode_def GetDozeSupport_def PowerMode_of_int_def
  updateRefreshRateHint_def GetVsyncPeriod_def UINT32_def Refresh_def callbacks_Refresh_def callbacks_Hotplug_def
  Let_def log_call_def set_display_def active_at_def returned_def

lemma find_False [simp]: "find (\<lambda>_. False) xs = None"
  by (induction xs) simp_all

section \<open>Validate, cached output and present calls in the trace\<close>

lemma is_compose_simps [simp]:
  "is_compose (DisplayValidate i)" "is_compose (DisplayGetValidateOutput i)"
  "is_compose (DisplayPresent i)"
  "\<not> is_compose (SeqEntry i)" "\<not> is_compose (SeqExit i)" "\<not> is_compose (SeqCancel i)"
  "\<not> is_compose (CbRefresh i)" "\<not> is_compose (DisplaySetPowerMode i m)"
  "\<not> is_compose (DisplaySetVsync i)" "\<not> is_compose SignalIdle"
  by (simp_all add: is_compose_def)

lemma compose_ResetPanel:
  "ResetPanel env s = Return s1 \<Longrightarrow> filter is_compose (trace s1) = filter is_compose (trace s)"
  by (auto simp: ResetPanel_def Let_def split: option.splits)

lemma compose_Refresh:
  "Refresh i s = Return s1 \<Longrightarrow>
   filter is_compose (trace s1) = filter is_compose (trace s) \<and> hwc_display s1 = hwc_display s"
  by (auto simp: Refresh_Return_iff)

lemma compose_ValidateDisplayInternal_primary:
  assumes "ValidateDisplayInternal_primary env display s = Return s3"
  shows "filter is_compose (trace s3) = filter is_compose (trace s)"
proof -
  from assms obtain s1 s2 where
    a: "(if reset_panel s then ResetPanel env s else Return s) = Return s1"
    and b: "(if need_invalidate s1 then
                  andThen (Refresh display s1) (\<lambda>s2. Return (s2\<lparr>need_invalidate := False\<rparr>))
                else Return s1) = Return s2"
    and c: "(if color_mgr s2 then
           (case hwc_display s2 display of
              None \<Rightarrow> Fault
            | Some d \<Rightarrow> Return (set_display display (Some (SetColorModeDetailEnhancer env d)) s2))
         else Return s2) = Return s3"
    unfolding ValidateDisplayInternal_primary_def
    by (auto simp: andThen_Return_iff)
  have 1: "filter is_compose (trace s1) = filter is_compose (trace s)"
    using a compose_ResetPanel by (cases "reset_panel s") auto
  have 2: "filter is_compose (trace s2) = filter is_compose (trace s1)"
    using b compose_Refresh by (cases "need_invalidate s1") (auto simp: andThen_Return_iff)
  have 3: "filter is_compose (trace s3) = filter is_compose (trace s2)"
    using c by (cases "color_mgr s2") (auto split: option.splits)
  show ?thesis using 1 2 3 by simp
qed

lemma compose_Validate_call:
  assumes "Validate_call env display s = Return (res, s1)"
  shows "filter is_compose (trace s1) = filter is_compose (trace s) @ [DisplayValidate display]"
  using assms by (auto simp: Validate_call_def split: option.splits prod.splits)

lemma compose_ValidateDisplayInternal:
  assumes "ValidateDisplayInternal env display s = Return (res, s1)"
    "hwc_display s display = Some d"
  shows "filter is_compose (trace s1) = filter is_compose (trace s) @
           [if IsInternalValidateState d then DisplayGetValidateOutput display
            else DisplayValidate display]"
proof (cases "IsInternalValidateState d")
  case True
  then show ?thesis using assms by (auto simp: ValidateDisplayInternal_def)
next
  case False
  with assms have "andThen
              (if display = 0 then ValidateDisplayInternal_primary env display s else Return s)
              (Validate_call env display) = Return (res, s1)"
    by (simp add: ValidateDisplayInternal_def)
  then have "\<exists>x. (if display = 0 then ValidateDisplayInternal_primary env display s else Return s)
      = Return x \<and> Validate_call env display x = Return (res, s1)"
    by (rule iffD1 [OF andThen_Return_iff])
  then obtain x where x: "(if display = 0 then ValidateDisplayInternal_primary env display s
      else Return s) = Return x" and v: "Validate_call env display x = Return (res, s1)"
    by blast
  have "filter is_compose (trace x) = filter is_compose (trace s)"
    using x compose_ValidateDisplayInternal_primary by (cases "display = 0") auto
  then show ?thesis using compose_Validate_call [OF v] False by simp
qed

lemma compose_HandlePendingRefresh:
  "HandlePendingRefresh env s = Return s' \<Longrightarrow>
   filter is_compose (trace s') = filter is_compose (trace s)"
  by (auto simp: HandlePendingRefresh_def andThen_Return_iff Refresh_Return_iff
      split: if_splits option.splits)

section \<open>Pending-refresh servicing\<close>

lemma PresentDisplay_serves_lowest:
  assumes k: "display < kNumDisplays env" and d: "hwc_display s display = Some d"
    and r: "primary_ready s" and cb: "callbacks_refresh s"
    and i: "i < kNumDisplays env" "pending_refresh s i" "\<forall>j<i. \<not> pending_refresh s j"
  shows "\<exists>res s' t. PresentDisplay env True display True s = Return (res, s') \<and>
           trace s' = trace s @ t @ [CbRefresh i] \<and> (\<forall>j. \<not> pending_refresh s' j)"
proof -
  let ?e = "PresentDisplay_entry display s"
  obtain d' where de: "hwc_display ?e display = Some d'"
    using PresentDisplay_entry_display [OF d] by blast
  obtain res s3 d3 where p: "PresentDisplayInternal env display ?e = Return (res, s3)"
    using PresentDisplayInternal_returns [OF de, of env] cb by auto
  obtain status fence where res: "res = (status, fence)" by (cases res)
  have q: "quiet ?e s3"
    using quiet_PresentDisplayInternal [of ?e env display] p by simp
  let ?x = "PresentDisplay_exit display status s3"
  have pend: "pending_refresh ?x = pending_refresh s" and cbx: "callbacks_refresh ?x"
    using q cb by (simp_all add: quiet_def)
  have h: "HandlePendingRefresh env ?x = Return ((log_call (CbRefresh i) ?x)\<lparr>pending_refresh := (\<lambda>_. False)\<rparr>)"
    using i pend cbx by (intro HandlePendingRefresh_serves_lowest) auto
  obtain ext where ext: "trace s3 = trace ?e @ ext" using q by (auto simp: quiet_def)
  have tr: "\<exists>t. trace ?x = trace s @ t"
    using ext by (auto simp: PresentDisplay_exit_def)
  have "PresentDisplay env True display True s =
        Return ((status, fence), (log_call (CbRefresh i) ?x)\<lparr>pending_refresh := (\<lambda>_. False)\<rparr>)"
    using PresentDisplay_shape [OF k d _ p [unfolded res]] r h by simp
  then show ?thesis using tr by auto
qed

text \<open>
  C5. \<^verbatim>\<open>HandlePendingRefresh\<close> with the refresh callback registered: when a bit is pending,
  the lowest pending index gets one \<^verbatim>\<open>Refresh\<close> callback to the client and no other display
  is served; afterwards no bit is pending. With no bit pending nothing happens. A
  \<^verbatim>\<open>PresentDisplay\<close> on an occupied slot, with the primary ready, ends with exactly that
  callback.
\<close>

theorem pending_refresh_serviced:
  "(\<forall>(env::Env) (s::HWCSession) i.
      callbacks_refresh s \<longrightarrow> i < kNumDisplays env \<longrightarrow> pending_refresh s i \<longrightarrow>
      (\<forall>j<i. \<not> pending_refresh s j) \<longrightarrow>
      HandlePendingRefresh env s =
        Return ((log_call (CbRefresh i) s)\<lparr>pending_refresh := (\<lambda>_. False)\<rparr>)) \<and>
   (\<forall>(env::Env) (s::HWCSession).
      (\<forall>j<kNumDisplays env. \<not> pending_refresh s j) \<longrightarrow> HandlePendingRefresh env s = Return s) \<and>
   (\<forall>(env::Env) (s::HWCSession) display d i.
      display < kNumDisplays env \<longrightarrow> hwc_display s display = Some d \<longrightarrow>
      primary_ready s \<longrightarrow> callbacks_refresh s \<longrightarrow>
      i < kNumDisplays env \<longrightarrow> pending_refresh s i \<longrightarrow> (\<forall>j<i. \<not> pending_refresh s j) \<longrightarrow>
      (\<exists>res s' t. PresentDisplay env True display True s = Return (res, s') \<and>
           trace s' = trace s @ t @ [CbRefresh i] \<and> (\<forall>j. \<not> pending_refresh s' j)))"
proof (intro conjI allI impI)
  fix env :: Env and s :: HWCSession and i
  assume "callbacks_refresh s" "i < kNumDisplays env" "pending_refresh s i"
    "\<forall>j<i. \<not> pending_refresh s j"
  then show "HandlePendingRefresh env s =
        Return ((log_call (CbRefresh i) s)\<lparr>pending_refresh := (\<lambda>_. False)\<rparr>)"
    by (rule HandlePendingRefresh_serves_lowest)
next
  fix env :: Env and s :: HWCSession
  assume "\<forall>j<kNumDisplays env. \<not> pending_refresh s j"
  then show "HandlePendingRefresh env s = Return s" by (rule HandlePendingRefresh_none)
next
  fix env :: Env and s :: HWCSession and display d i
  assume "display < kNumDisplays env" "hwc_display s display = Some d" "primary_ready s"
    "callbacks_refresh s" "i < kNumDisplays env" "pending_refresh s i"
    "\<forall>j<i. \<not> pending_refresh s j"
  then show "\<exists>res s' t. PresentDisplay env True display True s = Return (res, s') \<and>
           trace s' = trace s @ t @ [CbRefresh i] \<and> (\<forall>j. \<not> pending_refresh s' j)"
    by (rule PresentDisplay_serves_lowest)
qed

theorem pending_refresh_serviced_witness:
  "callbacks_refresh session_pending \<and> 3 < kNumDisplays sample_env \<and>
   pending_refresh session_pending 3 \<and> pending_refresh session_pending 6 \<and>
   map_option (\<lambda>s. (trace s, pending_refresh s 3, pending_refresh s 6))
     (returned (HandlePendingRefresh sample_env session_pending)) =
   Some ([CbRefresh 3], False, False)"
proof -
  have a: "callbacks_refresh session_pending" "3 < kNumDisplays sample_env"
    "pending_refresh session_pending 3" "pending_refresh session_pending 6"
    by (simp_all add: session_pending_def sample_session_def sample_env_def)
  have b: "\<forall>j<3. \<not> pending_refresh session_pending j"
    by (simp add: session_pending_def)
  have c: "trace session_pending = []"
    by (simp add: session_pending_def sample_session_def)
  from pending_refresh_serviced [THEN conjunct1, rule_format, OF a(1) a(2) a(3)] b
  have "HandlePendingRefresh sample_env session_pending =
        Return ((log_call (CbRefresh 3) session_pending)\<lparr>pending_refresh := (\<lambda>_. False)\<rparr>)"
    by blast
  then show ?thesis
    using a c by (simp add: returned_def)
qed

section \<open>Sequence-lock discipline of validate and present\<close>

text \<open>
  C4, as the code has it. \<^verbatim>\<open>ValidateDisplay\<close> with a null device or an index out of range
  returns before any lock. Otherwise it enters the sequence scope and makes the cancel call
  exactly when the status is neither None nor HasChanges, so the flag of the slot stays set
  exactly for those two. \<^verbatim>\<open>PresentDisplay\<close> with an index in range leaves the sequence scope
  first; it makes the cancel call exactly when both pointers are non-null and the status is
  neither None nor NotValidated (the early returns for a null device or a null fence pointer
  make none); in every case the flag of the slot is clear afterwards. Both calls return when
  the client has registered its refresh callback (for present: and the primary is ready or
  the slot is not the primary).
\<close>

theorem sequence_lock_discipline:
  "(\<forall>(env::Env) (s::HWCSession) display status out s'.
      ValidateDisplay env True display s = Return ((status, out), s') \<longrightarrow>
      display < kNumDisplays env \<longrightarrow>
      sequence_wait s' =
        (sequence_wait s)(display := (status = Error_None \<or> status = Error_HasChanges)) \<and>
      filter is_seq (trace s') = filter is_seq (trace s) @ SeqEntry display #
        (if status \<noteq> Error_None \<and> status \<noteq> Error_HasChanges then [SeqCancel display] else [])) \<and>
   (\<forall>(env::Env) (s::HWCSession) display.
      ValidateDisplay env False display s = Return ((Error_BadParameter, None), s) \<and>
      (kNumDisplays env \<le> display \<longrightarrow>
         ValidateDisplay env True display s = Return ((Error_BadDisplay, None), s) \<and>
         PresentDisplay env True display True s = Return ((Error_BadDisplay, None), s))) \<and>
   (\<forall>(env::Env) (s::HWCSession) device display out_retire_fence status fence s'.
      PresentDisplay env device display out_retire_fence s = Return ((status, fence), s') \<longrightarrow>
      display < kNumDisplays env \<longrightarrow>
      sequence_wait s' = (sequence_wait s)(display := False) \<and>
      filter is_seq (trace s') = filter is_seq (trace s) @ SeqExit display #
        (if device \<and> out_retire_fence \<and> status \<noteq> Error_None \<and> status \<noteq> Error_NotValidated
         then [SeqCancel display] else [])) \<and>
   (\<forall>(env::Env) (s::HWCSession) device display out_retire_fence.
      callbacks_refresh s \<longrightarrow>
      (\<exists>res s'. ValidateDisplay env device display s = Return (res, s')) \<and>
      (primary_ready s \<or> display \<noteq> 0 \<longrightarrow>
       (\<exists>res s'. PresentDisplay env device display out_retire_fence s = Return (res, s'))))"
proof (intro conjI allI impI)
  fix env :: Env and s :: HWCSession and display status out s'
  assume a: "ValidateDisplay env True display s = Return ((status, out), s')"
    "display < kNumDisplays env"
  show "sequence_wait s' =
        (sequence_wait s)(display := (status = Error_None \<or> status = Error_HasChanges))"
    using ValidateDisplay_locks [OF a] by blast
  show "filter is_seq (trace s') = filter is_seq (trace s) @ SeqEntry display #
        (if status \<noteq> Error_None \<and> status \<noteq> Error_HasChanges then [SeqCancel display] else [])"
    using ValidateDisplay_locks [OF a] by blast
next
  fix env :: Env and s :: HWCSession and display :: nat
  show "ValidateDisplay env False display s = Return ((Error_BadParameter, None), s)"
    by (simp add: ValidateDisplay_def)
  assume "kNumDisplays env \<le> display"
  then show "ValidateDisplay env True display s = Return ((Error_BadDisplay, None), s)"
    and "PresentDisplay env True display True s = Return ((Error_BadDisplay, None), s)"
    by (simp_all add: ValidateDisplay_def PresentDisplay_def)
next
  fix env :: Env and s :: HWCSession and device display out_retire_fence status fence s'
  assume a: "PresentDisplay env device display out_retire_fence s = Return ((status, fence), s')"
    "display < kNumDisplays env"
  show "sequence_wait s' = (sequence_wait s)(display := False)"
    using PresentDisplay_locks [OF a] by blast
  show "filter is_seq (trace s') = filter is_seq (trace s) @ SeqExit display #
        (if device \<and> out_retire_fence \<and> status \<noteq> Error_None \<and> status \<noteq> Error_NotValidated
         then [SeqCancel display] else [])"
    using PresentDisplay_locks [OF a] by blast
next
  fix env :: Env and s :: HWCSession and device display out_retire_fence
  assume cb: "callbacks_refresh s"
  then show "\<exists>res s'. ValidateDisplay env device display s = Return (res, s')"
    by (rule ValidateDisplay_returns)
  assume "primary_ready s \<or> display \<noteq> 0"
  with cb show "\<exists>res s'. PresentDisplay env device display out_retire_fence s = Return (res, s')"
    by (rule PresentDisplay_returns)
qed

lemma PresentDisplay_unoccupied_sample:
  "PresentDisplay sample_env True 1 True sample_session =
     Return ((Error_BadDisplay, None),
             SEQUENCE_CANCEL_SCOPE_LOCK 1 (SEQUENCE_EXIT_SCOPE_LOCK 1 sample_session))"
  by (simp add: PresentDisplay_def PresentDisplay_locked_def PresentDisplay_connections_def
      HandlePendingRefresh_def sample_env_def sample_session_def Let_def
      SEQUENCE_CANCEL_SCOPE_LOCK_def SEQUENCE_EXIT_SCOPE_LOCK_def log_call_def list_all_iff)

theorem sequence_lock_discipline_witness:
  "1 < kNumDisplays sample_env \<and>
   PresentDisplay sample_env True 1 True sample_session =
     Return ((Error_BadDisplay, None),
             SEQUENCE_CANCEL_SCOPE_LOCK 1 (SEQUENCE_EXIT_SCOPE_LOCK 1 sample_session)) \<and>
   \<not> sequence_wait (SEQUENCE_CANCEL_SCOPE_LOCK 1 (SEQUENCE_EXIT_SCOPE_LOCK 1 sample_session)) 1 \<and>
   filter is_seq (trace (SEQUENCE_CANCEL_SCOPE_LOCK 1 (SEQUENCE_EXIT_SCOPE_LOCK 1 sample_session))) =
     [SeqExit 1, SeqCancel 1]"
proof -
  have k: "1 < kNumDisplays sample_env" by (simp add: sample_env_def)
  have t: "trace sample_session = []" by (simp add: sample_session_def)
  from sequence_lock_discipline [THEN conjunct2, THEN conjunct2, THEN conjunct1, rule_format,
      OF PresentDisplay_unoccupied_sample k]
  show ?thesis
    using k t PresentDisplay_unoccupied_sample by simp
qed

theorem present_null_fence_counterexample:
  "map_option (\<lambda>(res, s). (fst res, filter is_seq (trace s)))
     (returned (PresentDisplay sample_env True 0 False session_pending)) =
   Some (Error_BadParameter, [SeqExit 0])"
  by (simp add: PresentDisplay_def sample_env_def session_pending_def sample_session_def Let_def
      returned_def SEQUENCE_EXIT_SCOPE_LOCK_def log_call_def is_seq_def)

section \<open>Slot reset and the permanence of client ids\<close>

lemma map_add_upt_left: "map (\<lambda>k. b + k) [0..<n] = [b..<b + (n::nat)]"
  by (induct n) simp_all

lemma map_client_id_assign: "map client_id (assign_client_ids b v) = [b..<b + length v]"
proof -
  have "map client_id (assign_client_ids b v) = map (\<lambda>x. b + snd x) (zip v [0..<length v])"
    by (simp add: assign_client_ids_def case_prod_beta comp_def)
  also have "\<dots> = map (\<lambda>k. b + k) (map snd (zip v [0..<length v]))"
    by (simp only: map_map o_def)
  also have "map snd (zip v [0..<length v]) = [0..<length v]"
    by (rule map_snd_zip) simp
  also have "map (\<lambda>k. b + k) [0..<length v] = [b..<b + length v]"
    by (rule map_add_upt_left)
  finally show ?thesis .
qed

lemma length_assign [simp]: "length (assign_client_ids b v) = length v"
  by (simp add: assign_client_ids_def)

lemma upt_three: "0 # [1..<1 + a] @ [1 + a..<1 + a + b] @ [1 + a + b..<1 + a + b + c] =
    [0..<1 + a + (b::nat) + c]"
proof -
  have "[0..<1 + a + b + c] = [0..<1 + a + b] @ [1 + a + b..<1 + a + b + c]"
    by (rule upt_add_eq_append) simp
  also have "[0..<1 + a + b] = [0..<1 + a] @ [1 + a..<1 + a + b]"
    by (rule upt_add_eq_append) simp
  also have "[0..<1 + a] = [0..<1] @ [1..<1 + a]"
    by (rule upt_add_eq_append) simp
  finally show ?thesis by simp
qed

lemma init_slots_Some:
  assumes "UINT32 count \<le> vector_limit core"
  shows "\<exists>v'. init_slots core kNum count b v = Some v' \<and> length v' = UINT32 count \<and>
           map client_id v' = [b..<b + UINT32 count]"
proof -
  let ?r = "take (UINT32 count) v @ replicate (UINT32 count - length v) (DisplayMapInfo_init kNum)"
  have l: "length ?r = UINT32 count" by auto
  have "init_slots core kNum count b v = Some (assign_client_ids b ?r)"
    using assms by (simp add: init_slots_def resize_def)
  moreover have "map client_id (assign_client_ids b ?r) = [b..<b + UINT32 count]"
    using map_client_id_assign [of b ?r] l by simp
  moreover have "length (assign_client_ids b ?r) = UINT32 count"
    using l by simp
  ultimately show ?thesis by blast
qed

lemma init_slots_None:
  "vector_limit core < UINT32 count \<Longrightarrow> init_slots core kNum count b v = None"
  by (simp add: init_slots_def resize_def)

lemma InitSupportedDisplaySlots_ids:
  assumes c: "CreateCore_ok core" "GetFirstDisplayInterfaceType core = Some t"
    "max_builtin_supported core = Some mb" "max_pluggable_supported core = Some mp"
    "max_virtual_supported core = Some mv"
    and np: "np = UINT32 (min (if t = kPluggable then mp - 1 else mp) (kNumPluggable core))"
    and nb: "nb = UINT32 (min (if t = kPluggable then mb else mb - 1) (kNumBuiltIn core))"
    and nv: "nv = UINT32 (min mv (kNumVirtual core))"
    and lim: "np \<le> vector_limit core" "nb \<le> vector_limit core" "nv \<le> vector_limit core"
      "UINT32 (int (1 + np + nb + nv)) \<le> vector_limit core"
  shows "\<exists>s'. InitSupportedDisplaySlots core kNum s = Some s' \<and>
           client_id (map_info_primary s') = 0 \<and>
           map client_id (map_info_pluggable s') = [1..<1 + np] \<and>
           map client_id (map_info_builtin s') = [1 + np..<1 + np + nb] \<and>
           map client_id (map_info_virtual s') = [1 + np + nb..<1 + np + nb + nv] \<and>
           hwc_display s' = hwc_display s"
proof -
  let ?s0 = "s\<lparr>map_info_primary := (map_info_primary s)\<lparr>client_id := 0\<rparr>\<rparr>"
  obtain plug where p: "init_slots core kNum
        (min (if t = kPluggable then mp - 1 else mp) (kNumPluggable core)) 1
        (map_info_pluggable ?s0) = Some plug" "length plug = np"
      "map client_id plug = [1..<1 + np]"
    using init_slots_Some [of _ core kNum 1 "map_info_pluggable ?s0"] lim(1) np by blast
  obtain built where b: "init_slots core kNum
        (min (if t = kPluggable then mb else mb - 1) (kNumBuiltIn core)) (1 + np)
        (map_info_builtin ?s0) = Some built" "length built = nb"
      "map client_id built = [1 + np..<1 + np + nb]"
    using init_slots_Some [of _ core kNum "1 + np" "map_info_builtin ?s0"] lim(2) nb by blast
  obtain virt where v: "init_slots core kNum (min mv (kNumVirtual core)) (1 + np + nb)
        (map_info_virtual ?s0) = Some virt" "length virt = nv"
      "map client_id virt = [1 + np + nb..<1 + np + nb + nv]"
    using init_slots_Some [of _ core kNum "1 + np + nb" "map_info_virtual ?s0"] lim(3) nv
    by blast
  have "InitSupportedDisplaySlots core kNum s =
      Some (?s0\<lparr>map_info_pluggable := plug, map_info_builtin := built,
                 map_info_virtual := virt\<rparr>)"
    using c p b v lim(4)
    by (simp add: InitSupportedDisplaySlots_def Let_def)
  then show ?thesis using p(3) b(3) v(3) by simp
qed

lemma InitSupportedDisplaySlots_fails:
  assumes c: "CreateCore_ok core" "GetFirstDisplayInterfaceType core = Some t"
    "max_builtin_supported core = Some mb" "max_pluggable_supported core = Some mp"
    "max_virtual_supported core = Some mv"
    and big: "vector_limit core <
                UINT32 (min (if t = kPluggable then mp - 1 else mp) (kNumPluggable core)) \<or>
              vector_limit core <
                UINT32 (min (if t = kPluggable then mb else mb - 1) (kNumBuiltIn core)) \<or>
              vector_limit core < UINT32 (min mv (kNumVirtual core))"
  shows "InitSupportedDisplaySlots core kNum s = None"
  using c big
  by (auto simp: InitSupportedDisplaySlots_def Let_def init_slots_def resize_def
      split: option.splits)

lemma InitSupportedDisplaySlots_core_error:
  assumes "\<not> CreateCore_ok core \<or> GetFirstDisplayInterfaceType core = None \<or>
           max_builtin_supported core = None \<or> max_pluggable_supported core = None \<or>
           max_virtual_supported core = None"
  shows "\<exists>s'. InitSupportedDisplaySlots core kNum s = Some s' \<and>
           client_id (map_info_primary s') = 0 \<and>
           map_info_pluggable s' = map_info_pluggable s \<and>
           map_info_builtin s' = map_info_builtin s \<and>
           map_info_virtual s' = map_info_virtual s"
  using assms
  by (auto simp: InitSupportedDisplaySlots_def Let_def split: option.splits)

lemma DestroyPluggableDisplay_Return_resets:
  assumes "DestroyPluggableDisplay env m s = Return (m', s')"
    "hwc_display s (client_id m) \<noteq> None" "\<not> pluggable_is_primary s"
  shows "m' = Reset m \<and> hwc_display s' (client_id m) = None"
  using assms
  by (auto simp: DestroyPluggableDisplay_def Let_def andThen_Return_iff Refresh_Return_iff
      split: option.splits if_splits)

lemma DestroyDisplay_NonPluggable:
  "disp_type m \<noteq> kPluggable \<Longrightarrow> DestroyDisplay env m s = Return (DestroyNonPluggableDisplay m s)"
  by (cases "disp_type m") (simp_all add: DestroyDisplay_def)

lemma DestroyDisplay_resets:
  assumes r: "DestroyDisplay env m s = Return (m', s')"
    and occ: "hwc_display s (client_id m) \<noteq> None"
    and np: "\<not> (disp_type m = kPluggable \<and> pluggable_is_primary s)"
  shows "m' = Reset m \<and> hwc_display s' (client_id m) = None"
proof (cases "disp_type m = kPluggable")
  case True
  then have "DestroyPluggableDisplay env m s = Return (m', s')"
    using r by (simp add: DestroyDisplay_def)
  then show ?thesis using occ np True by (intro DestroyPluggableDisplay_Return_resets) auto
next
  case False
  then have "DestroyNonPluggableDisplay m s = (m', s')"
    using r by (simp add: DestroyDisplay_NonPluggable)
  then show ?thesis using DestroyNonPluggableDisplay_resets [OF occ] by simp
qed

lemma DestroyDisplay_primary_pluggable:
  assumes r: "DestroyDisplay env m s = Return (m', s')"
    and p: "disp_type m = kPluggable" "pluggable_is_primary s"
  shows "m' = m \<and> (hwc_display s' (client_id m) = None) = (hwc_display s (client_id m) = None)"
proof -
  have "DestroyPluggableDisplay env m s = Return (m', s')"
    using r p by (simp add: DestroyDisplay_def)
  then show ?thesis using p(2) by (rule DestroyPluggableDisplay_primary_kept)
qed

lemma DestroyDisplay_ids:
  assumes "DestroyDisplay env m s = Return (m', s')"
  shows "client_ids s' = client_ids s"
  using quiet_DestroyDisplay [of s env m] assms by (simp add: quiet_client_ids)

lemma DestroyDisplay_returns:
  assumes "callbacks_refresh s" "pluggable_is_primary s \<longrightarrow> hwc_display s 0 \<noteq> None"
  shows "\<exists>m' s'. DestroyDisplay env m s = Return (m', s')"
proof (cases "disp_type m = kPluggable")
  case False
  then show ?thesis by (cases "DestroyNonPluggableDisplay m s") (simp add: DestroyDisplay_NonPluggable)
next
  case True
  then show ?thesis using assms
    by (auto simp: DestroyDisplay_def DestroyPluggableDisplay_def Let_def Refresh_registered
        split: option.splits)
qed

lemma CallLayerFunction_ids:
  "client_ids (snd (CallLayerFunction env device display layer member s)) = client_ids s"
  by (auto simp: CallLayerFunction_def Let_def split: option.splits prod.splits)

lemma quiet_pending_refresh_update:
  "calm s s1 \<Longrightarrow> calm s (s1\<lparr>pending_refresh := p\<rparr>)"
  by (simp add: calm_def client_ids_def)

lemma updateRefreshRateHint_calm:
  "updateRefreshRateHint env s = Return s' \<Longrightarrow> calm s s'"
  by (auto simp: updateRefreshRateHint_def Let_def calm_log_call split: option.splits if_splits)

lemma DestroyDisplay_unoccupied:
  assumes r: "DestroyDisplay env m s = Return (m', s')"
    and e: "hwc_display s (client_id m) = None"
  shows "m' = m \<and> hwc_display s' (client_id m) = None"
proof (cases "disp_type m = kPluggable")
  case True
  then have "DestroyPluggableDisplay env m s = Return (m', s')"
    using r by (simp add: DestroyDisplay_def)
  then show ?thesis using e
    by (auto simp: DestroyPluggableDisplay_def Let_def andThen_Return_iff Refresh_Return_iff
        split: option.splits if_splits)
next
  case False
  then have "DestroyNonPluggableDisplay m s = (m', s')"
    using r by (simp add: DestroyDisplay_NonPluggable)
  then show ?thesis using DestroyNonPluggableDisplay_unoccupied [OF e] e by simp
qed

lemma client_ids_more [simp]:
  "client_ids (s\<lparr>pending_refresh := p\<rparr>) = client_ids s"
  "client_ids (HandleConcurrency env i s) = client_ids s"
  using quiet_HandleConcurrency [of s env i]
  by (simp_all add: quiet_client_ids) (simp add: client_ids_def)

lemma SetPowerMode_ids:
  assumes "SetPowerMode env device display int_mode s = Return (err, s')"
  shows "client_ids s' = client_ids s"
  using assms
  by (auto simp: SetPowerMode_def Let_def andThen_Return_iff Refresh_Return_iff
      updateRefreshRateHint_def
      split: if_splits option.splits prod.splits)

lemma ValidateDisplay_ids:
  assumes "ValidateDisplay env device display s = Return (res, s')"
  shows "client_ids s' = client_ids s"
proof (cases "device \<and> display < kNumDisplays env")
  case False
  then have "s' = s" using assms by (auto simp: ValidateDisplay_def split: if_splits)
  then show ?thesis by simp
next
  case True
  obtain st ou where "res = (st, ou)" by (cases res)
  then show ?thesis using ValidateDisplay_locks [of env display s st ou s'] assms True by simp
qed

lemma PresentDisplay_ids:
  assumes "PresentDisplay env device display out_retire_fence s = Return (res, s')"
  shows "client_ids s' = client_ids s"
proof (cases "display < kNumDisplays env")
  case False
  then have "s' = s" using assms by (auto simp: PresentDisplay_def split: if_splits)
  then show ?thesis by simp
next
  case True
  obtain st fe where "res = (st, fe)" by (cases res)
  then show ?thesis
    using PresentDisplay_locks [of env device display out_retire_fence s st fe s'] assms True
    by simp
qed

text \<open>
  C9, as the code has it. \<^verbatim>\<open>Reset\<close> puts \<open>sdm_id\<close>, \<open>disp_type\<close> and \<open>test_pattern\<close> back
  to their defaults and keeps \<open>client_id\<close>. \<^verbatim>\<open>DestroyDisplay\<close> always keeps the
  \<open>client_id\<close> of the entry and of every slot. On an occupied slot it empties the slot and
  leaves the entry reset, except for a pluggable entry while the primary is a pluggable
  display: there the display object stays in its slot (only the primary's state is switched
  off) and the entry keeps \<open>sdm_id\<close>, \<open>disp_type\<close> and \<open>test_pattern\<close>. On an empty slot the
  entry is left as it is. \<^verbatim>\<open>InitSupportedDisplaySlots\<close>, when the core answers and the
  vectors can be resized, gives the primary the id 0, the pluggable slots the ids from 1,
  then the builtin slots, then the virtual slots the following ids, as many of each as the
  minimum of the hardware maximum and the pool size; when the core reports an error only the
  primary gets its id, and when a count is beyond what a vector can hold the call does not
  return. No later operation changes the \<open>client_id\<close> of any slot.
\<close>

theorem slot_reset_frame:
  "(\<forall>m. client_id (Reset m) = client_id m \<and> sdm_id (Reset m) = - 1 \<and>
        disp_type (Reset m) = kDisplayTypeMax \<and> \<not> test_pattern (Reset m)) \<and>
   (\<forall>(env::Env) m (s::HWCSession) m' s'.
      DestroyDisplay env m s = Return (m', s') \<longrightarrow>
      client_id m' = client_id m \<and> client_ids s' = client_ids s \<and>
      (hwc_display s (client_id m) \<noteq> None \<longrightarrow>
         (if disp_type m = kPluggable \<and> pluggable_is_primary s
          then m' = m \<and> hwc_display s' (client_id m) \<noteq> None
          else m' = Reset m \<and> hwc_display s' (client_id m) = None)) \<and>
      (hwc_display s (client_id m) = None \<longrightarrow>
         m' = m \<and> hwc_display s' (client_id m) = None)) \<and>
   (\<forall>(env::Env) m (s::HWCSession).
      callbacks_refresh s \<longrightarrow> (pluggable_is_primary s \<longrightarrow> hwc_display s 0 \<noteq> None) \<longrightarrow>
      (\<exists>m' s'. DestroyDisplay env m s = Return (m', s'))) \<and>
   (\<forall>(core::Core) kNum (s::HWCSession) t mb mp mv np nb nv.
      CreateCore_ok core \<longrightarrow> GetFirstDisplayInterfaceType core = Some t \<longrightarrow>
      max_builtin_supported core = Some mb \<longrightarrow> max_pluggable_supported core = Some mp \<longrightarrow>
      max_virtual_supported core = Some mv \<longrightarrow>
      np = UINT32 (min (if t = kPluggable then mp - 1 else mp) (kNumPluggable core)) \<longrightarrow>
      nb = UINT32 (min (if t = kPluggable then mb else mb - 1) (kNumBuiltIn core)) \<longrightarrow>
      nv = UINT32 (min mv (kNumVirtual core)) \<longrightarrow>
      (np \<le> vector_limit core \<longrightarrow> nb \<le> vector_limit core \<longrightarrow> nv \<le> vector_limit core \<longrightarrow>
       UINT32 (int (1 + np + nb + nv)) \<le> vector_limit core \<longrightarrow>
         (\<exists>s'. InitSupportedDisplaySlots core kNum s = Some s' \<and>
            client_id (map_info_primary s') = 0 \<and>
            map client_id (map_info_pluggable s') = [1..<1 + np] \<and>
            map client_id (map_info_builtin s') = [1 + np..<1 + np + nb] \<and>
            map client_id (map_info_virtual s') = [1 + np + nb..<1 + np + nb + nv] \<and>
            hwc_display s' = hwc_display s)) \<and>
      (vector_limit core < np \<or> vector_limit core < nb \<or> vector_limit core < nv \<longrightarrow>
         InitSupportedDisplaySlots core kNum s = None)) \<and>
   (\<forall>(core::Core) kNum (s::HWCSession).
      \<not> CreateCore_ok core \<or> GetFirstDisplayInterfaceType core = None \<or>
      max_builtin_supported core = None \<or> max_pluggable_supported core = None \<or>
      max_virtual_supported core = None \<longrightarrow>
      (\<exists>s'. InitSupportedDisplaySlots core kNum s = Some s' \<and>
         client_id (map_info_primary s') = 0 \<and>
         map_info_pluggable s' = map_info_pluggable s \<and>
         map_info_builtin s' = map_info_builtin s \<and>
         map_info_virtual s' = map_info_virtual s)) \<and>
   (\<forall>(env::Env) (s::HWCSession) disp device display layer member.
      client_ids (HandleBuiltInDisplays env s) = client_ids s \<and>
      client_ids (snd (CreatePrimaryDisplay env s)) = client_ids s \<and>
      client_ids (HandleConcurrency env disp s) = client_ids s \<and>
      client_ids (snd (CallLayerFunction env device display layer member s)) = client_ids s) \<and>
   (\<forall>(env::Env) (s::HWCSession) delay_hotplug device display out_retire_fence int_mode s'.
      ((\<exists>r. CreatePluggableDisplays env delay_hotplug s = Return (r, s')) \<or>
       (\<exists>r. CreateVirtualDisplayObj env s = Return (r, s')) \<or>
       (\<exists>r. ValidateDisplay env device display s = Return (r, s')) \<or>
       (\<exists>r. PresentDisplay env device display out_retire_fence s = Return (r, s')) \<or>
       (\<exists>r. SetPowerMode env device display int_mode s = Return (r, s'))) \<longrightarrow>
      client_ids s' = client_ids s)"
proof (intro conjI allI impI)
  fix m
  show "client_id (Reset m) = client_id m" "sdm_id (Reset m) = - 1"
    "disp_type (Reset m) = kDisplayTypeMax" "\<not> test_pattern (Reset m)"
    by (simp_all add: Reset_def)
next
  fix env :: Env and m and s :: HWCSession and m' s'
  assume r: "DestroyDisplay env m s = Return (m', s')"
  show "client_id m' = client_id m" using r by (rule client_id_DestroyDisplay)
  show "client_ids s' = client_ids s" using r by (rule DestroyDisplay_ids)
  {
    assume occ: "hwc_display s (client_id m) \<noteq> None"
    show "if disp_type m = kPluggable \<and> pluggable_is_primary s
          then m' = m \<and> hwc_display s' (client_id m) \<noteq> None
          else m' = Reset m \<and> hwc_display s' (client_id m) = None"
    proof (cases "disp_type m = kPluggable \<and> pluggable_is_primary s")
      case True
      then show ?thesis using DestroyDisplay_primary_pluggable [OF r] occ by simp
    next
      case False
      then show ?thesis using DestroyDisplay_resets [OF r occ] by simp
    qed
  }
  {
    assume e: "hwc_display s (client_id m) = None"
    show "m' = m" using DestroyDisplay_unoccupied [OF r e] by blast
    show "hwc_display s' (client_id m) = None" using DestroyDisplay_unoccupied [OF r e] by blast
  }
next
  fix env :: Env and m and s :: HWCSession
  assume "callbacks_refresh s" "pluggable_is_primary s \<longrightarrow> hwc_display s 0 \<noteq> None"
  then show "\<exists>m' s'. DestroyDisplay env m s = Return (m', s')" by (rule DestroyDisplay_returns)
next
  fix core :: Core and kNum and s :: HWCSession and t mb mp mv np nb nv
  assume a: "CreateCore_ok core" "GetFirstDisplayInterfaceType core = Some t"
    "max_builtin_supported core = Some mb" "max_pluggable_supported core = Some mp"
    "max_virtual_supported core = Some mv"
    and n: "np = UINT32 (min (if t = kPluggable then mp - 1 else mp) (kNumPluggable core))"
    "nb = UINT32 (min (if t = kPluggable then mb else mb - 1) (kNumBuiltIn core))"
    "nv = UINT32 (min mv (kNumVirtual core))"
  {
    assume l: "np \<le> vector_limit core" "nb \<le> vector_limit core" "nv \<le> vector_limit core"
      "UINT32 (int (1 + np + nb + nv)) \<le> vector_limit core"
    show "\<exists>s'. InitSupportedDisplaySlots core kNum s = Some s' \<and>
            client_id (map_info_primary s') = 0 \<and>
            map client_id (map_info_pluggable s') = [1..<1 + np] \<and>
            map client_id (map_info_builtin s') = [1 + np..<1 + np + nb] \<and>
            map client_id (map_info_virtual s') = [1 + np + nb..<1 + np + nb + nv] \<and>
            hwc_display s' = hwc_display s"
      by (rule InitSupportedDisplaySlots_ids [OF a n l])
  }
  {
    assume "vector_limit core < np \<or> vector_limit core < nb \<or> vector_limit core < nv"
    then show "InitSupportedDisplaySlots core kNum s = None"
      unfolding n by (rule InitSupportedDisplaySlots_fails [OF a])
  }
next
  fix core :: Core and kNum and s :: HWCSession
  assume "\<not> CreateCore_ok core \<or> GetFirstDisplayInterfaceType core = None \<or>
      max_builtin_supported core = None \<or> max_pluggable_supported core = None \<or>
      max_virtual_supported core = None"
  then show "\<exists>s'. InitSupportedDisplaySlots core kNum s = Some s' \<and>
         client_id (map_info_primary s') = 0 \<and>
         map_info_pluggable s' = map_info_pluggable s \<and>
         map_info_builtin s' = map_info_builtin s \<and>
         map_info_virtual s' = map_info_virtual s"
    by (rule InitSupportedDisplaySlots_core_error)
next
  fix env :: Env and s :: HWCSession and disp :: nat and device display layer member
  show "client_ids (HandleBuiltInDisplays env s) = client_ids s"
    by (rule quiet_client_ids [OF quiet_HandleBuiltInDisplays])
  show "client_ids (snd (CreatePrimaryDisplay env s)) = client_ids s"
    by (rule client_ids_CreatePrimaryDisplay)
  show "client_ids (HandleConcurrency env disp s) = client_ids s"
    by (rule quiet_client_ids [OF quiet_HandleConcurrency])
  show "client_ids (snd (CallLayerFunction env device display layer member s)) = client_ids s"
    by (rule CallLayerFunction_ids)
next
  fix env :: Env and s :: HWCSession and delay_hotplug device display out_retire_fence int_mode s'
  assume "(\<exists>r. CreatePluggableDisplays env delay_hotplug s = Return (r, s')) \<or>
       (\<exists>r. CreateVirtualDisplayObj env s = Return (r, s')) \<or>
       (\<exists>r. ValidateDisplay env device display s = Return (r, s')) \<or>
       (\<exists>r. PresentDisplay env device display out_retire_fence s = Return (r, s')) \<or>
       (\<exists>r. SetPowerMode env device display int_mode s = Return (r, s'))"
  then consider
      r where "CreatePluggableDisplays env delay_hotplug s = Return (r, s')"
    | r where "CreateVirtualDisplayObj env s = Return (r, s')"
    | r where "ValidateDisplay env device display s = Return (r, s')"
    | r where "PresentDisplay env device display out_retire_fence s = Return (r, s')"
    | r where "SetPowerMode env device display int_mode s = Return (r, s')"
    by blast
  then show "client_ids s' = client_ids s"
  proof cases
    case 1
    then show ?thesis
      using quiet_CreatePluggableDisplays [of s env delay_hotplug] by (simp add: quiet_client_ids)
  next
    case 2
    then show ?thesis
      using quiet_CreateVirtualDisplayObj [of s env] by (simp add: quiet_client_ids)
  next
    case 3
    then show ?thesis by (rule ValidateDisplay_ids)
  next
    case 4
    then show ?thesis by (rule PresentDisplay_ids)
  next
    case 5
    then show ?thesis by (rule SetPowerMode_ids)
  qed
qed

theorem slot_reset_frame_witness:
  "hwc_display session_ext (client_id ext_slot) \<noteq> None \<and> callbacks_refresh session_ext \<and>
   \<not> pluggable_is_primary session_ext \<and> disp_type ext_slot = kPluggable \<and>
   sdm_id ext_slot = 5 \<and> test_pattern ext_slot \<and>
   map_option (\<lambda>(m', s'). (client_id m', sdm_id m', disp_type m', test_pattern m',
                            hwc_display s' 1 = None))
     (returned (DestroyDisplay sample_env ext_slot session_ext)) =
   Some (1, - 1, kDisplayTypeMax, False, True)"
proof -
  have h: "hwc_display session_ext (client_id ext_slot) \<noteq> None" "callbacks_refresh session_ext"
    "\<not> pluggable_is_primary session_ext" "disp_type ext_slot = kPluggable"
    "sdm_id ext_slot = 5" "test_pattern ext_slot" "client_id ext_slot = 1"
    by (simp_all add: session_ext_def ext_slot_def slot_def sample_session_def
        DisplayMapInfo_init_def)
  have pp: "pluggable_is_primary session_ext \<longrightarrow> hwc_display session_ext 0 \<noteq> None"
    using h(3) by simp
  obtain m' s' where r: "DestroyDisplay sample_env ext_slot session_ext = Return (m', s')"
    using slot_reset_frame [THEN conjunct2, THEN conjunct2, THEN conjunct1, THEN spec,
        THEN spec, THEN spec, THEN mp, THEN mp, OF h(2) pp] by blast
  have "m' = Reset ext_slot \<and> hwc_display s' (client_id ext_slot) = None"
    using slot_reset_frame [THEN conjunct2, THEN conjunct1, THEN spec, THEN spec, THEN spec,
        THEN spec, THEN spec, THEN mp, OF r] h(1) h(3) by simp
  then show ?thesis
    using h r by (simp add: returned_def Reset_def)
qed

theorem slot_kept_pluggable_primary_counterexample:
  "hwc_display session_ext_primary_pluggable (client_id ext_slot) = Some fresh_display \<and>
   map_option (\<lambda>(m', s'). (client_id m', sdm_id m', disp_type m', test_pattern m',
                            hwc_display s' 1))
     (returned (DestroyDisplay sample_env ext_slot session_ext_primary_pluggable)) =
   Some (1, 5, kPluggable, True, Some fresh_display)"
  by (simp add: session_ext_primary_pluggable_def session_ext_def ext_slot_def slot_def
      sample_session_def sample_env_def DisplayMapInfo_init_def returned_def DestroyDisplay_def
      DestroyPluggableDisplay_def Refresh_def callbacks_Refresh_def Let_def log_call_def
      set_display_def)

lemma InitSupportedDisplaySlots_sample:
  "map_option client_ids
     (InitSupportedDisplaySlots sample_core 13
        (sample_session\<lparr>map_info_builtin := [], map_info_pluggable := [],
                         map_info_virtual := []\<rparr>)) =
     Some (0, [3, 4, 5], [1, 2], [6]) \<and>
   InitSupportedDisplaySlots core_no_builtin 13 sample_session = None"
  by (simp add: InitSupportedDisplaySlots_def init_slots_def resize_def sample_core_def
      core_no_builtin_def UINT32_def client_ids_def sample_session_def slot_def
      DisplayMapInfo_init_def map_client_id_assign Let_def upt_rec_numeral)

section \<open>Hotplug scans that run to their end\<close>

lemma hotplug_ready_quiet:
  assumes "hotplug_ready s" "quiet s s'" "hwc_display s' 0 \<noteq> None"
  shows "hotplug_ready s'"
proof -
  have "map client_id (map_info_pluggable s') = map client_id (map_info_pluggable s)"
    using assms(2) by (simp add: quiet_def client_ids_def)
  moreover have "callbacks_refresh s' = callbacks_refresh s"
    "pluggable_is_primary s' = pluggable_is_primary s"
    "null_display_active s' = null_display_active s"
    using assms(2) by (simp_all add: quiet_def)
  ultimately show ?thesis using assms(1,3) by (simp add: hotplug_ready_def)
qed

lemma DestroyDisplay_other:
  assumes r: "DestroyDisplay env m s = Return (m', s')" and i: "i \<noteq> client_id m"
    and np: "\<not> pluggable_is_primary s"
  shows "(hwc_display s' i = None) = (hwc_display s i = None)"
proof (cases "disp_type m = kPluggable")
  case True
  then have "DestroyPluggableDisplay env m s = Return (m', s')"
    using r by (simp add: DestroyDisplay_def)
  then show ?thesis using i np
    by (auto simp: DestroyPluggableDisplay_def Let_def andThen_Return_iff Refresh_Return_iff
        split: option.splits if_splits)
next
  case False
  then have "DestroyNonPluggableDisplay m s = (m', s')"
    using r by (simp add: DestroyDisplay_NonPluggable)
  then show ?thesis using i
    by (auto simp: DestroyNonPluggableDisplay_def Let_def split: option.splits)
qed

lemma DestroyDisplay_hotplug_ready:
  assumes h: "hotplug_ready s" and c: "client_id m \<noteq> 0"
  shows "\<exists>m' s'. DestroyDisplay env m s = Return (m', s') \<and> hotplug_ready s' \<and>
           quiet s s' \<and> client_id m' = client_id m"
proof -
  obtain m' s' where r: "DestroyDisplay env m s = Return (m', s')"
    using DestroyDisplay_returns [of s env m] h by (auto simp: hotplug_ready_def)
  have q: "quiet s s'" using quiet_DestroyDisplay [of s env m] r by simp
  have "hwc_display s' 0 \<noteq> None"
    using DestroyDisplay_other [OF r, of 0] c h by (simp add: hotplug_ready_def)
  then have "hotplug_ready s'" by (rule hotplug_ready_quiet [OF h q])
  then show ?thesis using r q client_id_DestroyDisplay [OF r] by blast
qed

lemma HandleDisconnectedDisplays_slots_returns:
  assumes "hotplug_ready s" "\<forall>i\<in>set idxs. i < length (map_info_pluggable s)"
  shows "\<exists>s'. HandleDisconnectedDisplays_slots env infos idxs s = Return s' \<and> hotplug_ready s'"
  using assms
proof (induction idxs arbitrary: s)
  case Nil
  then show ?case by simp
next
  case (Cons i rest)
  show ?case
  proof (cases "disconnected_now infos (map_info_pluggable s ! i)")
    case False
    then show ?thesis using Cons by simp
  next
    case True
    let ?m = "map_info_pluggable s ! i"
    have il: "i < length (map_info_pluggable s)" using Cons.prems(2) by simp
    then have c: "client_id ?m \<noteq> 0"
      using Cons.prems(1) by (auto simp: hotplug_ready_def dest: nth_mem)
    obtain m' s1 where r: "DestroyDisplay env ?m s = Return (m', s1)" and h1: "hotplug_ready s1"
      and q: "quiet s s1" and cm: "client_id m' = client_id ?m"
      using DestroyDisplay_hotplug_ready [OF Cons.prems(1) c] by blast
    let ?s2 = "s1\<lparr>map_info_pluggable := (map_info_pluggable s1)[i := m']\<rparr>"
    have q2: "quiet s ?s2" using q cm by (intro quiet_pluggable_store)
    have "hwc_display ?s2 0 \<noteq> None" using h1 by (simp add: hotplug_ready_def)
    then have h2: "hotplug_ready ?s2" by (rule hotplug_ready_quiet [OF Cons.prems(1) q2])
    have "map client_id (map_info_pluggable ?s2) = map client_id (map_info_pluggable s)"
      using q2 by (simp add: quiet_def client_ids_def)
    then have "length (map_info_pluggable ?s2) = length (map_info_pluggable s)"
      by (metis length_map)
    then have "\<forall>i\<in>set rest. i < length (map_info_pluggable ?s2)"
      using Cons.prems(2) by simp
    then obtain s' where "HandleDisconnectedDisplays_slots env infos rest ?s2 = Return s'"
      "hotplug_ready s'"
      using Cons.IH [OF h2] by blast
    then show ?thesis using True r by simp
  qed
qed

lemma HandleDisconnectedDisplays_returns:
  assumes "hotplug_ready s"
  shows "\<exists>s'. HandleDisconnectedDisplays env infos s = Return (0, s') \<and> hotplug_ready s'"
proof -
  obtain s' where "HandleDisconnectedDisplays_slots env infos
      [0..<length (map_info_pluggable s)] s = Return s'" "hotplug_ready s'"
    using HandleDisconnectedDisplays_slots_returns [OF assms, of "[0..<length (map_info_pluggable s)]"]
    by auto
  then show ?thesis using assms by (simp add: HandleDisconnectedDisplays_def hotplug_ready_def)
qed

lemma HandleConnectedDisplays_slot_occupied:
  assumes o: "hwc_display s j \<noteq> None"
  shows "hwc_display (snd (HandleConnectedDisplays_slot env info s)) j \<noteq> None"
proof (cases "find (\<lambda>i. hwc_display s (client_id (map_info_pluggable s ! i)) = None)
                [0..<length (map_info_pluggable s)]")
  case None
  then show ?thesis using o by (simp add: HandleConnectedDisplays_slot_def)
next
  case (Some i)
  define map_info where "map_info = map_info_pluggable s ! i"
  define cid where "cid = client_id map_info"
  define tp where "tp = (0 < hpd_bpp s \<and> 0 < hpd_pattern s)"
  define s1 where
    "s1 = s\<lparr>map_info_pluggable := (map_info_pluggable s)[i := map_info\<lparr>test_pattern := tp\<rparr>]\<rparr>"
  define cls where "cls = (if \<not> tp then HWCDisplayPluggable else HWCDisplayPluggableTest)"
  obtain status d where cr: "Display_Create env cls cid (display_id info) = (status, d)"
    by (cases "Display_Create env cls cid (display_id info)")
  define s2 where "s2 = log_call (DisplayCreate cls cid (display_id info)) (set_display cid (Some d) s1)"
  define s3 where "s3 = s2\<lparr>is_hdr_display := (is_hdr_display s2)(cid := HasHDRSupport env d)\<rparr>"
  define s4 where "s4 = s3\<lparr>map_info_pluggable :=
                             (map_info_pluggable s3)[i := (map_info_pluggable s3 ! i)
                                \<lparr>disp_type := display_type info, sdm_id := display_id info\<rparr>]\<rparr>"
  have o1: "hwc_display s1 j \<noteq> None" using o by (simp add: s1_def)
  have o4: "hwc_display s4 j \<noteq> None" using o1 by (simp add: s4_def s3_def s2_def)
  have res: "HandleConnectedDisplays_slot env info s =
      (if status \<noteq> 0 then (Inl status, log_call (DisplayCreate cls cid (display_id info)) s1)
       else (Inr (Some cid), HandleConcurrency env cid s4))"
    using Some cr
    unfolding HandleConnectedDisplays_slot_def s4_def s3_def s2_def s1_def cls_def tp_def cid_def
      map_info_def
    by (simp add: Let_def)
  show ?thesis unfolding res using o1 o4 by (simp del: not_None_eq)
qed

lemma HandleConnectedDisplays_slot_hotplug_ready:
  assumes "hotplug_ready s"
  shows "hotplug_ready (snd (HandleConnectedDisplays_slot env info s))"
proof (rule hotplug_ready_quiet [OF assms quiet_HandleConnectedDisplays_slot])
  show "hwc_display (snd (HandleConnectedDisplays_slot env info s)) 0 \<noteq> None"
    using assms by (intro HandleConnectedDisplays_slot_occupied) (simp add: hotplug_ready_def)
qed

lemma HandleConnectedDisplays_scan_returns:
  assumes "hotplug_ready s"
  shows "\<exists>r s'. HandleConnectedDisplays_scan env infos pending s = Return (r, s') \<and>
           hotplug_ready s'"
  using assms
proof (induction infos arbitrary: pending s)
  case Nil
  then show ?case by simp
next
  case (Cons info rest)
  have np: "\<not> pluggable_is_primary s" using Cons.prems by (simp add: hotplug_ready_def)
  show ?case
  proof (cases "is_primary info \<or> display_type info \<noteq> kPluggable \<or> \<not> is_connected info")
    case True
    then show ?thesis using np Cons by simp
  next
    case False
    obtain r s2 where sl: "HandleConnectedDisplays_slot env info s = (r, s2)"
      by (cases "HandleConnectedDisplays_slot env info s")
    have h2: "hotplug_ready s2"
      using HandleConnectedDisplays_slot_hotplug_ready [OF Cons.prems, of env info] sl by simp
    show ?thesis
    proof (cases r)
      case (Inl status)
      then show ?thesis using False np sl h2 by simp
    next
      case (Inr created)
      then show ?thesis using False np sl Cons.IH [OF h2] by (cases created) simp_all
    qed
  qed
qed

lemma HandleConnectedDisplays_notify_quiet_occupied:
  "(hwc_display (HandleConnectedDisplays_notify env cids s) j = None) = (hwc_display s j = None)"
  by (induction cids arbitrary: s) simp_all

lemma HandleConnectedDisplays_returns:
  assumes "hotplug_ready s"
  shows "\<exists>r s'. HandleConnectedDisplays env infos delay s = Return (r, s')"
proof -
  obtain r s1 where sc: "HandleConnectedDisplays_scan env infos [] s = Return (r, s1)"
    and h1: "hotplug_ready s1"
    using HandleConnectedDisplays_scan_returns [OF assms] by blast
  obtain p where p: "hwc_display s1 0 = Some p" using h1 by (auto simp: hotplug_ready_def)
  have cb: "callbacks_refresh (set_display 0 (Some (ResetValidation p)) s1)"
    using h1 by (simp add: hotplug_ready_def)
  show ?thesis
    unfolding HandleConnectedDisplays_def using sc p Refresh_registered [OF cb]
    by (cases r) auto
qed

lemma CreatePluggableDisplays_returns:
  assumes "hotplug_ready s"
  shows "\<exists>r s'. CreatePluggableDisplays env delay s = Return (r, s')"
proof (cases "primary_ready s")
  case False
  then show ?thesis by (simp add: CreatePluggableDisplays_def)
next
  case True
  have nd: "\<not> null_display_active s" using assms by (simp add: hotplug_ready_def)
  show ?thesis
  proof (cases "GetDisplaysStatus env")
    case None
    then show ?thesis using True nd by (simp add: CreatePluggableDisplays_def)
  next
    case (Some infos)
    obtain s1 where d: "HandleDisconnectedDisplays env infos s = Return (0, s1)"
      and h1: "hotplug_ready s1"
      using HandleDisconnectedDisplays_returns [OF assms] by blast
    obtain r s2 where "HandleConnectedDisplays env infos delay s1 = Return (r, s2)"
      using HandleConnectedDisplays_returns [OF h1] by blast
    then show ?thesis using True nd Some d by (simp add: CreatePluggableDisplays_def)
  qed
qed

section \<open>The concurrency policy\<close>

lemma second_builtin_off_activates_both:
  "active_at session_ext_virtual 1 = Some False \<and> active_at session_ext_virtual 6 = Some True \<and>
   GetSecondBuiltinStatus session_ext_virtual = False \<and>
   GetNextBuiltinIndex session_ext_virtual = 3 \<and>
   active_at (HandleConcurrency sample_env 3 session_ext_virtual) 1 = Some True \<and>
   active_at (HandleConcurrency sample_env 3 session_ext_virtual) 6 = Some True"
  by (simp add: active_at_def HandleConcurrency_def GetSecondBuiltinStatus_def
      GetNextBuiltinIndex_def GetDisplayIndex_def to_hwc2_display_t_def ActivateDisplay_def
      GetLastPowerMode_def session_ext_virtual_def sample_defs Let_def log_call_def set_display_def)

lemma step1:
  "map_option (\<lambda>(r, s). (r, active_at s 6, active_at s 1))
     (returned (CreateVirtualDisplayObj (env_hw b (hw_ext False)) session_two_builtin)) =
   Some ((Error_None, Some 6), Some b, None)"
  by (simp add: policy_eval)

lemma scenario:
  "map_option (\<lambda>(r, s). (r, active_at s 1, active_at s 6, GetSecondBuiltinStatus s))
     (returned (policy_scenario b)) =
   Some (Error_None, Some True, Some True, False)"
  by (simp add: policy_eval)

lemma scenario_primary:
  "map_option (\<lambda>(r, s). (r, active_at s 1, active_at s 6, GetSecondBuiltinStatus s))
     (returned (policy_scenario_primary b)) =
   Some (Error_None, Some True, Some True, False)"
  by (simp add: policy_eval policy_scenario_primary_def hw_primary_ext_def session_primary_on_def)

lemma builtin_active_deactivates_in_order:
  assumes "primary_ready s" "disp = GetNextBuiltinIndex s" "GetSecondBuiltinStatus s"
  shows "trace (HandleConcurrency env disp s) = trace s @
     (if to_hwc2_display_t (GetDisplayIndex DISPLAY_EXTERNAL s) < kNumDisplays env \<and>
         hwc_display s (to_hwc2_display_t (GetDisplayIndex DISPLAY_EXTERNAL s)) \<noteq> None
      then [DisplayActivate (to_hwc2_display_t (GetDisplayIndex DISPLAY_EXTERNAL s)) False] else []) @
     (if to_hwc2_display_t (GetDisplayIndex DISPLAY_VIRTUAL s) < kNumDisplays env \<and>
         hwc_display s (to_hwc2_display_t (GetDisplayIndex DISPLAY_VIRTUAL s)) \<noteq> None
      then [DisplayActivate (to_hwc2_display_t (GetDisplayIndex DISPLAY_VIRTUAL s)) False] else [])"
  using assms
  by (auto simp: HandleConcurrency_def Let_def ActivateDisplay_def split: option.splits)

lemma builtin_inactive_prefers_pluggable:
  assumes "primary_ready s" "disp = GetNextBuiltinIndex s" "\<not> GetSecondBuiltinStatus s"
    "to_hwc2_display_t (GetDisplayIndex DISPLAY_EXTERNAL s) < kNumDisplays env"
    "hwc_display s (to_hwc2_display_t (GetDisplayIndex DISPLAY_EXTERNAL s)) \<noteq> None"
  shows "trace (HandleConcurrency env disp s) =
     trace s @ [DisplayActivate (to_hwc2_display_t (GetDisplayIndex DISPLAY_EXTERNAL s)) True]"
  using assms
  by (auto simp: HandleConcurrency_def Let_def ActivateDisplay_def split: option.splits)

text \<open>
  C1. The invariant does not survive the policy handler. In both scenarios the primary is
  ready, the virtual display is active and the pluggable display has been deactivated by the
  policy; then a power-mode event whose display equals \<^verbatim>\<open>GetNextBuiltinIndex()\<close> arrives
  while no second builtin is active (Off for the second builtin panel that is already off,
  or On for the primary when there is no second panel, where the index is the sentinel 0).
  The handler activates the pluggable display and leaves the virtual one active: both are
  active when \<^verbatim>\<open>SetPowerMode\<close> returns, whatever activation flag new display objects have.
\<close>

theorem concurrency_policy_both_active:
  "map_option (\<lambda>(r, s). (r, active_at s 1, active_at s 6, GetSecondBuiltinStatus s))
     (returned (policy_scenario_primary b)) =
   Some (Error_None, Some True, Some True, False) \<and>
   map_option (\<lambda>(r, s). (r, active_at s 1, active_at s 6, GetSecondBuiltinStatus s))
     (returned (policy_scenario b)) =
   Some (Error_None, Some True, Some True, False)"
  using scenario_primary [of b] scenario [of b] by (rule conjI)

section \<open>Slot assignment\<close>

lemma HandleConnectedDisplays_slot_first_free:
  assumes f: "find (\<lambda>i. hwc_display s (client_id (map_info_pluggable s ! i)) = None)
                [0..<length (map_info_pluggable s)] = Some i"
    and c: "\<And>cls. fst (Display_Create env cls (client_id (map_info_pluggable s ! i))
                          (display_id info)) = 0"
  shows "i < length (map_info_pluggable s) \<and>
         hwc_display s (client_id (map_info_pluggable s ! i)) = None \<and>
         (\<forall>j<i. hwc_display s (client_id (map_info_pluggable s ! j)) \<noteq> None) \<and>
         fst (HandleConnectedDisplays_slot env info s) =
           Inr (Some (client_id (map_info_pluggable s ! i)))"
proof -
  have "i < length (map_info_pluggable s) \<and>
         hwc_display s (client_id (map_info_pluggable s ! i)) = None \<and>
         (\<forall>j<i. hwc_display s (client_id (map_info_pluggable s ! j)) \<noteq> None)"
    using f by (auto simp: find_Some_iff)
  moreover have "fst (HandleConnectedDisplays_slot env info s) =
           Inr (Some (client_id (map_info_pluggable s ! i)))"
    using f c [of HWCDisplayPluggable] c [of HWCDisplayPluggableTest]
    by (auto simp: HandleConnectedDisplays_slot_def Let_def split: prod.splits)
  ultimately show ?thesis by blast
qed

lemma HandleConnectedDisplays_slot_none_free:
  assumes "\<forall>i<length (map_info_pluggable s). hwc_display s (client_id (map_info_pluggable s ! i)) \<noteq> None"
  shows "HandleConnectedDisplays_slot env info s = (Inr None, s)"
proof -
  have "find (\<lambda>i. hwc_display s (client_id (map_info_pluggable s ! i)) = None)
                [0..<length (map_info_pluggable s)] = None"
    using assms by (simp add: find_None_iff)
  then show ?thesis by (simp add: HandleConnectedDisplays_slot_def)
qed

text \<open>
  C7. The builtin mapping at client registration does not take the lowest free slot. With
  three free builtin slots (client ids 3, 4, 5) and two connected non-primary builtin panels
  (hardware ids 1 and 2), the first goes to slot 3 and the second to slot 5: slot 4 is
  skipped. With two free builtin slots (3 and 4) the second panel is dropped although
  slot 4 is free.
\<close>

theorem builtin_mapping_skips_slot:
  "map (\<lambda>m. (client_id m, sdm_id m)) (map_info_builtin (HandleBuiltInDisplays env_three_builtin session_registration))
     = [(3, 1), (4, - 1), (5, 2)] \<and>
   map (\<lambda>i. hwc_display (HandleBuiltInDisplays env_three_builtin session_registration) i \<noteq> None) [3, 4, 5]
     = [True, False, True] \<and>
   map (\<lambda>m. (client_id m, sdm_id m))
     (map_info_builtin (HandleBuiltInDisplays env_three_builtin session_registration_two))
     = [(3, 1), (4, - 1)] \<and>
   map (\<lambda>i. hwc_display (HandleBuiltInDisplays env_three_builtin session_registration_two) i \<noteq> None)
     [3, 4] = [True, False]"
  by (simp add: HandleBuiltInDisplays_def env_three_builtin_def hw_three_builtin_def
      session_registration_def session_registration_two_def sample_defs Let_def log_call_def set_display_def)

section \<open>Layer calls\<close>

text \<open>
  C10. \<^verbatim>\<open>CallLayerFunction\<close> on a display index in range: an unoccupied slot gives
  BadDisplay and an unknown layer handle gives BadLayer, both without any change of state
  (the member function is not called). For an existing layer the status is the member's; if
  the display then reports geometry changes, its validation is reset, so it is not in the
  SkipValidate state; otherwise the display is as the member left it.
\<close>

theorem CallLayerFunction_resets_validation:
  assumes "display < kNumDisplays env"
  shows "(hwc_display s display = None \<longrightarrow>
            CallLayerFunction env True display layer member s = (Error_BadDisplay, s)) \<and>
         (\<forall>d. hwc_display s display = Some d \<longrightarrow> GetHWCLayer d layer = None \<longrightarrow>
            CallLayerFunction env True display layer member s = (Error_BadLayer, s)) \<and>
         (\<forall>d l. hwc_display s display = Some d \<longrightarrow> GetHWCLayer d layer = Some l \<longrightarrow>
            fst (CallLayerFunction env True display layer member s) = fst (member layer d) \<and>
            (GetGeometryChanges (snd (member layer d)) \<noteq> 0 \<longrightarrow>
               hwc_display (snd (CallLayerFunction env True display layer member s)) display =
                 Some (ResetValidation (snd (member layer d))) \<and>
               \<not> IsSkipValidateState (ResetValidation (snd (member layer d))) \<and>
               validate_state (ResetValidation (snd (member layer d))) = kNoValidate) \<and>
            (GetGeometryChanges (snd (member layer d)) = 0 \<longrightarrow>
               hwc_display (snd (CallLayerFunction env True display layer member s)) display =
                 Some (snd (member layer d))))"
  using assms
  by (auto simp: CallLayerFunction_def Let_def ResetValidation_def IsSkipValidateState_def
      split: prod.splits)

theorem CallLayerFunction_resets_validation_witness:
  "0 < kNumDisplays sample_env \<and> hwc_display session_layer 0 = Some display_with_layer \<and>
   GetHWCLayer display_with_layer 7 = Some 0 \<and> IsSkipValidateState display_with_layer \<and>
   GetGeometryChanges (snd (move_layer 7 display_with_layer)) \<noteq> 0 \<and>
   fst (CallLayerFunction sample_env True 0 7 move_layer session_layer) = Error_None \<and>
   map_option validate_state
     (hwc_display (snd (CallLayerFunction sample_env True 0 7 move_layer session_layer)) 0) =
   Some kNoValidate"
proof -
  have k: "0 < kNumDisplays sample_env" by (simp add: sample_env_def)
  have d: "hwc_display session_layer 0 = Some display_with_layer"
    by (simp add: session_layer_def)
  have l: "GetHWCLayer display_with_layer 7 = Some 0"
    by (simp add: GetHWCLayer_def display_with_layer_def)
  have g: "GetGeometryChanges (snd (move_layer 7 display_with_layer)) \<noteq> 0"
    by (simp add: GetGeometryChanges_def move_layer_def)
  have sk: "IsSkipValidateState display_with_layer"
    by (simp add: IsSkipValidateState_def display_with_layer_def)
  from CallLayerFunction_resets_validation [OF k, of session_layer 7 move_layer,
      THEN conjunct2, THEN conjunct2, rule_format, OF d l]
  show ?thesis
    using k d l g sk by (simp add: move_layer_def ResetValidation_def)
qed

section \<open>Hotplug scans and the dummy primary\<close>

lemma aborts_simps [simp]:
  "\<not> aborts (Return x)" "\<not> aborts Blocked" "\<not> aborts Fault" "aborts (Aborted s)"
  by (simp_all add: aborts_def)

lemma aborts_andThen:
  "aborts (andThen m f) \<longleftrightarrow> aborts m \<or> (\<exists>x. m = Return x \<and> aborts (f x))"
  by (cases m) (simp_all add: andThen_def)

lemma aborts_Refresh [simp]: "\<not> aborts (Refresh i s)"
  by (simp add: Refresh_def split: prod.splits)

lemma aborts_DestroyDisplay [simp]: "\<not> aborts (DestroyDisplay env m s)"
  by (auto simp: DestroyDisplay_def DestroyPluggableDisplay_def Let_def aborts_andThen
      split: DisplayType.splits option.splits)

lemma aborts_HandleDisconnectedDisplays_slots [simp]:
  "\<not> aborts (HandleDisconnectedDisplays_slots env infos is s)"
  by (induction "is" arbitrary: s) (auto simp: aborts_andThen)

lemma aborts_HandleDisconnectedDisplays [simp]:
  "\<not> aborts (HandleDisconnectedDisplays env infos s)"
  by (auto simp: HandleDisconnectedDisplays_def aborts_andThen)

lemma aborts_HandleConnectedDisplays_primary [simp]:
  "\<not> aborts (HandleConnectedDisplays_primary env info s)"
  by (auto simp: HandleConnectedDisplays_primary_def Let_def aborts_andThen
      split: option.splits prod.splits)

lemma aborts_HandleConnectedDisplays_scan [simp]:
  "\<not> aborts (HandleConnectedDisplays_scan env infos pending s)"
  by (induction infos arbitrary: pending s)
     (auto simp: aborts_andThen split: option.splits prod.splits sum.splits)

lemma aborts_HandleConnectedDisplays [simp]:
  "\<not> aborts (HandleConnectedDisplays env infos delay s)"
  by (auto simp: HandleConnectedDisplays_def aborts_andThen split: option.splits sum.splits)

lemma CreatePluggableDisplays_aborts_iff:
  "aborts (CreatePluggableDisplays env delay s) \<longleftrightarrow> primary_ready s \<and> null_display_active s"
  by (auto simp: CreatePluggableDisplays_def aborts_andThen split: option.splits)

lemma CreatePrimaryDisplay_dummy:
  assumes "GetDisplaysStatus env = Some infos" "find is_primary infos = Some info"
    "\<not> is_connected info" "display_type info = kPluggable"
  shows "null_display_active (snd (CreatePrimaryDisplay env s))"
    "pluggable_is_primary (snd (CreatePrimaryDisplay env s))"
    "primary_ready (snd (CreatePrimaryDisplay env s)) = primary_ready s"
    "trace (snd (CreatePrimaryDisplay env s)) = trace s @
       [DisplayCreate HWCDisplayDummy (client_id (map_info_primary s)) (display_id info)]"
    "fst (CreatePrimaryDisplay env s) =
       fst (Display_Create env HWCDisplayDummy (client_id (map_info_primary s)) (display_id info))"
    "fst (CreatePrimaryDisplay env s) = 0 \<Longrightarrow> hwc_display (snd (CreatePrimaryDisplay env s)) 0 =
       Some (snd (Display_Create env HWCDisplayDummy (client_id (map_info_primary s))
                    (display_id info)))"
  using assms
  by (auto simp: CreatePrimaryDisplay_def Let_def log_call_def set_display_def split: prod.splits)

lemma CreatePrimaryDisplay_null_display_only:
  assumes "null_display_active (snd (CreatePrimaryDisplay env s))" "\<not> null_display_active s"
  shows "\<exists>infos info. GetDisplaysStatus env = Some infos \<and> find is_primary infos = Some info \<and>
           \<not> is_connected info \<and> display_type info = kPluggable"
  using assms
  by (auto simp: CreatePrimaryDisplay_def Let_def log_call_def set_display_def
      split: prod.splits option.splits if_splits)

lemma boot_then_hotplug_aborts: "aborts boot_then_hotplug"
  by (simp add: boot_then_hotplug_def policy_eval hw_primary_pluggable_def session_boot_def
      CreatePrimaryDisplay_def PresentDisplay_def PresentDisplay_locked_def
      PresentDisplay_connections_def PresentDisplayInternal_def Present_call_def
      HandlePendingRefresh_def HWCDisplay_Present_def SEQUENCE_EXIT_SCOPE_LOCK_def
      SEQUENCE_CANCEL_SCOPE_LOCK_def HasHDRSupport_def list_all_iff)

text \<open>
  C8. A hotplug scan (\<^verbatim>\<open>CreatePluggableDisplays\<close>) that runs when the primary is ready and
  \<open>null_display_active\<close> is set destroys the dummy display object of the primary slot,
  destroys the core and ends in \<^verbatim>\<open>abort()\<close>; this is the only way a scan aborts. When the
  hardware enumeration fails the scan returns \<open>-EINVAL\<close> and leaves the session as it was.
  \<open>null_display_active\<close> is set by \<^verbatim>\<open>CreatePrimaryDisplay\<close>, exactly when the primary entry
  of the hardware snapshot is a pluggable display that is not connected; the primary slot
  then holds the dummy display object (when its creation succeeds) and
  \<open>pluggable_is_primary\<close> is set.
\<close>

theorem primary_pluggable_reconnect_aborts:
  "(primary_ready s \<and> null_display_active s \<longrightarrow>
      CreatePluggableDisplays env delay s =
        Aborted (log_call DestroyCore (log_call (DisplayDestroy HWCDisplayDummy 0) s))) \<and>
   (aborts (CreatePluggableDisplays env delay s) \<longleftrightarrow>
      primary_ready s \<and> null_display_active s) \<and>
   (primary_ready s \<and> \<not> null_display_active s \<and> GetDisplaysStatus env = None \<longrightarrow>
      CreatePluggableDisplays env delay s = Return (- EINVAL, s)) \<and>
   (GetDisplaysStatus env = Some infos \<and> find is_primary infos = Some info \<and>
    \<not> is_connected info \<and> display_type info = kPluggable \<longrightarrow>
      null_display_active (snd (CreatePrimaryDisplay env s)) \<and>
      pluggable_is_primary (snd (CreatePrimaryDisplay env s)) \<and>
      primary_ready (snd (CreatePrimaryDisplay env s)) = primary_ready s \<and>
      trace (snd (CreatePrimaryDisplay env s)) = trace s @
        [DisplayCreate HWCDisplayDummy (client_id (map_info_primary s)) (display_id info)] \<and>
      (fst (CreatePrimaryDisplay env s) = 0 \<longrightarrow>
         hwc_display (snd (CreatePrimaryDisplay env s)) 0 =
           Some (snd (Display_Create env HWCDisplayDummy (client_id (map_info_primary s))
                        (display_id info))))) \<and>
   (null_display_active (snd (CreatePrimaryDisplay env s)) \<and> \<not> null_display_active s \<longrightarrow>
      (\<exists>infos info. GetDisplaysStatus env = Some infos \<and> find is_primary infos = Some info \<and>
         \<not> is_connected info \<and> display_type info = kPluggable))"
proof (intro conjI impI)
  show "CreatePluggableDisplays env delay s =
        Aborted (log_call DestroyCore (log_call (DisplayDestroy HWCDisplayDummy 0) s))"
    if "primary_ready s \<and> null_display_active s"
    using that by (simp add: CreatePluggableDisplays_def)
  show "aborts (CreatePluggableDisplays env delay s) \<longleftrightarrow>
      primary_ready s \<and> null_display_active s"
    by (rule CreatePluggableDisplays_aborts_iff)
  show "CreatePluggableDisplays env delay s = Return (- EINVAL, s)"
    if "primary_ready s \<and> \<not> null_display_active s \<and> GetDisplaysStatus env = None"
    using that by (simp add: CreatePluggableDisplays_def)
next
  assume a: "GetDisplaysStatus env = Some infos \<and> find is_primary infos = Some info \<and>
    \<not> is_connected info \<and> display_type info = kPluggable"
  then have b: "GetDisplaysStatus env = Some infos" "find is_primary infos = Some info"
    "\<not> is_connected info" "display_type info = kPluggable" by simp_all
  show "null_display_active (snd (CreatePrimaryDisplay env s))"
    by (rule CreatePrimaryDisplay_dummy(1) [OF b])
  show "pluggable_is_primary (snd (CreatePrimaryDisplay env s))"
    by (rule CreatePrimaryDisplay_dummy(2) [OF b])
  show "primary_ready (snd (CreatePrimaryDisplay env s)) = primary_ready s"
    by (rule CreatePrimaryDisplay_dummy(3) [OF b])
  show "trace (snd (CreatePrimaryDisplay env s)) = trace s @
        [DisplayCreate HWCDisplayDummy (client_id (map_info_primary s)) (display_id info)]"
    by (rule CreatePrimaryDisplay_dummy(4) [OF b])
  show "hwc_display (snd (CreatePrimaryDisplay env s)) 0 =
           Some (snd (Display_Create env HWCDisplayDummy (client_id (map_info_primary s))
                        (display_id info)))"
    if "fst (CreatePrimaryDisplay env s) = 0"
    by (rule CreatePrimaryDisplay_dummy(6) [OF b that])
next
  assume "null_display_active (snd (CreatePrimaryDisplay env s)) \<and> \<not> null_display_active s"
  then show "\<exists>infos info. GetDisplaysStatus env = Some infos \<and> find is_primary infos = Some info \<and>
         \<not> is_connected info \<and> display_type info = kPluggable"
    using CreatePrimaryDisplay_null_display_only by blast
qed

theorem primary_pluggable_reconnect_aborts_witness:
  "GetDisplaysStatus (env_hw False hw_primary_pluggable) = Some hw_primary_pluggable \<and>
   find is_primary hw_primary_pluggable = Some (hw_entry 0 kPluggable False True) \<and>
   \<not> is_connected (hw_entry 0 kPluggable False True) \<and>
   display_type (hw_entry 0 kPluggable False True) = kPluggable \<and>
   \<not> null_display_active session_boot \<and>
   null_display_active
     (snd (CreatePrimaryDisplay (env_hw False hw_primary_pluggable) session_boot)) \<and>
   aborts boot_then_hotplug"
proof -
  have h: "GetDisplaysStatus (env_hw False hw_primary_pluggable) = Some hw_primary_pluggable \<and>
      find is_primary hw_primary_pluggable = Some (hw_entry 0 kPluggable False True) \<and>
      \<not> is_connected (hw_entry 0 kPluggable False True) \<and>
      display_type (hw_entry 0 kPluggable False True) = kPluggable"
    by (simp add: env_hw_def hw_primary_pluggable_def hw_entry_def)
  have n: "\<not> null_display_active session_boot"
    by (simp add: session_boot_def sample_session_def)
  from primary_pluggable_reconnect_aborts
         [where env = "env_hw False hw_primary_pluggable" and infos = hw_primary_pluggable
            and info = "hw_entry 0 kPluggable False True" and s = session_boot,
          THEN conjunct2, THEN conjunct2, THEN conjunct2, THEN conjunct1, THEN mp, OF h]
  have "null_display_active
     (snd (CreatePrimaryDisplay (env_hw False hw_primary_pluggable) session_boot))"
    by (rule conjunct1)
  with h n boot_then_hotplug_aborts show ?thesis by simp
qed

section \<open>Repeated validation\<close>

lemma ValidateDisplay_cached:
  assumes k: "display < kNumDisplays env" and d: "hwc_display s display = Some d"
    and i: "IsInternalValidateState d"
  shows "\<exists>s1. ValidateDisplay env True display s =
           Return ((fst (Display_GetValidateDisplayOutput env d),
                    Some (snd (Display_GetValidateDisplayOutput env d))), s1) \<and>
           hwc_display s1 = hwc_display s \<and>
           filter is_compose (trace s1) =
             filter is_compose (trace s) @ [DisplayGetValidateOutput display]"
  using assms
  by (cases "Display_GetValidateDisplayOutput env d")
     (simp add: ValidateDisplay_def ValidateDisplayInternal_def Let_def)

lemma ValidateDisplay_compose:
  assumes v: "ValidateDisplay env True display s = Return (res, s')"
    and k: "display < kNumDisplays env" and d: "hwc_display s display = Some d"
  shows "filter is_compose (trace s') = filter is_compose (trace s) @
           [if IsInternalValidateState d then DisplayGetValidateOutput display
            else DisplayValidate display]"
proof -
  let ?e = "SEQUENCE_ENTRY_SCOPE_LOCK display s"
  have de: "hwc_display ?e display = Some d" using d by simp
  from v k de have "andThen
          (andThen (ValidateDisplayInternal env display ?e)
                 (\<lambda>((status, out_num), s2). Return ((status, Some out_num), s2)))
          (\<lambda>((status, out), s2).
             if status \<noteq> Error_None \<and> status \<noteq> Error_HasChanges then
               Return ((status, out), SEQUENCE_CANCEL_SCOPE_LOCK display s2)
             else Return ((status, out), s2)) = Return (res, s')"
    by (simp add: ValidateDisplay_def Let_def)
  then have "\<exists>x. andThen (ValidateDisplayInternal env display ?e)
                 (\<lambda>((status, out_num), s2). Return ((status, Some out_num), s2)) = Return x \<and>
      (\<lambda>((status, out), s2).
             if status \<noteq> Error_None \<and> status \<noteq> Error_HasChanges then
               Return ((status, out), SEQUENCE_CANCEL_SCOPE_LOCK display s2)
             else Return ((status, out), s2)) x = Return (res, s')"
    by (rule iffD1 [OF andThen_Return_iff])
  then obtain x where a': "andThen (ValidateDisplayInternal env display ?e)
                 (\<lambda>((status, out_num), s2). Return ((status, Some out_num), s2)) = Return x"
    and b': "(\<lambda>((status, out), s2).
             if status \<noteq> Error_None \<and> status \<noteq> Error_HasChanges then
               Return ((status, out), SEQUENCE_CANCEL_SCOPE_LOCK display s2)
             else Return ((status, out), s2)) x = Return (res, s')"
    by blast
  obtain st out s2 where x: "x = ((st, out), s2)" by (cases x) auto
  have a: "andThen (ValidateDisplayInternal env display ?e)
                 (\<lambda>((status, out_num), s2). Return ((status, Some out_num), s2)) =
          Return ((st, out), s2)"
    using a' x by simp
  have b: "s' = (if st \<noteq> Error_None \<and> st \<noteq> Error_HasChanges
                  then SEQUENCE_CANCEL_SCOPE_LOCK display s2 else s2)"
    using b' x by (auto split: if_splits)
  from a have "\<exists>y. ValidateDisplayInternal env display ?e = Return y \<and>
      (\<lambda>((status, out_num), s2). Return ((status, Some out_num), s2)) y = Return ((st, out), s2)"
    by (rule iffD1 [OF andThen_Return_iff])
  then obtain r where c: "ValidateDisplayInternal env display ?e = Return (r, s2)"
    by auto
  have "filter is_compose (trace s2) = filter is_compose (trace ?e) @
           [if IsInternalValidateState d then DisplayGetValidateOutput display
            else DisplayValidate display]"
    by (rule compose_ValidateDisplayInternal [OF c de])
  then show ?thesis using b by simp
qed

text \<open>
  C2, as the code has it. On an occupied slot in range, \<^verbatim>\<open>ValidateDisplay\<close> is served from
  \<^verbatim>\<open>GetValidateDisplayOutput\<close> exactly when the display object is in the internal-validate
  state, which only \<^verbatim>\<open>PresentDisplayInternal\<close> sets. In that state the call returns the
  cached output without calling \<^verbatim>\<open>Validate\<close>, leaves every display object as it was, and
  a second call in a row returns the identical result, again from the cache. In any other
  state every call that returns has run \<^verbatim>\<open>Validate\<close> on the display object (and the call
  returns when the refresh callback is registered).
\<close>

theorem validate_served_from_internal_validation:
  "display < kNumDisplays env \<and> hwc_display s display = Some d \<longrightarrow>
     (IsInternalValidateState d \<longrightarrow>
        (\<exists>s1 s2.
           ValidateDisplay env True display s =
             Return ((fst (Display_GetValidateDisplayOutput env d),
                      Some (snd (Display_GetValidateDisplayOutput env d))), s1) \<and>
           hwc_display s1 = hwc_display s \<and>
           filter is_compose (trace s1) =
             filter is_compose (trace s) @ [DisplayGetValidateOutput display] \<and>
           ValidateDisplay env True display s1 =
             Return ((fst (Display_GetValidateDisplayOutput env d),
                      Some (snd (Display_GetValidateDisplayOutput env d))), s2) \<and>
           hwc_display s2 = hwc_display s \<and>
           filter is_compose (trace s2) =
             filter is_compose (trace s1) @ [DisplayGetValidateOutput display])) \<and>
     (\<not> IsInternalValidateState d \<longrightarrow>
        (\<forall>res s1. ValidateDisplay env True display s = Return (res, s1) \<longrightarrow>
           filter is_compose (trace s1) =
             filter is_compose (trace s) @ [DisplayValidate display]) \<and>
        (callbacks_refresh s \<longrightarrow>
           (\<exists>res s1. ValidateDisplay env True display s = Return (res, s1))))"
proof (intro impI conjI allI)
  assume a: "display < kNumDisplays env \<and> hwc_display s display = Some d"
    and i: "IsInternalValidateState d"
  from a have k: "display < kNumDisplays env" and d: "hwc_display s display = Some d"
    by simp_all
  obtain s1 where 1: "ValidateDisplay env True display s =
             Return ((fst (Display_GetValidateDisplayOutput env d),
                      Some (snd (Display_GetValidateDisplayOutput env d))), s1)"
    "hwc_display s1 = hwc_display s"
    "filter is_compose (trace s1) =
             filter is_compose (trace s) @ [DisplayGetValidateOutput display]"
    using ValidateDisplay_cached [OF k d i] by blast
  have d1: "hwc_display s1 display = Some d" using 1(2) d by simp
  obtain s2 where 2: "ValidateDisplay env True display s1 =
             Return ((fst (Display_GetValidateDisplayOutput env d),
                      Some (snd (Display_GetValidateDisplayOutput env d))), s2)"
    "hwc_display s2 = hwc_display s1"
    "filter is_compose (trace s2) =
             filter is_compose (trace s1) @ [DisplayGetValidateOutput display]"
    using ValidateDisplay_cached [OF k d1 i] by blast
  from 1 2 show "\<exists>s1 s2.
           ValidateDisplay env True display s =
             Return ((fst (Display_GetValidateDisplayOutput env d),
                      Some (snd (Display_GetValidateDisplayOutput env d))), s1) \<and>
           hwc_display s1 = hwc_display s \<and>
           filter is_compose (trace s1) =
             filter is_compose (trace s) @ [DisplayGetValidateOutput display] \<and>
           ValidateDisplay env True display s1 =
             Return ((fst (Display_GetValidateDisplayOutput env d),
                      Some (snd (Display_GetValidateDisplayOutput env d))), s2) \<and>
           hwc_display s2 = hwc_display s \<and>
           filter is_compose (trace s2) =
             filter is_compose (trace s1) @ [DisplayGetValidateOutput display]"
    by (intro exI [of _ s1] exI [of _ s2]) simp
next
  fix res s1
  assume a: "display < kNumDisplays env \<and> hwc_display s display = Some d"
    and i: "\<not> IsInternalValidateState d"
    and v: "ValidateDisplay env True display s = Return (res, s1)"
  from a have k: "display < kNumDisplays env" and d: "hwc_display s display = Some d"
    by simp_all
  show "filter is_compose (trace s1) = filter is_compose (trace s) @ [DisplayValidate display]"
    using ValidateDisplay_compose [OF v k d] i by simp
next
  assume "callbacks_refresh s"
  then show "\<exists>res s1. ValidateDisplay env True display s = Return (res, s1)"
    by (rule ValidateDisplay_returns)
qed

theorem validate_served_from_internal_validation_witness:
  "0 < kNumDisplays sample_env \<and> hwc_display session_internal 0 = Some display_internal \<and>
   IsInternalValidateState display_internal \<and>
   (\<exists>s1 s2.
      ValidateDisplay sample_env True 0 session_internal =
        Return ((Error_None, Some (0, 0)), s1) \<and>
      filter is_compose (trace s1) = [DisplayGetValidateOutput 0] \<and>
      ValidateDisplay sample_env True 0 s1 = Return ((Error_None, Some (0, 0)), s2) \<and>
      filter is_compose (trace s2) = [DisplayGetValidateOutput 0, DisplayGetValidateOutput 0])"
proof -
  have h: "0 < kNumDisplays sample_env \<and> hwc_display session_internal 0 = Some display_internal"
    by (simp add: sample_env_def session_internal_def)
  have i: "IsInternalValidateState display_internal"
    by (simp add: IsInternalValidateState_def display_internal_def)
  have o: "Display_GetValidateDisplayOutput sample_env display_internal = (Error_None, 0, 0)"
    by (simp add: sample_env_def)
  have t: "trace session_internal = []"
    by (simp add: session_internal_def sample_session_def)
  from validate_served_from_internal_validation
         [where env = sample_env and display = 0 and s = session_internal
            and d = display_internal, THEN mp, OF h, THEN conjunct1, THEN mp, OF i]
  obtain s1 s2 where
    "ValidateDisplay sample_env True 0 session_internal =
        Return ((Error_None, Some (0, 0)), s1)"
    "filter is_compose (trace s1) = [DisplayGetValidateOutput 0]"
    "ValidateDisplay sample_env True 0 s1 = Return ((Error_None, Some (0, 0)), s2)"
    "filter is_compose (trace s2) = [DisplayGetValidateOutput 0, DisplayGetValidateOutput 0]"
    unfolding o t by auto
  then show ?thesis using h i by blast
qed

theorem validate_twice_counterexample:
  "map_option (\<lambda>(r, s). (r, filter is_compose (trace s), map_option validate_state (hwc_display s 0)))
     (returned validate_twice) =
   Some ((Error_None, Some (0, 0)), [DisplayValidate 0, DisplayValidate 0], Some kNormalValidate)"
  by (simp add: validate_twice_def returned_def ValidateDisplay_def ValidateDisplayInternal_def
      ValidateDisplayInternal_primary_def Validate_call_def HWCDisplay_Validate_def
      IsInternalValidateState_def sample_env_def session_pending_def sample_session_def
      fresh_display_def Let_def SEQUENCE_ENTRY_SCOPE_LOCK_def SEQUENCE_CANCEL_SCOPE_LOCK_def
      log_call_def set_display_def)

section \<open>Implicit validation in present\<close>

lemma compose_Present_call:
  assumes "Present_call env display s = Return (res, s1)"
  shows "filter is_compose (trace s1) = filter is_compose (trace s) @ [DisplayPresent display]"
  using assms by (auto simp: Present_call_def split: option.splits prod.splits)

lemma PresentDisplay_entry_more [simp]:
  "pluggable_is_primary (PresentDisplay_entry display s) = pluggable_is_primary s"
  "null_display_active (PresentDisplay_entry display s) = null_display_active s"
  "map_info_pluggable (PresentDisplay_entry display s) = map_info_pluggable s"
  by (simp_all add: PresentDisplay_entry_def Let_def SEQUENCE_EXIT_SCOPE_LOCK_def
      set_display_def log_call_def split: option.splits)

lemma PresentDisplay_exit_more [simp]:
  "pluggable_is_primary (PresentDisplay_exit display status s) = pluggable_is_primary s"
  "null_display_active (PresentDisplay_exit display status s) = null_display_active s"
  "map_info_pluggable (PresentDisplay_exit display status s) = map_info_pluggable s"
  "filter is_compose (trace (PresentDisplay_exit display status s)) = filter is_compose (trace s)"
  by (simp_all add: PresentDisplay_exit_def SEQUENCE_CANCEL_SCOPE_LOCK_def log_call_def)

lemma PresentDisplay_entry_occupied:
  assumes "hwc_display (PresentDisplay_entry display s) display = Some d0"
  shows "\<exists>d. hwc_display s display = Some d"
  using assms by (cases "hwc_display s display") (simp_all add: PresentDisplay_entry_def)

lemma PresentDisplay_shape_first:
  assumes k: "display < kNumDisplays env" and d: "hwc_display s display = Some d"
    and p: "PresentDisplayInternal env display (PresentDisplay_entry display s) =
              Return ((status, fence), s3)"
  shows "PresentDisplay env True display True s =
           andThen (PresentDisplay_connections env display (PresentDisplay_exit display status s3))
             (\<lambda>s8. andThen (HandlePendingRefresh env s8) (\<lambda>s9. Return ((status, fence), s9)))"
  using k d p
  unfolding PresentDisplay_def
  by (auto simp: Let_def PresentDisplay_entry_def PresentDisplay_exit_def
      PresentDisplay_locked_def)

lemma PresentDisplay_connections_ready:
  assumes cb: "callbacks_refresh s5" and o: "hwc_display s5 display \<noteq> None"
    and r: "primary_ready s5 \<or> display \<noteq> 0 \<or> pluggable_is_primary s5 \<or>
            (\<not> null_display_active s5 \<and> 0 \<notin> set (map client_id (map_info_pluggable s5)))"
  shows "\<exists>s8. PresentDisplay_connections env display s5 = Return s8 \<and> callbacks_refresh s8 \<and>
           (primary_ready s5 \<or> display \<noteq> 0 \<longrightarrow> s8 = s5)"
proof (cases "primary_ready s5 \<or> display \<noteq> 0")
  case True
  then show ?thesis using cb by (auto simp: PresentDisplay_connections_def)
next
  case False
  then have f: "\<not> primary_ready s5" "display = 0" by simp_all
  let ?s6 = "s5\<lparr>primary_ready := True\<rparr>"
  show ?thesis
  proof (cases "pluggable_is_primary s5")
    case True
    then show ?thesis using f cb by (simp add: PresentDisplay_connections_def)
  next
    case np: False
    then have "hotplug_ready ?s6" using cb o r f by (simp add: hotplug_ready_def)
    then obtain rc s7 where c: "CreatePluggableDisplays env False ?s6 = Return (rc, s7)"
      using CreatePluggableDisplays_returns by blast
    have "quiet ?s6 s7" using quiet_CreatePluggableDisplays [of ?s6 env False] c by simp
    then have "callbacks_refresh s7" using cb by (simp add: quiet_def)
    then show ?thesis using f np c by (simp add: PresentDisplay_connections_def)
  qed
qed

lemma HandlePendingRefresh_callbacks:
  "HandlePendingRefresh env s = Return s' \<Longrightarrow> callbacks_refresh s' = callbacks_refresh s"
  by (auto simp: HandlePendingRefresh_def andThen_Return_iff Refresh_Return_iff
      split: if_splits option.splits)

lemma PresentDisplay_finish:
  assumes k: "display < kNumDisplays env" and d: "hwc_display s display = Some d"
    and rdy: "present_ready display s"
    and p: "PresentDisplayInternal env display (PresentDisplay_entry display s) =
              Return ((status, fence), s3)"
  shows "\<exists>s'. PresentDisplay env True display True s = Return ((status, fence), s') \<and>
           sequence_wait s' = (sequence_wait s)(display := False) \<and>
           callbacks_refresh s' \<and>
           (primary_ready s \<or> display \<noteq> 0 \<longrightarrow>
              hwc_display s' = hwc_display s3 \<and>
              filter is_compose (trace s') = filter is_compose (trace s3))"
proof -
  let ?e = "PresentDisplay_entry display s"
  have cb: "callbacks_refresh s" using rdy by (simp add: present_ready_def)
  obtain d0 where de: "hwc_display ?e display = Some d0"
    using PresentDisplay_entry_display [OF d] by blast
  have "callbacks_refresh ?e \<or> \<not> need_invalidate ?e \<or> display \<noteq> 0" using cb by simp
  then obtain r1 s1 d1 where "PresentDisplayInternal env display ?e = Return (r1, s1)"
    "hwc_display s1 display = Some d1"
    using PresentDisplayInternal_returns [OF de] by blast
  then have o3: "hwc_display s3 display \<noteq> None" using p by simp
  have q: "quiet ?e s3"
    using quiet_PresentDisplayInternal [of ?e env display] p by simp
  let ?x = "PresentDisplay_exit display status s3"
  have cbx: "callbacks_refresh ?x" using q cb by (simp add: quiet_def)
  have ox: "hwc_display ?x display \<noteq> None" using o3 by simp
  have "map client_id (map_info_pluggable s3) = map client_id (map_info_pluggable ?e)"
    using q by (simp add: quiet_def client_ids_def)
  then have ids: "map client_id (map_info_pluggable ?x) = map client_id (map_info_pluggable s)"
    by simp
  have fl: "primary_ready ?x = primary_ready s" "pluggable_is_primary ?x = pluggable_is_primary s"
    "null_display_active ?x = null_display_active s"
    using q by (simp_all add: quiet_def)
  have rx: "primary_ready ?x \<or> display \<noteq> 0 \<or> pluggable_is_primary ?x \<or>
            (\<not> null_display_active ?x \<and> 0 \<notin> set (map client_id (map_info_pluggable ?x)))"
    using rdy unfolding fl ids present_ready_def by simp
  obtain s8 where c: "PresentDisplay_connections env display ?x = Return s8"
    and cb8: "callbacks_refresh s8" and same: "primary_ready ?x \<or> display \<noteq> 0 \<longrightarrow> s8 = ?x"
    using PresentDisplay_connections_ready [OF cbx ox rx] by blast
  obtain s9 where h: "HandlePendingRefresh env s8 = Return s9"
    using HandlePendingRefresh_returns [OF cb8] by blast
  have ret: "PresentDisplay env True display True s = Return ((status, fence), s9)"
    using PresentDisplay_shape_first [OF k d p] c h by simp
  have sw: "sequence_wait s9 = (sequence_wait s)(display := False)"
    using PresentDisplay_locks [OF ret k] by blast
  have cb9: "callbacks_refresh s9" using HandlePendingRefresh_callbacks [OF h] cb8 by simp
  have "hwc_display s9 = hwc_display s3 \<and>
        filter is_compose (trace s9) = filter is_compose (trace s3)"
    if "primary_ready s \<or> display \<noteq> 0"
  proof -
    have "s8 = ?x" using same that fl(1) by auto
    then show ?thesis
      using calm_HandlePendingRefresh [OF h] compose_HandlePendingRefresh [OF h] by simp
  qed
  then show ?thesis using ret sw cb9 by blast
qed

lemma PresentDisplay_implicit_validation:
  assumes k: "display < kNumDisplays env" and rdy: "present_ready display s"
    and de: "hwc_display (PresentDisplay_entry display s) display = Some d0"
    and skip: "IsSkipValidateState d0" "\<not> Display_CanSkipValidate env d0"
  shows "\<exists>error out_num s1 d1.
         ValidateDisplayInternal env display (PresentDisplay_entry display s) =
           Return ((error, out_num), s1) \<and>
         hwc_display s1 display = Some d1 \<and>
         filter is_compose (trace s1) = filter is_compose (trace s) @ [DisplayValidate display] \<and>
         (error \<noteq> Error_None \<or> Display_HasClientComposition env d1 \<longrightarrow>
            (\<exists>s'. PresentDisplay env True display True s =
                    Return ((Error_NotValidated, None), s') \<and>
                  \<not> sequence_wait s' display \<and>
                  (primary_ready s \<or> display \<noteq> 0 \<longrightarrow>
                     hwc_display s' =
                       (hwc_display s1)(display \<mapsto> SetValidationState kInternalValidate d1) \<and>
                     filter is_compose (trace s') =
                       filter is_compose (trace s) @ [DisplayValidate display] \<and>
                     (\<exists>s''. ValidateDisplay env True display s' =
                        Return ((fst (Display_GetValidateDisplayOutput env
                                        (SetValidationState kInternalValidate d1)),
                                 Some (snd (Display_GetValidateDisplayOutput env
                                        (SetValidationState kInternalValidate d1)))), s'') \<and>
                        filter is_compose (trace s'') =
                          filter is_compose (trace s') @ [DisplayGetValidateOutput display])))) \<and>
         (error = Error_None \<and> \<not> Display_HasClientComposition env d1 \<longrightarrow>
            (\<exists>s'. PresentDisplay env True display True s =
                    Return (fst (Display_Present env d1), s') \<and>
                  \<not> sequence_wait s' display \<and>
                  (primary_ready s \<or> display \<noteq> 0 \<longrightarrow>
                     hwc_display s' = (hwc_display s1)(display \<mapsto> snd (Display_Present env d1)) \<and>
                     filter is_compose (trace s') =
                       filter is_compose (trace s) @
                       [DisplayValidate display, DisplayPresent display])))"
proof -
  let ?e = "PresentDisplay_entry display s"
  have cb: "callbacks_refresh s" using rdy by (simp add: present_ready_def)
  obtain d where d: "hwc_display s display = Some d"
    using PresentDisplay_entry_occupied [OF de] by blast
  have cbe: "callbacks_refresh ?e \<or> \<not> need_invalidate ?e \<or> display \<noteq> 0" using cb by simp
  obtain res s1 d1 where v0: "ValidateDisplayInternal env display ?e = Return (res, s1)"
    and d1: "hwc_display s1 display = Some d1"
    using ValidateDisplayInternal_returns [OF de cbe] by blast
  obtain error out_num where res: "res = (error, out_num)" by (cases res)
  have v: "ValidateDisplayInternal env display ?e = Return ((error, out_num), s1)"
    using v0 res by simp
  have ni: "\<not> IsInternalValidateState d0"
    using skip(1) by (simp add: IsSkipValidateState_def IsInternalValidateState_def)
  have t1: "filter is_compose (trace s1) = filter is_compose (trace s) @ [DisplayValidate display]"
    using compose_ValidateDisplayInternal [OF v de] ni by simp
  have fail: "\<exists>s'. PresentDisplay env True display True s =
                    Return ((Error_NotValidated, None), s') \<and>
                  \<not> sequence_wait s' display \<and>
                  (primary_ready s \<or> display \<noteq> 0 \<longrightarrow>
                     hwc_display s' =
                       (hwc_display s1)(display \<mapsto> SetValidationState kInternalValidate d1) \<and>
                     filter is_compose (trace s') =
                       filter is_compose (trace s) @ [DisplayValidate display] \<and>
                     (\<exists>s''. ValidateDisplay env True display s' =
                        Return ((fst (Display_GetValidateDisplayOutput env
                                        (SetValidationState kInternalValidate d1)),
                                 Some (snd (Display_GetValidateDisplayOutput env
                                        (SetValidationState kInternalValidate d1)))), s'') \<and>
                        filter is_compose (trace s'') =
                          filter is_compose (trace s') @ [DisplayGetValidateOutput display]))"
    if c: "error \<noteq> Error_None \<or> Display_HasClientComposition env d1"
  proof -
    let ?s3 = "set_display display (Some (SetValidationState kInternalValidate d1)) s1"
    have p: "PresentDisplayInternal env display ?e = Return ((Error_NotValidated, None), ?s3)"
      using de skip v d1 c by (auto simp: PresentDisplayInternal_def)
    obtain s' where s': "PresentDisplay env True display True s =
          Return ((Error_NotValidated, None), s')"
      "sequence_wait s' = (sequence_wait s)(display := False)"
      "primary_ready s \<or> display \<noteq> 0 \<longrightarrow>
              hwc_display s' = hwc_display ?s3 \<and>
              filter is_compose (trace s') = filter is_compose (trace ?s3)"
      using PresentDisplay_finish [OF k d rdy p] by blast
    have w: "\<not> sequence_wait s' display" using s'(2) by simp
    have "hwc_display s' =
                       (hwc_display s1)(display \<mapsto> SetValidationState kInternalValidate d1) \<and>
                     filter is_compose (trace s') =
                       filter is_compose (trace s) @ [DisplayValidate display] \<and>
                     (\<exists>s''. ValidateDisplay env True display s' =
                        Return ((fst (Display_GetValidateDisplayOutput env
                                        (SetValidationState kInternalValidate d1)),
                                 Some (snd (Display_GetValidateDisplayOutput env
                                        (SetValidationState kInternalValidate d1)))), s'') \<and>
                        filter is_compose (trace s'') =
                          filter is_compose (trace s') @ [DisplayGetValidateOutput display])"
      if r: "primary_ready s \<or> display \<noteq> 0"
    proof -
      have e3: "hwc_display s' = hwc_display ?s3 \<and>
              filter is_compose (trace s') = filter is_compose (trace ?s3)"
        using s'(3) r by blast
      have a: "hwc_display s' =
                 (hwc_display s1)(display \<mapsto> SetValidationState kInternalValidate d1)"
        using e3 by simp
      have b: "filter is_compose (trace s') =
                 filter is_compose (trace s) @ [DisplayValidate display]"
        using e3 t1 by (simp add: set_display_def)
      have h: "hwc_display s' display = Some (SetValidationState kInternalValidate d1)"
        using a by simp
      have i: "IsInternalValidateState (SetValidationState kInternalValidate d1)"
        by (simp add: IsInternalValidateState_def SetValidationState_def)
      obtain s'' where "ValidateDisplay env True display s' =
                 Return ((fst (Display_GetValidateDisplayOutput env
                                 (SetValidationState kInternalValidate d1)),
                          Some (snd (Display_GetValidateDisplayOutput env
                                 (SetValidationState kInternalValidate d1)))), s'')"
        "filter is_compose (trace s'') =
                 filter is_compose (trace s') @ [DisplayGetValidateOutput display]"
        using ValidateDisplay_cached [OF k h i] by blast
      then show ?thesis using a b by blast
    qed
    then show ?thesis using s'(1) w by blast
  qed
  have pass: "\<exists>s'. PresentDisplay env True display True s =
                    Return (fst (Display_Present env d1), s') \<and>
                  \<not> sequence_wait s' display \<and>
                  (primary_ready s \<or> display \<noteq> 0 \<longrightarrow>
                     hwc_display s' = (hwc_display s1)(display \<mapsto> snd (Display_Present env d1)) \<and>
                     filter is_compose (trace s') =
                       filter is_compose (trace s) @
                       [DisplayValidate display, DisplayPresent display])"
    if c: "error = Error_None \<and> \<not> Display_HasClientComposition env d1"
  proof -
    obtain st fe dp where dp: "Display_Present env d1 = ((st, fe), dp)"
      by (cases "Display_Present env d1") auto
    let ?s3 = "log_call (DisplayPresent display) (set_display display (Some dp) s1)"
    have p: "PresentDisplayInternal env display ?e = Return ((st, fe), ?s3)"
      using de skip v d1 c dp by (simp add: PresentDisplayInternal_def Present_call_def)
    obtain s' where s': "PresentDisplay env True display True s = Return ((st, fe), s')"
      "sequence_wait s' = (sequence_wait s)(display := False)"
      "primary_ready s \<or> display \<noteq> 0 \<longrightarrow>
              hwc_display s' = hwc_display ?s3 \<and>
              filter is_compose (trace s') = filter is_compose (trace ?s3)"
      using PresentDisplay_finish [OF k d rdy p] by blast
    have w: "\<not> sequence_wait s' display" using s'(2) by simp
    have "filter is_compose (trace ?s3) =
            filter is_compose (trace s) @ [DisplayValidate display, DisplayPresent display]"
      using t1 by simp
    then show ?thesis using s' w dp by auto
  qed
  show ?thesis using v d1 t1 fail pass by blast
qed

lemma PresentDisplay_direct:
  assumes k: "display < kNumDisplays env" and rdy: "present_ready display s"
    and de: "hwc_display (PresentDisplay_entry display s) display = Some d0"
    and ns: "\<not> (IsSkipValidateState d0 \<and> \<not> Display_CanSkipValidate env d0)"
  shows "\<exists>s'. PresentDisplay env True display True s =
                Return (fst (Display_Present env d0), s') \<and>
              \<not> sequence_wait s' display \<and>
              (primary_ready s \<or> display \<noteq> 0 \<longrightarrow>
                 hwc_display s' = (hwc_display (PresentDisplay_entry display s))
                                    (display \<mapsto> snd (Display_Present env d0)) \<and>
                 filter is_compose (trace s') =
                   filter is_compose (trace s) @ [DisplayPresent display])"
proof -
  let ?e = "PresentDisplay_entry display s"
  obtain d where d: "hwc_display s display = Some d"
    using PresentDisplay_entry_occupied [OF de] by blast
  obtain st fe dp where dp: "Display_Present env d0 = ((st, fe), dp)"
    by (cases "Display_Present env d0") auto
  let ?s3 = "log_call (DisplayPresent display) (set_display display (Some dp) ?e)"
  have p: "PresentDisplayInternal env display ?e = Return ((st, fe), ?s3)"
    using de ns dp by (auto simp: PresentDisplayInternal_def Present_call_def)
  obtain s' where s': "PresentDisplay env True display True s = Return ((st, fe), s')"
    "sequence_wait s' = (sequence_wait s)(display := False)"
    "primary_ready s \<or> display \<noteq> 0 \<longrightarrow>
            hwc_display s' = hwc_display ?s3 \<and>
            filter is_compose (trace s') = filter is_compose (trace ?s3)"
    using PresentDisplay_finish [OF k d rdy p] by blast
  have w: "\<not> sequence_wait s' display" using s'(2) by simp
  have "filter is_compose (trace ?s3) = filter is_compose (trace s) @ [DisplayPresent display]"
    by simp
  then show ?thesis using s' w dp by auto
qed

lemma PresentDisplay_unvalidated:
  assumes k: "display < kNumDisplays env" and rdy: "present_ready display s"
    and de: "hwc_display (PresentDisplay_entry display s) display = Some d0"
    and n: "validate_state d0 = kNoValidate"
  shows "\<exists>s'. PresentDisplay (env\<lparr>Display_Present := HWCDisplay_Present commit\<rparr>)
                  True display True s = Return ((Error_NotValidated, None), s') \<and>
              \<not> sequence_wait s' display \<and>
              (primary_ready s \<or> display \<noteq> 0 \<longrightarrow>
                 hwc_display s' = hwc_display (PresentDisplay_entry display s) \<and>
                 filter is_compose (trace s') =
                   filter is_compose (trace s) @ [DisplayPresent display])"
proof -
  let ?env = "env\<lparr>Display_Present := HWCDisplay_Present commit\<rparr>"
  have k': "display < kNumDisplays ?env" using k by simp
  have ns: "\<not> (IsSkipValidateState d0 \<and> \<not> Display_CanSkipValidate ?env d0)"
    using n by (simp add: IsSkipValidateState_def)
  have dp: "Display_Present ?env d0 = ((Error_NotValidated, None), d0)"
    using n by (simp add: HWCDisplay_Present_def)
  have "(hwc_display (PresentDisplay_entry display s))(display \<mapsto> d0) =
        hwc_display (PresentDisplay_entry display s)"
    using de by (simp add: fun_upd_idem)
  then show ?thesis
    using PresentDisplay_direct [OF k' rdy de ns] dp by simp
qed

lemma session_client_composition_entry:
  "0 < kNumDisplays sample_env \<and> present_ready 0 session_client_composition \<and>
   hwc_display (PresentDisplay_entry 0 session_client_composition) 0 =
     Some display_client_composition"
  by (simp add: sample_env_def session_client_composition_def sample_session_def
      present_ready_def PresentDisplay_entry_def SEQUENCE_EXIT_SCOPE_LOCK_def log_call_def Let_def)

lemma session_client_composition_validate:
  "\<exists>s1. ValidateDisplayInternal sample_env 0 (PresentDisplay_entry 0 session_client_composition) =
          Return ((Error_None, 0, 0), s1) \<and>
        hwc_display s1 0 = Some (display_client_composition\<lparr>validate_state := kNormalValidate\<rparr>)"
  by (simp add: sample_env_def session_client_composition_def sample_session_def
      display_client_composition_def fresh_display_def
      PresentDisplay_entry_def SEQUENCE_EXIT_SCOPE_LOCK_def log_call_def Let_def
      ValidateDisplayInternal_def ValidateDisplayInternal_primary_def Validate_call_def
      HWCDisplay_Validate_def IsInternalValidateState_def set_display_def)

lemma session_first_entry:
  "0 < kNumDisplays (env_hw True (hw_primary_ext True)) \<and> present_ready 0 session_first \<and>
   hwc_display (PresentDisplay_entry 0 session_first) 0 = Some fresh_display"
  by (simp add: env_hw_def sample_env_def session_first_def sample_session_def slot_def
      DisplayMapInfo_init_def present_ready_def PresentDisplay_entry_def
      SEQUENCE_EXIT_SCOPE_LOCK_def log_call_def Let_def)

lemma env_hw_Present:
  "(env_hw b infos)\<lparr>Display_Present :=
      HWCDisplay_Present (\<lambda>d. ((Error_None, Some 0), d\<lparr>validate_state := kSkipValidate\<rparr>))\<rparr> =
   env_hw b infos"
  by (simp add: env_hw_def sample_env_def)

lemma first_present_connects:
  "map_option (\<lambda>(r, s). (r, primary_ready s, map_option validate_state (hwc_display s 0),
                          hwc_display s 1 \<noteq> None, filter is_compose (trace s)))
     (returned first_present) =
   Some ((Error_NotValidated, None), True, Some kNoValidate, True, [DisplayPresent 0])"
  by (simp add: first_present_def session_first_def policy_eval hw_primary_ext_def
      PresentDisplay_def PresentDisplay_locked_def PresentDisplay_connections_def
      PresentDisplayInternal_def Present_call_def HandlePendingRefresh_def
      HWCDisplay_Present_def SEQUENCE_EXIT_SCOPE_LOCK_def SEQUENCE_CANCEL_SCOPE_LOCK_def
      HasHDRSupport_def list_all_iff IsSkipValidateState_def ResetValidation_def
      is_compose_def)

lemma present_after_implicit_validation:
  "map_option (\<lambda>(r, s). (r, map_option validate_state (hwc_display s 0),
                          filter is_compose (trace s)))
     (returned (PresentDisplay sample_env True 0 True session_device_composition)) =
   Some ((Error_None, Some 0), Some kSkipValidate, [DisplayValidate 0, DisplayPresent 0])"
  by (simp add: session_device_composition_def display_device_composition_def policy_eval
      PresentDisplay_def PresentDisplay_locked_def PresentDisplay_connections_def
      PresentDisplayInternal_def Present_call_def Validate_call_def ValidateDisplayInternal_def
      ValidateDisplayInternal_primary_def HWCDisplay_Validate_def HandlePendingRefresh_def
      HWCDisplay_Present_def SEQUENCE_EXIT_SCOPE_LOCK_def SEQUENCE_CANCEL_SCOPE_LOCK_def
      list_all_iff IsSkipValidateState_def IsInternalValidateState_def is_compose_def)

text \<open>
  C3. \<^verbatim>\<open>PresentDisplay\<close> on an occupied slot in range, in a state in which it returns
  (\<open>present_ready\<close>, which includes the first present on a new primary); \<open>hwc_disp\<close> is the
  display object as \<^verbatim>\<open>PresentDisplayInternal\<close> finds it. If it is in the SkipValidate state
  and \<^verbatim>\<open>CanSkipValidate\<close> is false, the implicit validation runs first and returns, with
  \<^verbatim>\<open>Validate\<close> called on the object. If its status is not None or the object then has
  client composition, \<^verbatim>\<open>PresentDisplay\<close> returns NotValidated without calling
  \<^verbatim>\<open>Present\<close>, the object is left in the internal-validate state, the sequence flag of the
  slot is clear, and the next \<^verbatim>\<open>ValidateDisplay\<close> returns the output of that validation.
  Otherwise \<^verbatim>\<open>Present\<close> is called on the validated object, and its result is the result of
  \<^verbatim>\<open>PresentDisplay\<close>. In every other state of the object \<^verbatim>\<open>Present\<close> is called on it as it
  is, without a validation, and its result is the result of \<^verbatim>\<open>PresentDisplay\<close>. So when
  the object is unvalidated, as a new display object is, and \<^verbatim>\<open>Present\<close> of the display is
  the one the spec describes, which refuses an unvalidated display, \<^verbatim>\<open>PresentDisplay\<close>
  returns NotValidated and the display objects are as they were before the call to
  \<^verbatim>\<open>Present\<close>. The facts about the display objects and the trace are stated for a call
  that runs no hotplug scan (the primary is ready or the slot is not the primary's).
\<close>

theorem present_implicit_validation:
  "display < kNumDisplays env \<and> present_ready display s \<and>
   hwc_display (PresentDisplay_entry display s) display = Some hwc_disp \<longrightarrow>
   (IsSkipValidateState hwc_disp \<and> \<not> Display_CanSkipValidate env hwc_disp \<longrightarrow>
      (\<exists>error out_num s1 d1.
         ValidateDisplayInternal env display (PresentDisplay_entry display s) =
           Return ((error, out_num), s1) \<and>
         hwc_display s1 display = Some d1 \<and>
         filter is_compose (trace s1) = filter is_compose (trace s) @ [DisplayValidate display] \<and>
         (error \<noteq> Error_None \<or> Display_HasClientComposition env d1 \<longrightarrow>
            (\<exists>s'. PresentDisplay env True display True s =
                    Return ((Error_NotValidated, None), s') \<and>
                  \<not> sequence_wait s' display \<and>
                  (primary_ready s \<or> display \<noteq> 0 \<longrightarrow>
                     hwc_display s' =
                       (hwc_display s1)(display \<mapsto> SetValidationState kInternalValidate d1) \<and>
                     filter is_compose (trace s') =
                       filter is_compose (trace s) @ [DisplayValidate display] \<and>
                     (\<exists>s''. ValidateDisplay env True display s' =
                        Return ((fst (Display_GetValidateDisplayOutput env
                                        (SetValidationState kInternalValidate d1)),
                                 Some (snd (Display_GetValidateDisplayOutput env
                                        (SetValidationState kInternalValidate d1)))), s'') \<and>
                        filter is_compose (trace s'') =
                          filter is_compose (trace s') @ [DisplayGetValidateOutput display])))) \<and>
         (error = Error_None \<and> \<not> Display_HasClientComposition env d1 \<longrightarrow>
            (\<exists>s'. PresentDisplay env True display True s =
                    Return (fst (Display_Present env d1), s') \<and>
                  \<not> sequence_wait s' display \<and>
                  (primary_ready s \<or> display \<noteq> 0 \<longrightarrow>
                     hwc_display s' = (hwc_display s1)(display \<mapsto> snd (Display_Present env d1)) \<and>
                     filter is_compose (trace s') =
                       filter is_compose (trace s) @
                       [DisplayValidate display, DisplayPresent display]))))) \<and>
   (\<not> (IsSkipValidateState hwc_disp \<and> \<not> Display_CanSkipValidate env hwc_disp) \<longrightarrow>
      (\<exists>s'. PresentDisplay env True display True s =
                Return (fst (Display_Present env hwc_disp), s') \<and>
              \<not> sequence_wait s' display \<and>
              (primary_ready s \<or> display \<noteq> 0 \<longrightarrow>
                 hwc_display s' = (hwc_display (PresentDisplay_entry display s))
                                    (display \<mapsto> snd (Display_Present env hwc_disp)) \<and>
                 filter is_compose (trace s') =
                   filter is_compose (trace s) @ [DisplayPresent display]))) \<and>
   (validate_state hwc_disp = kNoValidate \<longrightarrow>
      (\<exists>s'. PresentDisplay (env\<lparr>Display_Present := HWCDisplay_Present commit\<rparr>)
                  True display True s = Return ((Error_NotValidated, None), s') \<and>
              \<not> sequence_wait s' display \<and>
              (primary_ready s \<or> display \<noteq> 0 \<longrightarrow>
                 hwc_display s' = hwc_display (PresentDisplay_entry display s) \<and>
                 filter is_compose (trace s') =
                   filter is_compose (trace s) @ [DisplayPresent display])))"
proof (intro impI conjI)
  assume a: "display < kNumDisplays env \<and> present_ready display s \<and>
      hwc_display (PresentDisplay_entry display s) display = Some hwc_disp"
    and b: "IsSkipValidateState hwc_disp \<and> \<not> Display_CanSkipValidate env hwc_disp"
  from a have k: "display < kNumDisplays env" and rdy: "present_ready display s"
    and de: "hwc_display (PresentDisplay_entry display s) display = Some hwc_disp" by simp_all
  from b have skip: "IsSkipValidateState hwc_disp" "\<not> Display_CanSkipValidate env hwc_disp"
    by simp_all
  show "\<exists>error out_num s1 d1.
         ValidateDisplayInternal env display (PresentDisplay_entry display s) =
           Return ((error, out_num), s1) \<and>
         hwc_display s1 display = Some d1 \<and>
         filter is_compose (trace s1) = filter is_compose (trace s) @ [DisplayValidate display] \<and>
         (error \<noteq> Error_None \<or> Display_HasClientComposition env d1 \<longrightarrow>
            (\<exists>s'. PresentDisplay env True display True s =
                    Return ((Error_NotValidated, None), s') \<and>
                  \<not> sequence_wait s' display \<and>
                  (primary_ready s \<or> display \<noteq> 0 \<longrightarrow>
                     hwc_display s' =
                       (hwc_display s1)(display \<mapsto> SetValidationState kInternalValidate d1) \<and>
                     filter is_compose (trace s') =
                       filter is_compose (trace s) @ [DisplayValidate display] \<and>
                     (\<exists>s''. ValidateDisplay env True display s' =
                        Return ((fst (Display_GetValidateDisplayOutput env
                                        (SetValidationState kInternalValidate d1)),
                                 Some (snd (Display_GetValidateDisplayOutput env
                                        (SetValidationState kInternalValidate d1)))), s'') \<and>
                        filter is_compose (trace s'') =
                          filter is_compose (trace s') @ [DisplayGetValidateOutput display])))) \<and>
         (error = Error_None \<and> \<not> Display_HasClientComposition env d1 \<longrightarrow>
            (\<exists>s'. PresentDisplay env True display True s =
                    Return (fst (Display_Present env d1), s') \<and>
                  \<not> sequence_wait s' display \<and>
                  (primary_ready s \<or> display \<noteq> 0 \<longrightarrow>
                     hwc_display s' = (hwc_display s1)(display \<mapsto> snd (Display_Present env d1)) \<and>
                     filter is_compose (trace s') =
                       filter is_compose (trace s) @
                       [DisplayValidate display, DisplayPresent display])))"
    by (rule PresentDisplay_implicit_validation [OF k rdy de skip])
next
  assume a: "display < kNumDisplays env \<and> present_ready display s \<and>
      hwc_display (PresentDisplay_entry display s) display = Some hwc_disp"
    and ns: "\<not> (IsSkipValidateState hwc_disp \<and> \<not> Display_CanSkipValidate env hwc_disp)"
  from a have k: "display < kNumDisplays env" and rdy: "present_ready display s"
    and de: "hwc_display (PresentDisplay_entry display s) display = Some hwc_disp" by simp_all
  show "\<exists>s'. PresentDisplay env True display True s =
                Return (fst (Display_Present env hwc_disp), s') \<and>
              \<not> sequence_wait s' display \<and>
              (primary_ready s \<or> display \<noteq> 0 \<longrightarrow>
                 hwc_display s' = (hwc_display (PresentDisplay_entry display s))
                                    (display \<mapsto> snd (Display_Present env hwc_disp)) \<and>
                 filter is_compose (trace s') =
                   filter is_compose (trace s) @ [DisplayPresent display])"
    by (rule PresentDisplay_direct [OF k rdy de ns])
next
  assume a: "display < kNumDisplays env \<and> present_ready display s \<and>
      hwc_display (PresentDisplay_entry display s) display = Some hwc_disp"
    and n: "validate_state hwc_disp = kNoValidate"
  from a have k: "display < kNumDisplays env" and rdy: "present_ready display s"
    and de: "hwc_display (PresentDisplay_entry display s) display = Some hwc_disp" by simp_all
  show "\<exists>s'. PresentDisplay (env\<lparr>Display_Present := HWCDisplay_Present commit\<rparr>)
                  True display True s = Return ((Error_NotValidated, None), s') \<and>
              \<not> sequence_wait s' display \<and>
              (primary_ready s \<or> display \<noteq> 0 \<longrightarrow>
                 hwc_display s' = hwc_display (PresentDisplay_entry display s) \<and>
                 filter is_compose (trace s') =
                   filter is_compose (trace s) @ [DisplayPresent display])"
    by (rule PresentDisplay_unvalidated [OF k rdy de n])
qed

theorem present_implicit_validation_witness:
  "0 < kNumDisplays sample_env \<and> present_ready 0 session_client_composition \<and>
   hwc_display (PresentDisplay_entry 0 session_client_composition) 0 =
     Some display_client_composition \<and>
   IsSkipValidateState display_client_composition \<and>
   \<not> Display_CanSkipValidate sample_env display_client_composition \<and>
   (\<exists>s' s''.
      PresentDisplay sample_env True 0 True session_client_composition =
        Return ((Error_NotValidated, None), s') \<and>
      map_option validate_state (hwc_display s' 0) = Some kInternalValidate \<and>
      filter is_compose (trace s') = [DisplayValidate 0] \<and>
      ValidateDisplay sample_env True 0 s' = Return ((Error_None, Some (0, 0)), s'') \<and>
      filter is_compose (trace s'') = [DisplayValidate 0, DisplayGetValidateOutput 0]) \<and>
   0 < kNumDisplays (env_hw True (hw_primary_ext True)) \<and> present_ready 0 session_first \<and>
   \<not> primary_ready session_first \<and>
   hwc_display (PresentDisplay_entry 0 session_first) 0 = Some fresh_display \<and>
   validate_state fresh_display = kNoValidate \<and>
   (\<exists>s'. first_present = Return ((Error_NotValidated, None), s') \<and> \<not> sequence_wait s' 0)"
proof -
  note h = session_client_composition_entry
  have skip: "IsSkipValidateState display_client_composition \<and>
      \<not> Display_CanSkipValidate sample_env display_client_composition"
    by (simp add: IsSkipValidateState_def display_client_composition_def sample_env_def)
  have t: "trace session_client_composition = []" "primary_ready session_client_composition"
    by (simp_all add: session_client_composition_def sample_session_def)
  have o: "\<And>d. Display_GetValidateDisplayOutput sample_env d = (Error_None, 0, 0)"
    by (simp add: sample_env_def)
  obtain x where x: "ValidateDisplayInternal sample_env 0
        (PresentDisplay_entry 0 session_client_composition) = Return ((Error_None, 0, 0), x)"
    "hwc_display x 0 = Some (display_client_composition\<lparr>validate_state := kNormalValidate\<rparr>)"
    using session_client_composition_validate by blast
  from present_implicit_validation
         [where env = sample_env and display = 0 and s = session_client_composition
            and hwc_disp = display_client_composition,
          THEN mp, OF h, THEN conjunct1, THEN mp, OF skip]
  obtain error out_num s1 d1 where
    v: "ValidateDisplayInternal sample_env 0 (PresentDisplay_entry 0 session_client_composition) =
           Return ((error, out_num), s1)"
    and d1: "hwc_display s1 0 = Some d1"
    and imp: "error \<noteq> Error_None \<or> Display_HasClientComposition sample_env d1 \<longrightarrow>
            (\<exists>s'. PresentDisplay sample_env True 0 True session_client_composition =
                    Return ((Error_NotValidated, None), s') \<and>
                  \<not> sequence_wait s' 0 \<and>
                  (primary_ready session_client_composition \<or> (0::nat) \<noteq> 0 \<longrightarrow>
                     hwc_display s' =
                       (hwc_display s1)(0 \<mapsto> SetValidationState kInternalValidate d1) \<and>
                     filter is_compose (trace s') =
                       filter is_compose (trace session_client_composition) @
                       [DisplayValidate 0] \<and>
                     (\<exists>s''. ValidateDisplay sample_env True 0 s' =
                        Return ((fst (Display_GetValidateDisplayOutput sample_env
                                        (SetValidationState kInternalValidate d1)),
                                 Some (snd (Display_GetValidateDisplayOutput sample_env
                                        (SetValidationState kInternalValidate d1)))), s'') \<and>
                        filter is_compose (trace s'') =
                          filter is_compose (trace s') @ [DisplayGetValidateOutput 0])))"
    by blast
  have "s1 = x" using v x(1) by simp
  then have "d1 = display_client_composition\<lparr>validate_state := kNormalValidate\<rparr>"
    using d1 x(2) by simp
  then have "Display_HasClientComposition sample_env d1"
    by (simp add: sample_env_def display_client_composition_def)
  with imp t(2) obtain s' s'' where
    "PresentDisplay sample_env True 0 True session_client_composition =
                 Return ((Error_NotValidated, None), s')"
    "hwc_display s' = (hwc_display s1)(0 \<mapsto> SetValidationState kInternalValidate d1)"
    "filter is_compose (trace s') =
                 filter is_compose (trace session_client_composition) @ [DisplayValidate 0]"
    "ValidateDisplay sample_env True 0 s' = Return ((Error_None, Some (0, 0)), s'')"
    "filter is_compose (trace s'') = filter is_compose (trace s') @ [DisplayGetValidateOutput 0]"
    unfolding o by auto
  then have first: "\<exists>s' s''.
      PresentDisplay sample_env True 0 True session_client_composition =
        Return ((Error_NotValidated, None), s') \<and>
      map_option validate_state (hwc_display s' 0) = Some kInternalValidate \<and>
      filter is_compose (trace s') = [DisplayValidate 0] \<and>
      ValidateDisplay sample_env True 0 s' = Return ((Error_None, Some (0, 0)), s'') \<and>
      filter is_compose (trace s'') = [DisplayValidate 0, DisplayGetValidateOutput 0]"
    using t by (intro exI [of _ s'] exI [of _ s'']) (simp add: SetValidationState_def)
  note g = session_first_entry
  have n: "validate_state fresh_display = kNoValidate" by (simp add: fresh_display_def)
  have np: "\<not> primary_ready session_first" by (simp add: session_first_def)
  from present_implicit_validation
         [where env = "env_hw True (hw_primary_ext True)" and display = 0 and s = session_first
            and hwc_disp = fresh_display
            and commit = "\<lambda>d. ((Error_None, Some 0), d\<lparr>validate_state := kSkipValidate\<rparr>)",
          THEN mp, OF g, THEN conjunct2, THEN conjunct2, THEN mp, OF n]
  have second: "\<exists>s'. first_present = Return ((Error_NotValidated, None), s') \<and>
      \<not> sequence_wait s' 0"
    unfolding env_hw_Present first_present_def by blast
  show ?thesis using h skip first g np n second by blast
qed

end
